theory Spec2Isabelle
  imports Main "HOL-Library.List_Lexorder" "HOL-Library.Char_ord"
begin

section \<open>Messages, tool calls and errors\<close>

text \<open>
  JSON values stand for the untyped data of the source (tool arguments, artifacts,
  resume payloads). JavaScript numbers are modelled by integers.
\<close>

datatype json =
    JNull | JBool bool | JNum int | JStr string
  | JArr "json list" | JObj "(string \<times> json) list"

text \<open>JavaScript truthiness of a JSON value (\<^verbatim>\<open>!!v\<close>).\<close>

fun truthy :: "json \<Rightarrow> bool" where
  "truthy JNull = False"
| "truthy (JBool b) = b"
| "truthy (JNum n) = (n \<noteq> 0)"
| "truthy (JStr s) = (s \<noteq> [])"
| "truthy (JArr _) = True"
| "truthy (JObj _) = True"

text \<open>Message content is a string or a structured (non-string) value.\<close>

datatype content = CString string | CComplex json

text \<open>
  A LangChain \<^verbatim>\<open>ToolCall\<close>: \<^verbatim>\<open>{type?, name, args, id?}\<close>. The id is optional in the
  type, and the code guards for its absence (\<^verbatim>\<open>call.id ?? ""\<close>, \<^verbatim>\<open>toolCall.id!\<close>).
\<close>

record tool_call =
  tc_type :: "string option"
  tc_name :: string
  tc_args :: json
  tc_id :: "string option"

record tool_message =
  tm_content :: content
  tm_name :: "string option"
  tm_tool_call_id :: "string option"
  tm_status :: "string option"
  tm_artifact :: "json option"

record ai_message =
  ai_content :: content
  ai_tool_calls :: "tool_call list option"

datatype message =
    AIMessage ai_message
  | ToolMessage tool_message
  | HumanMessage content
  | SystemMessage content

fun getType :: "message \<Rightarrow> string" where
  "getType (AIMessage _) = ''ai''"
| "getType (ToolMessage _) = ''tool''"
| "getType (HumanMessage _) = ''human''"
| "getType (SystemMessage _) = ''system''"

fun isAIMessage :: "message \<Rightarrow> bool" where
  "isAIMessage (AIMessage _) = True"
| "isAIMessage _ = False"

text \<open>
  Thrown values. A graph interrupt carries the value handed to \<^verbatim>\<open>interrupt(...)\<close>;
  \<open>GraphRecursionError\<close> is the error LangGraph raises at the recursion limit; every
  other thrown \<^verbatim>\<open>Error\<close> is its message.
\<close>

datatype interrupt_value = ClientToolRequest "tool_call list" | OtherInterrupt json

datatype exn =
    GraphInterrupt interrupt_value
  | GraphRecursionError string
  | Error string

fun isGraphInterrupt :: "exn \<Rightarrow> bool" where
  "isGraphInterrupt (GraphInterrupt _) = True"
| "isGraphInterrupt _ = False"

text \<open>\<^verbatim>\<open>e.message\<close> of a thrown error that is not an interrupt.\<close>

fun exn_message :: "exn \<Rightarrow> string" where
  "exn_message (Error m) = m"
| "exn_message (GraphRecursionError m) = m"
| "exn_message (GraphInterrupt _) = []"

text \<open>
  \<^verbatim>\<open>getErrorMessage\<close> (server-common): for an instance of \<^verbatim>\<open>Error\<close> it is
  \<^verbatim>\<open>err.message\<close>; the branches for strings, aggregate errors and plain objects
  do not apply to the thrown values modelled here.
\<close>

definition getErrorMessage :: "exn \<Rightarrow> string" where
  "getErrorMessage err = exn_message err"

definition dq :: string where "dq = [CHR 0x22]"
definition nl :: string where "nl = [CHR 0x0A]"

text \<open>
  Object literals and spreads: an object is an association list in insertion order;
  assigning a key that is present replaces its value in place, a new key is appended.
\<close>

fun obj_set :: "string \<Rightarrow> 'v \<Rightarrow> (string \<times> 'v) list \<Rightarrow> (string \<times> 'v) list" where
  "obj_set k v [] = [(k, v)]"
| "obj_set k v ((k', v') # kvs) =
     (if k' = k then (k, v) # kvs else (k', v') # obj_set k v kvs)"

section \<open>The tool node\<close>

text \<open>
  \<^verbatim>\<open>tool_node.ts\<close>. A \<^verbatim>\<open>Command\<close> carries an update that is either an array of
  \<^verbatim>\<open>[key, value]\<close> pairs or an object; the values that occur are messages lists,
  \<^verbatim>\<open>{messages: ...}\<close> channel objects, message content, JSON and \<^verbatim>\<open>undefined\<close>.
\<close>

datatype uvalue =
    UUndefined
  | UJson json
  | UContent content
  | UMessages "message list"
  | UObjMessages uvalue

datatype update =
    UpdPairs "(string option \<times> uvalue) list"
  | UpdObject "(string \<times> uvalue) list"

record command =
  cmd_update :: "update option"
  cmd_goto :: "string list"

text \<open>What a tool (or a \<^verbatim>\<open>wrapToolCall\<close> hook) hands back.\<close>

datatype tool_output =
    RetToolMessage tool_message
  | RetCommand command
  | RetRaw content

text \<open>
  The part of the \<^verbatim>\<open>RunnableConfig\<close> the node writes before it invokes the tool:
  \<^verbatim>\<open>metadata.toolName\<close> and \<^verbatim>\<open>configurable.tool_call_id\<close>.
\<close>

record runnable_config =
  rc_toolName :: "string option"
  rc_tool_call_id :: "string option"

text \<open>
  Modelled from the spec: the declaration of \<^verbatim>\<open>ChatMessageEventTypeEnum\<close> is not among
  the sources; the spec names the event \<^verbatim>\<open>on_tool_error\<close>.
\<close>

datatype chat_event_type = ON_TOOL_ERROR

text \<open>
  Observable effects of a tool call, in order: each invocation of a tool and each custom
  event dispatched.
\<close>

datatype event =
    ToolInvoked string tool_call runnable_config
  | CustomEvent chat_event_type tool_call string

record tool =
  tool_name :: string
  tool_invoke :: "tool_call \<Rightarrow> runnable_config \<Rightarrow> exn + tool_output"

record channel_state =
  ch_messages :: "message list option"

record input_state =
  in_messages :: "message list option"
  in_channels :: "(string \<times> channel_state) list"
  in_toolCall :: "tool_call option"

datatype node_input = InputArray "message list" | InputObject input_state

record tool_call_request =
  rq_toolCall :: tool_call
  rq_tool :: tool
  rq_state :: input_state
  rq_runtime :: "runnable_config option"

type_synonym tool_call_handler = "tool_call_request \<Rightarrow> (exn + tool_output) \<times> event list"

type_synonym wrap_tool_call_hook =
  "tool_call_request \<Rightarrow> tool_call_handler \<Rightarrow> (exn + tool_output) \<times> event list"

record variable_assigner =
  va_inputType :: string
  va_value :: "json option"
  va_variableSelector :: string

record tool_node =
  tn_tools :: "tool list"
  tn_handleToolErrors :: bool
  tn_channel :: "string option"
  tn_variables :: "variable_assigner list option"
  tn_toolName :: "string option"
  tn_wrapToolCall :: "wrap_tool_call_hook option"

text \<open>A computed key \<^verbatim>\<open>[this.channel]\<close>: \<^verbatim>\<open>null\<close> becomes the string "null".\<close>

definition channel_key :: "tool_node \<Rightarrow> string" where
  "channel_key node = (case tn_channel node of None \<Rightarrow> ''null'' | Some c \<Rightarrow> c)"

text \<open>
  \<^verbatim>\<open>Array.isArray(input) ? input : this.channel ? input[this.channel]?.messages : input.messages\<close>;
  an empty channel name is falsy.
\<close>

definition input_messages :: "tool_node \<Rightarrow> node_input \<Rightarrow> message list option" where
  "input_messages node input =
     (case input of
        InputArray ms \<Rightarrow> Some ms
      | InputObject st \<Rightarrow>
          (case tn_channel node of
             None \<Rightarrow> in_messages st
           | Some c \<Rightarrow>
               (if c = [] then in_messages st
                else (case map_of (in_channels st) c of
                        None \<Rightarrow> None
                      | Some cs \<Rightarrow> ch_messages cs))))"

text \<open>\<^verbatim>\<open>messages ? messages[messages.length - 1] : null\<close>; out of range reads \<^verbatim>\<open>undefined\<close>.\<close>

definition last_input_message :: "tool_node \<Rightarrow> node_input \<Rightarrow> message option" where
  "last_input_message node input =
     (case input_messages node input of
        None \<Rightarrow> None
      | Some ms \<Rightarrow> (if ms = [] then None else Some (last ms)))"

definition input_toolCall :: "node_input \<Rightarrow> tool_call option" where
  "input_toolCall input =
     (case input of InputArray _ \<Rightarrow> None | InputObject st \<Rightarrow> in_toolCall st)"

text \<open>\<^verbatim>\<open>typeof output === "string" ? output : JSON.stringify(output)\<close>.\<close>

definition stringified :: "(json \<Rightarrow> string) \<Rightarrow> content \<Rightarrow> string" where
  "stringified stringify c = (case c of CString s \<Rightarrow> s | CComplex j \<Rightarrow> stringify j)"

text \<open>
  \<^verbatim>\<open>defaultHandler\<close>: invokes the tool found by the node with the request's tool call
  and returns a tool message or a command; raw output is wrapped into a tool message
  carrying the request's call id. \<open>stringify\<close> is \<^verbatim>\<open>JSON.stringify\<close>.
\<close>

definition defaultHandler ::
  "(json \<Rightarrow> string) \<Rightarrow> tool_node \<Rightarrow> tool \<Rightarrow> runnable_config \<Rightarrow> tool_call_handler"
where
  "defaultHandler stringify node tool config request =
     (let runtime = (case rq_runtime request of Some r \<Rightarrow> r | None \<Rightarrow> config);
          call = (rq_toolCall request)\<lparr>tc_type := Some ''tool_call''\<rparr>;
          cfg = runtime\<lparr>rc_toolName := tn_toolName node,
                        rc_tool_call_id := tc_id (rq_toolCall request)\<rparr>;
          log = [ToolInvoked (tool_name tool) call cfg]
      in case tool_invoke tool call cfg of
           Inl e \<Rightarrow> (Inl e, log)
         | Inr (RetToolMessage m) \<Rightarrow> (Inr (RetToolMessage m), log)
         | Inr (RetCommand c) \<Rightarrow> (Inr (RetCommand c), log)
         | Inr (RetRaw output) \<Rightarrow>
             (Inr (RetToolMessage
                \<lparr>tm_content = CString (stringified stringify output),
                 tm_name = Some (tool_name tool),
                 tm_tool_call_id = tc_id (rq_toolCall request),
                 tm_status = None,
                 tm_artifact = None\<rparr>), log))"

text \<open>The \<^verbatim>\<open>reduce\<close> over the node's variable assigners.\<close>

definition assign_variable ::
  "tool_message \<Rightarrow> (string \<times> uvalue) list \<Rightarrow> variable_assigner \<Rightarrow> (string \<times> uvalue) list"
where
  "assign_variable output acc assigner =
     (if va_inputType assigner = ''variable'' then
        (if va_value assigner = Some (JStr ''artifact'')
         then obj_set (va_variableSelector assigner)
                (case tm_artifact output of None \<Rightarrow> UUndefined | Some a \<Rightarrow> UJson a) acc
         else obj_set (va_variableSelector assigner) (UContent (tm_content output)) acc)
      else if va_inputType assigner = ''constant'' then
        obj_set (va_variableSelector assigner)
          (case va_value assigner of None \<Rightarrow> UUndefined | Some v \<Rightarrow> UJson v) acc
      else acc)"

datatype node_output = OutMessage tool_message | OutCommand command

text \<open>
  The treatment of the handler's result (lines 121--175). Reading \<^verbatim>\<open>update.messages\<close>
  of a command without update throws a \<^verbatim>\<open>TypeError\<close>, which the surrounding
  \<^verbatim>\<open>try\<close> catches like any tool error.
\<close>

definition normalize_output ::
  "(json \<Rightarrow> string) \<Rightarrow> tool_node \<Rightarrow> tool \<Rightarrow> tool_call \<Rightarrow> tool_output \<Rightarrow> exn + node_output"
where
  "normalize_output stringify node tool call output =
     (case output of
        RetToolMessage m \<Rightarrow>
          (let m' = (case tm_content m of
                       CComplex j \<Rightarrow> (if truthy j then m\<lparr>tm_content := CString (stringify j)\<rparr> else m)
                     | CString _ \<Rightarrow> m)
           in case tn_variables node of
                None \<Rightarrow> Inr (OutMessage m')
              | Some vars \<Rightarrow>
                  Inr (OutCommand
                    \<lparr>cmd_update = Some (UpdObject
                        (obj_set ''messages'' (UMessages [ToolMessage m'])
                          (obj_set (channel_key node) (UObjMessages (UMessages [ToolMessage m']))
                            (foldl (assign_variable m') [] vars)))),
                     cmd_goto = []\<rparr>))
      | RetCommand c \<Rightarrow>
          (case cmd_update c of
             None \<Rightarrow> Inl (Error ''Cannot read properties of undefined (reading 'messages')'')
           | Some (UpdPairs ps) \<Rightarrow>
               Inr (OutCommand (c\<lparr>cmd_update := Some (UpdPairs
                 (map (\<lambda>p. if fst p = Some ''messages''
                             then (tn_channel node, UObjMessages (snd p)) else p) ps))\<rparr>))
           | Some (UpdObject kvs) \<Rightarrow>
               Inr (OutCommand (c\<lparr>cmd_update := Some (UpdObject
                 (obj_set (channel_key node)
                    (UObjMessages (case map_of kvs ''messages'' of
                                     None \<Rightarrow> UUndefined | Some v \<Rightarrow> v)) kvs))\<rparr>)))
      | RetRaw raw \<Rightarrow>
          Inr (OutMessage
            \<lparr>tm_content = CString (stringified stringify raw),
             tm_name = Some (tool_name tool),
             tm_tool_call_id = tc_id call,
             tm_status = None,
             tm_artifact = None\<rparr>))"

text \<open>The tool message built in the \<^verbatim>\<open>catch\<close> block (lines 193--197).\<close>

definition error_tool_message :: "tool_call \<Rightarrow> exn \<Rightarrow> tool_message" where
  "error_tool_message call e =
     \<lparr>tm_content = CString (''Error: '' @ exn_message e @ nl @ '' Please fix your mistakes.''),
      tm_name = Some (tc_name call),
      tm_tool_call_id = Some (case tc_id call of None \<Rightarrow> [] | Some i \<Rightarrow> i),
      tm_status = None,
      tm_artifact = None\<rparr>"

text \<open>The \<^verbatim>\<open>catch\<close> block (lines 177--206).\<close>

definition handle_tool_error ::
  "tool_node \<Rightarrow> tool_call \<Rightarrow> exn \<Rightarrow> event list \<Rightarrow> (exn + node_output) \<times> event list"
where
  "handle_tool_error node call e log =
     (if \<not> tn_handleToolErrors node then (Inl e, log)
      else if isGraphInterrupt e then (Inl e, log)
      else
        (let toolMessage = error_tool_message call e
         in (Inr (OutCommand
               \<lparr>cmd_update = Some (UpdObject
                   (obj_set (channel_key node) (UObjMessages (UMessages [ToolMessage toolMessage]))
                      [(''messages'', UMessages [ToolMessage toolMessage])])),
                cmd_goto = []\<rparr>),
             log @ [CustomEvent ON_TOOL_ERROR call (getErrorMessage e)])))"

text \<open>The request built for a call (lines 83--88).\<close>

definition tool_request ::
  "node_input \<Rightarrow> runnable_config \<Rightarrow> message list \<Rightarrow> tool_call \<Rightarrow> tool \<Rightarrow> tool_call_request"
where
  "tool_request input config messages call tool =
     \<lparr>rq_toolCall = call,
      rq_tool = tool,
      rq_state = (case input of
                    InputArray _ \<Rightarrow>
                      \<lparr>in_messages = Some messages, in_channels = [], in_toolCall = None\<rparr>
                  | InputObject st \<Rightarrow> st),
      rq_runtime = Some config\<rparr>"

text \<open>
  The wrapped invocation inside the \<^verbatim>\<open>try\<close> (lines 83--120): the request is handed to
  \<^verbatim>\<open>wrapToolCall\<close> when the node has one, to the default handler otherwise.
\<close>

definition invoke_wrapped ::
  "(json \<Rightarrow> string) \<Rightarrow> tool_node \<Rightarrow> node_input \<Rightarrow> runnable_config \<Rightarrow> message list
     \<Rightarrow> tool_call \<Rightarrow> tool \<Rightarrow> (exn + tool_output) \<times> event list"
where
  "invoke_wrapped stringify node input config messages call tool =
     (let toolRequest = tool_request input config messages call tool;
          handler = defaultHandler stringify node tool config
      in case tn_wrapToolCall node of
           Some wrap \<Rightarrow> wrap toolRequest handler
         | None \<Rightarrow> handler toolRequest)"

text \<open>
  The body of the \<^verbatim>\<open>map\<close> callback: one tool call. Everything from the lookup of the
  tool to the treatment of the result is inside the \<^verbatim>\<open>try\<close>.
\<close>

definition run_call ::
  "(json \<Rightarrow> string) \<Rightarrow> tool_node \<Rightarrow> node_input \<Rightarrow> runnable_config \<Rightarrow> message list
     \<Rightarrow> tool_call \<Rightarrow> (exn + node_output) \<times> event list"
where
  "run_call stringify node input config messages call =
     (case find (\<lambda>t. tool_name t = tc_name call) (tn_tools node) of
        None \<Rightarrow>
          handle_tool_error node call
            (Error (''Tool '' @ dq @ tc_name call @ dq @ '' not found.'')) []
      | Some tool \<Rightarrow>
          (case invoke_wrapped stringify node input config messages call tool of
             (Inl e, log) \<Rightarrow> handle_tool_error node call e log
           | (Inr output, log) \<Rightarrow>
               (case normalize_output stringify node tool call output of
                  Inl e \<Rightarrow> handle_tool_error node call e log
                | Inr out \<Rightarrow> (Inr out, log))))"

datatype combined_output =
    CombCommand command
  | CombMessages "tool_message list"
  | CombUpdate "(string \<times> uvalue) list"

datatype run_result =
    ResMessages "tool_message list"
  | ResUpdate "(string \<times> uvalue) list"
  | ResCombined "combined_output list"

fun isCommand :: "node_output \<Rightarrow> bool" where
  "isCommand (OutCommand _) = True"
| "isCommand (OutMessage _) = False"

fun the_message :: "node_output \<Rightarrow> tool_message list" where
  "the_message (OutMessage m) = [m]"
| "the_message (OutCommand _) = []"

text \<open>\<^verbatim>\<open>{ messages: outputs, [this.channel]: {messages: outputs} }\<close>.\<close>

definition state_update :: "tool_node \<Rightarrow> tool_message list \<Rightarrow> (string \<times> uvalue) list" where
  "state_update node outputs =
     obj_set (channel_key node) (UObjMessages (UMessages (map ToolMessage outputs)))
       [(''messages'', UMessages (map ToolMessage outputs))]"

text \<open>
  \<^verbatim>\<open>Promise.all\<close> over the mapped calls. Every callback is started, so the effects of
  all calls occur; how they interleave depends on how long each tool takes, so the
  effects are kept per call, in the order of the calls. The promise rejects when a
  callback throws, with the error of the callback that throws first in time: \<open>race\<close>
  says which of the throwing calls that is (its position among them, taken modulo
  their number). Otherwise the outputs are in the order of the calls.
\<close>

fun thrown :: "(exn + 'a) list \<Rightarrow> exn list" where
  "thrown [] = []"
| "thrown (Inl e # rs) = e # thrown rs"
| "thrown (Inr _ # rs) = thrown rs"

fun rights :: "(exn + 'a) list \<Rightarrow> 'a list" where
  "rights [] = []"
| "rights (Inl _ # rs) = rights rs"
| "rights (Inr a # rs) = a # rights rs"

definition first_rejection :: "nat \<Rightarrow> (exn + 'a) list \<Rightarrow> exn option" where
  "first_rejection race results =
     (case thrown results of
        [] \<Rightarrow> None
      | e # es \<Rightarrow> Some ((e # es) ! (race mod length (e # es))))"

text \<open>\<^verbatim>\<open>(message as AIMessage).tool_calls\<close>.\<close>

fun tool_calls_of :: "message \<Rightarrow> tool_call list option" where
  "tool_calls_of (AIMessage ai) = ai_tool_calls ai"
| "tool_calls_of _ = None"

text \<open>\<^verbatim>\<open>message?._getType() !== "ai"\<close>.\<close>

definition not_ai :: "message option \<Rightarrow> bool" where
  "not_ai message = (case message of None \<Rightarrow> True | Some m \<Rightarrow> getType m \<noteq> ''ai'')"

text \<open>
  The calls that a run executes (line 72 and the \<^verbatim>\<open>?? []\<close> of line 207):
  \<^verbatim>\<open>input.toolCall ? [input.toolCall] : message.tool_calls\<close>.
\<close>

definition node_tool_calls :: "tool_node \<Rightarrow> node_input \<Rightarrow> tool_call list" where
  "node_tool_calls node input =
     (case input_toolCall input of
        Some c \<Rightarrow> [c]
      | None \<Rightarrow>
          (case Option.bind (last_input_message node input) tool_calls_of of
             Some cs \<Rightarrow> cs | None \<Rightarrow> []))"

text \<open>\<^verbatim>\<open>ToolNode.run\<close>.\<close>

definition run ::
  "nat \<Rightarrow> (json \<Rightarrow> string) \<Rightarrow> tool_node \<Rightarrow> node_input \<Rightarrow> runnable_config
     \<Rightarrow> (exn + run_result) \<times> event list list"
where
  "run race stringify node input config =
     (let message = last_input_message node input
      in if not_ai message then
           (Inl (Error ''ToolNode only accepts AIMessages as input.''), [])
         else
           (let messages = (case input_messages node input of Some ms \<Rightarrow> ms | None \<Rightarrow> []);
                tool_calls = node_tool_calls node input;
                results = map (run_call stringify node input config messages) tool_calls;
                log = map snd results
            in case first_rejection race (map fst results) of
                 Some e \<Rightarrow> (Inl e, log)
               | None \<Rightarrow>
                   (let outputs = rights (map fst results)
                    in if \<not> list_ex isCommand outputs then
                         (case input of
                            InputArray _ \<Rightarrow>
                              (Inr (ResMessages (concat (map the_message outputs))), log)
                          | InputObject _ \<Rightarrow>
                              (Inr (ResUpdate
                                 (state_update node (concat (map the_message outputs)))), log))
                       else
                         (Inr (ResCombined
                            (map (\<lambda>output. case output of
                                    OutCommand c \<Rightarrow> CombCommand c
                                  | OutMessage m \<Rightarrow>
                                      (case input of
                                         InputArray _ \<Rightarrow> CombMessages [m]
                                       | InputObject _ \<Rightarrow> CombUpdate (state_update node [m])))
                               outputs)), log))))"

text \<open>
  The messages that an output carries, wherever it carries them: a tool message itself,
  or the messages in the values of a command's update; and the messages in the result
  of a run.
\<close>

fun uvalue_messages :: "uvalue \<Rightarrow> message list" where
  "uvalue_messages (UMessages ms) = ms"
| "uvalue_messages (UObjMessages v) = uvalue_messages v"
| "uvalue_messages UUndefined = []"
| "uvalue_messages (UJson _) = []"
| "uvalue_messages (UContent _) = []"

definition kv_messages :: "('k \<times> uvalue) list \<Rightarrow> message list" where
  "kv_messages kvs = concat (map (\<lambda>p. uvalue_messages (snd p)) kvs)"

fun update_messages :: "update \<Rightarrow> message list" where
  "update_messages (UpdPairs ps) = kv_messages ps"
| "update_messages (UpdObject kvs) = kv_messages kvs"

definition command_messages :: "command \<Rightarrow> message list" where
  "command_messages c = (case cmd_update c of None \<Rightarrow> [] | Some u \<Rightarrow> update_messages u)"

fun output_messages :: "node_output \<Rightarrow> message list" where
  "output_messages (OutMessage m) = [ToolMessage m]"
| "output_messages (OutCommand c) = command_messages c"

fun combined_messages :: "combined_output \<Rightarrow> message list" where
  "combined_messages (CombCommand c) = command_messages c"
| "combined_messages (CombMessages ms) = map ToolMessage ms"
| "combined_messages (CombUpdate kvs) = kv_messages kvs"

fun result_messages :: "run_result \<Rightarrow> message list" where
  "result_messages (ResMessages ms) = map ToolMessage ms"
| "result_messages (ResUpdate kvs) = kv_messages kvs"
| "result_messages (ResCombined cs) = concat (map combined_messages cs)"

text \<open>
  \<^verbatim>\<open>subgraph.handler.ts\<close>, \<^verbatim>\<open>createAgentNavigator\<close>, as far as tool calls are concerned.
  The return statement of the branch for an AI message with tool calls (lines
  1411--1416): every call of \<^verbatim>\<open>lastMessage.tool_calls\<close> is sent to the node named after
  its tool, with the state extended by \<^verbatim>\<open>toolCall\<close>; a call with an empty name throws.
\<close>

datatype send = Send string input_state

definition sq :: string where "sq = [CHR 0x27]"

definition send_tool_calls :: "string \<Rightarrow> input_state \<Rightarrow> tool_call list \<Rightarrow> exn + send list" where
  "send_tool_calls agentChannel state tool_calls =
     (if list_ex (\<lambda>toolCall. tc_name toolCall = []) tool_calls then
        Inl (Error (''tool_call'' @ sq @ ''s name is empty in '' @ sq @ agentChannel @ sq @ ''.''))
      else
        Inr (map (\<lambda>toolCall. Send (tc_name toolCall) (state\<lparr>in_toolCall := Some toolCall\<rparr>))
               tool_calls))"

fun sent_state :: "send \<Rightarrow> input_state" where
  "sent_state (Send name state) = state"

fun sent_to :: "send \<Rightarrow> string" where
  "sent_to (Send name state) = name"

text \<open>
  The way to that return statement (lines 1369--1375): the navigator reads the last
  message of the agent's channel and takes the branch when it is an AI message whose
  tool calls are not empty. \<open>getChannelState\<close> is the function of that name, which is
  not among the sources. The result \<open>None\<close> stands for the other branches of the
  navigator (lines 1376--1409 and 1419--1433), which route to other nodes and send no
  tool call.
\<close>

definition navigator_tool_sends ::
  "(input_state \<Rightarrow> string \<Rightarrow> channel_state option) \<Rightarrow> string \<Rightarrow> input_state
     \<Rightarrow> (exn + send list) option"
where
  "navigator_tool_sends getChannelState agentChannel state =
     (let subState = getChannelState state agentChannel;
          messages = (case Option.bind subState ch_messages of Some ms \<Rightarrow> ms | None \<Rightarrow> [])
      in if messages = [] then None
         else case last messages of
           AIMessage lastMessage \<Rightarrow>
             (case ai_tool_calls lastMessage of
                None \<Rightarrow> None
              | Some tool_calls \<Rightarrow>
                  if tool_calls = [] then None
                  else Some (send_tool_calls agentChannel state tool_calls))
         | _ \<Rightarrow> None)"

text \<open>A node with one tool that always throws, and one that returns raw text.\<close>

definition boom_tool :: tool where
  "boom_tool = \<lparr>tool_name = ''boom'', tool_invoke = (\<lambda>call cfg. Inl (Error ''kaput''))\<rparr>"

definition add_tool :: tool where
  "add_tool = \<lparr>tool_name = ''add'', tool_invoke = (\<lambda>call cfg. Inr (RetRaw (CString ''5'')))\<rparr>"

definition pause_tool :: tool where
  "pause_tool =
     \<lparr>tool_name = ''pause'',
      tool_invoke = (\<lambda>call cfg. Inl (GraphInterrupt (OtherInterrupt JNull)))\<rparr>"

definition example_node :: tool_node where
  "example_node =
     \<lparr>tn_tools = [add_tool, boom_tool, pause_tool],
      tn_handleToolErrors = True,
      tn_channel = Some ''agent_channel'',
      tn_variables = None,
      tn_toolName = Some ''toolset'',
      tn_wrapToolCall = None\<rparr>"

definition example_call :: "string \<Rightarrow> string \<Rightarrow> tool_call" where
  "example_call name cid =
     \<lparr>tc_type = None, tc_name = name, tc_args = JObj [], tc_id = Some cid\<rparr>"

definition example_config :: runnable_config where
  "example_config = \<lparr>rc_toolName = None, rc_tool_call_id = None\<rparr>"

definition boom_message :: tool_message where
  "boom_message =
     \<lparr>tm_content = CString (''Error: kaput'' @ nl @ '' Please fix your mistakes.''),
      tm_name = Some ''boom'',
      tm_tool_call_id = Some ''t1'',
      tm_status = None,
      tm_artifact = None\<rparr>"

definition no_stringify :: "json \<Rightarrow> string" where
  "no_stringify j = []"

text \<open>
  A tool that answers with a tool message of its own making, whose \<open>tool_call_id\<close> is
  "other" whatever the call; a tool that answers with a command; and a node as the
  subgraph builds it, with the caller's channel and a variable assigner.
\<close>

definition stamp_message :: tool_message where
  "stamp_message =
     \<lparr>tm_content = CString ''stamped'', tm_name = Some ''stamp'',
      tm_tool_call_id = Some ''other'', tm_status = None, tm_artifact = None\<rparr>"

definition stamp_tool :: tool where
  "stamp_tool =
     \<lparr>tool_name = ''stamp'', tool_invoke = (\<lambda>call cfg. Inr (RetToolMessage stamp_message))\<rparr>"

definition handoff_update :: update where
  "handoff_update = UpdObject [(''messages'', UMessages [ToolMessage stamp_message])]"

definition handoff_tool :: tool where
  "handoff_tool =
     \<lparr>tool_name = ''handoff'',
      tool_invoke = (\<lambda>call cfg. Inr (RetCommand \<lparr>cmd_update = Some handoff_update,
                                                    cmd_goto = [''next'']\<rparr>))\<rparr>"

definition answer_variable :: variable_assigner where
  "answer_variable =
     \<lparr>va_inputType = ''variable'', va_value = Some (JStr ''content''),
      va_variableSelector = ''answer''\<rparr>"

definition agent_node :: "wrap_tool_call_hook option \<Rightarrow> tool_node" where
  "agent_node wrap =
     \<lparr>tn_tools = [add_tool, stamp_tool, boom_tool, handoff_tool],
      tn_handleToolErrors = True,
      tn_channel = Some ''agent_channel'',
      tn_variables = Some [answer_variable],
      tn_toolName = Some ''toolset'',
      tn_wrapToolCall = wrap\<rparr>"

definition raw_wrapper :: wrap_tool_call_hook where
  "raw_wrapper request handler = (Inr (RetRaw (CString ''cached'')), [])"

text \<open>
  A conversation in the agent's channel whose last AI message calls \<open>add\<close> with id "t1"
  and \<open>stamp\<close> with id "t2"; the state as the navigator sends it to a tool node, with
  one of the calls as \<open>toolCall\<close>; and the command with which the node above answers a
  tool message.
\<close>

definition add_call :: tool_call where
  "add_call = example_call ''add'' ''t1''"

definition stamp_call :: tool_call where
  "stamp_call = example_call ''stamp'' ''t2''"

definition agent_ai :: ai_message where
  "agent_ai = \<lparr>ai_content = CString [], ai_tool_calls = Some [add_call, stamp_call]\<rparr>"

definition agent_messages :: "message list" where
  "agent_messages = [HumanMessage (CString ''go''), AIMessage agent_ai]"

definition agent_state :: input_state where
  "agent_state =
     \<lparr>in_messages = None,
      in_channels = [(''agent_channel'', \<lparr>ch_messages = Some agent_messages\<rparr>)],
      in_toolCall = None\<rparr>"

definition agent_input :: "tool_call \<Rightarrow> node_input" where
  "agent_input call = InputObject (agent_state\<lparr>in_toolCall := Some call\<rparr>)"

definition read_channel :: "input_state \<Rightarrow> string \<Rightarrow> channel_state option" where
  "read_channel state channel = map_of (in_channels state) channel"

definition add_answer :: tool_message where
  "add_answer =
     \<lparr>tm_content = CString ''5'', tm_name = Some ''add'',
      tm_tool_call_id = Some ''t1'', tm_status = None, tm_artifact = None\<rparr>"

definition fed_back :: "string \<Rightarrow> tool_message \<Rightarrow> command" where
  "fed_back answer m =
     \<lparr>cmd_update = Some (UpdObject
        [(''answer'', UContent (CString answer)),
         (''agent_channel'', UObjMessages (UMessages [ToolMessage m])),
         (''messages'', UMessages [ToolMessage m])]),
      cmd_goto = []\<rparr>"

section \<open>The human-in-the-loop middleware\<close>

text \<open>
  \<^verbatim>\<open>hitl.ts\<close>. A per-tool configuration lists the allowed decisions; its description is
  a text or a factory, modelled as a total function of the tool call.
\<close>

datatype description = DescriptionText string | DescriptionFactory "tool_call \<Rightarrow> string"

record interrupt_on_config =
  ioc_allowedDecisions :: "string list"
  ioc_description :: "description option"
  ioc_argsSchema :: "json option"

datatype interrupt_on = OnBool bool | OnConfig interrupt_on_config

definition ALLOWED_DECISIONS :: "string list" where
  "ALLOWED_DECISIONS = [''approve'', ''edit'', ''reject'']"

record hitl_options =
  ho_interruptOn :: "(string \<times> interrupt_on) list option"
  ho_descriptionPrefix :: "string option"

record action_request =
  ar_name :: string
  ar_args :: json
  ar_description :: "string option"

text \<open>
  The \<open>allowedDecisions\<close> of a review configuration are copied from the value found in
  \<open>resolvedConfigs\<close>; they are \<^verbatim>\<open>undefined\<close> (\<open>None\<close>) when that value has no such
  field.
\<close>

record review_config =
  rv_actionName :: string
  rv_allowedDecisions :: "string list option"
  rv_argsSchema :: "json option"

record hitl_request =
  actionRequests :: "action_request list"
  reviewConfigs :: "review_config list"

text \<open>
  A decision of the resume payload: \<^verbatim>\<open>{type, editedAction?, message?}\<close>. The code checks
  the shape of the edited action and of the message at run time, so these stay JSON.
\<close>

record edited_action =
  ea_name :: "json option"
  ea_args :: "json option"

record decision =
  d_type :: string
  d_editedAction :: "edited_action option"
  d_message :: "json option"

text \<open>
  The resume payload; \<open>None\<close> for \<open>decisions\<close> stands for a value that is absent or not
  an array, the two cases the first check rejects.
\<close>

record hitl_response =
  decisions :: "decision list option"

text \<open>
  What the hook throws: the interrupt carrying the request, or one of its errors, each
  with the values its message interpolates.
\<close>

datatype hitl_exn =
    HITLInterrupt hitl_request
  | ZodError
  | TypeError string
  | InvalidHITLResponse
  | DecisionCountMismatch nat nat
  | InvalidEditedActionName string
  | InvalidEditedActionArgs string
  | RejectMessageNotString string json
  | UnexpectedDecision decision string "string list option"

definition bt :: string where "bt = [CHR 0x60]"

definition shown_id :: "string option \<Rightarrow> string" where
  "shown_id i = (case i of None \<Rightarrow> ''undefined'' | Some s \<Rightarrow> s)"

text \<open>
  The hook starts with \<^verbatim>\<open>interopParse(contextSchema, {...options, ...runtime.context})\<close>,
  which is \<^verbatim>\<open>contextSchema.parse\<close> of the zod library. Of the configurations that the
  types above admit, the schema refuses a list of allowed decisions with an entry outside
  \<open>ALLOWED_DECISIONS\<close> (\<^verbatim>\<open>z.array(DecisionType)\<close>) and an \<open>argsSchema\<close> that is not an
  object (\<^verbatim>\<open>z.record(z.any())\<close>); the parse then throws a \<^verbatim>\<open>ZodError\<close>. Otherwise it
  returns a copy of the configuration: \<open>descriptionPrefix\<close> gets its default, and zod's
  record parser leaves out an entry whose key is \<^verbatim>\<open>__proto__\<close>.
\<close>

definition valid_interrupt_on :: "interrupt_on \<Rightarrow> bool" where
  "valid_interrupt_on toolConfig =
     (case toolConfig of
        OnBool _ \<Rightarrow> True
      | OnConfig c \<Rightarrow>
          list_all (\<lambda>d. d \<in> set ALLOWED_DECISIONS) (ioc_allowedDecisions c) \<and>
          (case ioc_argsSchema c of
             None \<Rightarrow> True
           | Some (JObj _) \<Rightarrow> True
           | Some _ \<Rightarrow> False))"

definition interopParse :: "hitl_options \<Rightarrow> hitl_exn + hitl_options" where
  "interopParse input =
     (let descriptionPrefix =
            (case ho_descriptionPrefix input of
               Some p \<Rightarrow> p | None \<Rightarrow> ''Tool execution requires approval'')
      in case ho_interruptOn input of
           None \<Rightarrow>
             Inr \<lparr>ho_interruptOn = None, ho_descriptionPrefix = Some descriptionPrefix\<rparr>
         | Some entries \<Rightarrow>
             if list_all (\<lambda>entry. valid_interrupt_on (snd entry)) entries then
               Inr \<lparr>ho_interruptOn = Some (filter (\<lambda>entry. fst entry \<noteq> ''__proto__'') entries),
                    ho_descriptionPrefix = Some descriptionPrefix\<rparr>
             else Inl ZodError)"

text \<open>
  \<open>resolvedConfigs\<close> is an object literal \<^verbatim>\<open>{}\<close> that the hook fills. The test
  \<^verbatim>\<open>toolCall.name in resolvedConfigs\<close> and the lookup \<^verbatim>\<open>resolvedConfigs[toolCall.name]\<close>
  also see the properties that every object inherits from \<^verbatim>\<open>Object.prototype\<close>: for such
  a name that is not a key of its own, the lookup yields the inherited value (a built-in
  function, or the prototype itself for \<^verbatim>\<open>__proto__\<close>), which has none of the fields
  \<open>allowedDecisions\<close>, \<open>description\<close> and \<open>argsSchema\<close>.
\<close>

definition object_prototype_keys :: "string list" where
  "object_prototype_keys =
     [''constructor'', ''__defineGetter__'', ''__defineSetter__'', ''hasOwnProperty'',
      ''__lookupGetter__'', ''__lookupSetter__'', ''isPrototypeOf'', ''propertyIsEnumerable'',
      ''toString'', ''valueOf'', ''__proto__'', ''toLocaleString'']"

datatype resolved_config = Configured interrupt_on_config | Inherited

fun allowedDecisions_of :: "resolved_config \<Rightarrow> string list option" where
  "allowedDecisions_of (Configured c) = Some (ioc_allowedDecisions c)"
| "allowedDecisions_of Inherited = None"

fun description_of :: "resolved_config \<Rightarrow> description option" where
  "description_of (Configured c) = ioc_description c"
| "description_of Inherited = None"

fun argsSchema_of :: "resolved_config \<Rightarrow> json option" where
  "argsSchema_of (Configured c) = ioc_argsSchema c"
| "argsSchema_of Inherited = None"

definition lookup_config ::
  "(string \<times> interrupt_on_config) list \<Rightarrow> string \<Rightarrow> resolved_config option"
where
  "lookup_config resolvedConfigs name =
     (case map_of resolvedConfigs name of
        Some c \<Rightarrow> Some (Configured c)
      | None \<Rightarrow> (if name \<in> set object_prototype_keys then Some Inherited else None))"

text \<open>\<^verbatim>\<open>createActionAndConfig\<close>; \<open>stringify\<close> is \<^verbatim>\<open>JSON.stringify(_, null, 2)\<close>.\<close>

definition createActionAndConfig ::
  "(json \<Rightarrow> string) \<Rightarrow> hitl_options \<Rightarrow> tool_call \<Rightarrow> resolved_config
     \<Rightarrow> action_request \<times> review_config"
where
  "createActionAndConfig stringify options toolCall config =
     (let toolName = tc_name toolCall;
          toolArgs = tc_args toolCall;
          description =
            (case description_of config of
               Some (DescriptionFactory f) \<Rightarrow> f toolCall
             | Some (DescriptionText d) \<Rightarrow> d
             | None \<Rightarrow>
                 (case ho_descriptionPrefix options of
                    Some p \<Rightarrow> p | None \<Rightarrow> ''Tool execution requires approval'')
                 @ nl @ nl @ ''Tool: '' @ toolName @ nl @ ''Args: '' @ stringify toolArgs)
      in (\<lparr>ar_name = toolName, ar_args = toolArgs, ar_description = Some description\<rparr>,
          \<lparr>rv_actionName = toolName,
           rv_allowedDecisions = allowedDecisions_of config,
           rv_argsSchema = (case argsSchema_of config of
                              None \<Rightarrow> None
                            | Some j \<Rightarrow> (if truthy j then Some j else None))\<rparr>))"

text \<open>\<^verbatim>\<open>typeof v === "object"\<close> for a truthy value.\<close>

fun is_object :: "json \<Rightarrow> bool" where
  "is_object (JArr _) = True"
| "is_object (JObj _) = True"
| "is_object _ = False"

text \<open>
  The rejection message (lines 426--435):
  \<^verbatim>\<open>decision.message ?? `User rejected the tool call for ... with id ...`\<close>, wrapped
  into a tool message with status "error" for the rejected call.
\<close>

definition rejection_content :: "decision \<Rightarrow> tool_call \<Rightarrow> string" where
  "rejection_content decision toolCall =
     (case d_message decision of
        Some (JStr text) \<Rightarrow> text
      | _ \<Rightarrow> ''User rejected the tool call for '' @ bt @ tc_name toolCall @ bt
               @ '' with id '' @ shown_id (tc_id toolCall))"

definition rejection_message :: "decision \<Rightarrow> tool_call \<Rightarrow> tool_message" where
  "rejection_message decision toolCall =
     \<lparr>tm_content = CString (rejection_content decision toolCall),
      tm_name = Some (tc_name toolCall),
      tm_tool_call_id = tc_id toolCall,
      tm_status = Some ''error'',
      tm_artifact = None\<rparr>"

fun is_string :: "json \<Rightarrow> bool" where
  "is_string (JStr _) = True"
| "is_string _ = False"

text \<open>
  \<^verbatim>\<open>allowedDecisions.includes(t)\<close>: reading \<^verbatim>\<open>includes\<close> of \<^verbatim>\<open>undefined\<close> throws a
  \<^verbatim>\<open>TypeError\<close>.
\<close>

definition array_includes :: "string list option \<Rightarrow> string \<Rightarrow> hitl_exn + bool" where
  "array_includes allowedDecisions t =
     (case allowedDecisions of
        None \<Rightarrow> Inl (TypeError ''Cannot read properties of undefined (reading 'includes')'')
      | Some a \<Rightarrow> Inr (t \<in> set a))"

text \<open>
  \<^verbatim>\<open>decision.type === t && allowedDecisions.includes(t)\<close>: the right operand is only
  evaluated when the type is \<open>t\<close>.
\<close>

definition type_allowed :: "decision \<Rightarrow> string list option \<Rightarrow> string \<Rightarrow> hitl_exn + bool" where
  "type_allowed decision allowedDecisions t =
     (if d_type decision = t then array_includes allowedDecisions t else Inr False)"

text \<open>The three branches of \<^verbatim>\<open>processDecision\<close> and the function itself.\<close>

definition edit_branch ::
  "decision \<Rightarrow> tool_call \<Rightarrow> hitl_exn + (tool_call option \<times> tool_message option)" where
  "edit_branch decision toolCall =
     (case d_editedAction decision of
        None \<Rightarrow> Inl (InvalidEditedActionName (tc_name toolCall))
      | Some editedAction \<Rightarrow>
          (case ea_name editedAction of
             Some (JStr name) \<Rightarrow>
               (case ea_args editedAction of
                  None \<Rightarrow> Inl (InvalidEditedActionArgs (tc_name toolCall))
                | Some args \<Rightarrow>
                    (if \<not> is_object args then Inl (InvalidEditedActionArgs (tc_name toolCall))
                     else Inr (Some \<lparr>tc_type = Some ''tool_call'',
                                      tc_name = name,
                                      tc_args = args,
                                      tc_id = tc_id toolCall\<rparr>, None)))
           | _ \<Rightarrow> Inl (InvalidEditedActionName (tc_name toolCall))))"

definition reject_branch ::
  "decision \<Rightarrow> tool_call \<Rightarrow> hitl_exn + (tool_call option \<times> tool_message option)" where
  "reject_branch decision toolCall =
     (case d_message decision of
        None \<Rightarrow> Inr (Some toolCall, Some (rejection_message decision toolCall))
      | Some m \<Rightarrow>
          (if \<not> is_string m then Inl (RejectMessageNotString (tc_name toolCall) m)
           else Inr (Some toolCall, Some (rejection_message decision toolCall))))"

definition processDecision ::
  "decision \<Rightarrow> tool_call \<Rightarrow> resolved_config
     \<Rightarrow> hitl_exn + (tool_call option \<times> tool_message option)"
where
  "processDecision decision toolCall config =
     (let allowedDecisions = allowedDecisions_of config in
      case type_allowed decision allowedDecisions ''approve'' of
        Inl e \<Rightarrow> Inl e
      | Inr True \<Rightarrow> Inr (Some toolCall, None)
      | Inr False \<Rightarrow>
          (case type_allowed decision allowedDecisions ''edit'' of
             Inl e \<Rightarrow> Inl e
           | Inr True \<Rightarrow> edit_branch decision toolCall
           | Inr False \<Rightarrow>
               (case type_allowed decision allowedDecisions ''reject'' of
                  Inl e \<Rightarrow> Inl e
                | Inr True \<Rightarrow> reject_branch decision toolCall
                | Inr False \<Rightarrow>
                    Inl (UnexpectedDecision decision (tc_name toolCall) allowedDecisions))))"

text \<open>
  The loop over \<^verbatim>\<open>Object.entries(config.interruptOn)\<close> that fills \<open>resolvedConfigs\<close>:
  \<open>true\<close> allows every decision, \<open>false\<close> adds nothing, a configuration is taken as
  it is (its \<open>allowedDecisions\<close> is an array, hence truthy).
\<close>

definition resolve_entry ::
  "(string \<times> interrupt_on_config) list \<Rightarrow> string \<times> interrupt_on
     \<Rightarrow> (string \<times> interrupt_on_config) list"
where
  "resolve_entry resolvedConfigs entry =
     (case snd entry of
        OnBool b \<Rightarrow>
          (if b then obj_set (fst entry)
                       \<lparr>ioc_allowedDecisions = ALLOWED_DECISIONS,
                        ioc_description = None,
                        ioc_argsSchema = None\<rparr> resolvedConfigs
           else resolvedConfigs)
      | OnConfig toolConfig \<Rightarrow> obj_set (fst entry) toolConfig resolvedConfigs)"

definition resolveConfigs ::
  "(string \<times> interrupt_on) list \<Rightarrow> (string \<times> interrupt_on_config) list" where
  "resolveConfigs interruptOn = foldl resolve_entry [] interruptOn"

text \<open>
  The partition of the tool calls. A call for which \<^verbatim>\<open>toolCall.name in resolvedConfigs\<close>
  holds is held for review; it is kept together with the value that the later lookups
  \<^verbatim>\<open>resolvedConfigs[toolCall.name]!\<close> return.
\<close>

definition interruptToolCalls ::
  "(string \<times> interrupt_on_config) list \<Rightarrow> tool_call list
     \<Rightarrow> (tool_call \<times> resolved_config) list"
where
  "interruptToolCalls resolvedConfigs tool_calls =
     List.map_filter
       (\<lambda>toolCall. map_option (Pair toolCall) (lookup_config resolvedConfigs (tc_name toolCall)))
       tool_calls"

definition autoApprovedToolCalls ::
  "(string \<times> interrupt_on_config) list \<Rightarrow> tool_call list \<Rightarrow> tool_call list"
where
  "autoApprovedToolCalls resolvedConfigs tool_calls =
     filter (\<lambda>toolCall. lookup_config resolvedConfigs (tc_name toolCall) = None) tool_calls"

text \<open>
  The loop over the decisions (lines 583--608), with the accumulators
  \<open>revisedToolCalls\<close> and \<open>artificialToolMessages\<close>; an error of \<open>processDecision\<close>
  leaves the hook.
\<close>

fun process_decisions ::
  "bool \<Rightarrow> (decision \<times> tool_call \<times> resolved_config) list
     \<Rightarrow> tool_call list \<Rightarrow> tool_message list
     \<Rightarrow> hitl_exn + (tool_call list \<times> tool_message list)"
where
  "process_decisions hasRejectedToolCalls [] revisedToolCalls artificialToolMessages =
     Inr (revisedToolCalls, artificialToolMessages)"
| "process_decisions hasRejectedToolCalls ((decision, toolCall, interruptConfig) # rest)
       revisedToolCalls artificialToolMessages =
     (case processDecision decision toolCall interruptConfig of
        Inl e \<Rightarrow> Inl e
      | Inr (revisedToolCall, toolMessage) \<Rightarrow>
          process_decisions hasRejectedToolCalls rest
            (revisedToolCalls @
               (case revisedToolCall of
                  Some c \<Rightarrow>
                    (if \<not> hasRejectedToolCalls \<or> d_type decision = ''reject'' then [c] else [])
                | None \<Rightarrow> []))
            (artificialToolMessages @
               (case toolMessage of Some m \<Rightarrow> [m] | None \<Rightarrow> [])))"

record hook_result =
  hr_messages :: "message list"
  hr_jumpTo :: "string option"

text \<open>\<^verbatim>\<open>[...messages].reverse().find((msg) => isAIMessage(msg))\<close>.\<close>

definition last_ai_message :: "message list \<Rightarrow> ai_message option" where
  "last_ai_message messages =
     (case find isAIMessage (rev messages) of
        Some (AIMessage ai) \<Rightarrow> Some ai
      | _ \<Rightarrow> None)"

text \<open>
  \<^verbatim>\<open>{...options, ...(runtime.context || {})}\<close>: a field of the runtime context
  overrides the option of the same name.
\<close>

definition merge_options :: "hitl_options \<Rightarrow> hitl_options option \<Rightarrow> hitl_options" where
  "merge_options options context =
     (case context of
        None \<Rightarrow> options
      | Some c \<Rightarrow>
          \<lparr>ho_interruptOn = (case ho_interruptOn c of
                               Some x \<Rightarrow> Some x | None \<Rightarrow> ho_interruptOn options),
           ho_descriptionPrefix = (case ho_descriptionPrefix c of
                                     Some x \<Rightarrow> Some x | None \<Rightarrow> ho_descriptionPrefix options)\<rparr>)"

text \<open>
  The \<open>afterModel\<close> hook. \<open>resume\<close> is what \<^verbatim>\<open>interrupt(hitlRequest)\<close> returns when
  the run is resumed; without a resume value the call throws the interrupt. The result
  \<open>None\<close> is the hook returning \<^verbatim>\<open>undefined\<close>. The parsed configuration is an object,
  so the test \<^verbatim>\<open>!config\<close> never holds.
\<close>

definition afterModel_hook ::
  "(json \<Rightarrow> string) \<Rightarrow> hitl_options \<Rightarrow> hitl_options option \<Rightarrow> message list
     \<Rightarrow> hitl_response option \<Rightarrow> hitl_exn + hook_result option"
where
  "afterModel_hook stringify options context messages resume =
     (case interopParse (merge_options options context) of
        Inl e \<Rightarrow> Inl e
      | Inr config \<Rightarrow>
      if messages = [] then Inr None
      else case last_ai_message messages of
        None \<Rightarrow> Inr None
      | Some lastMessage \<Rightarrow>
          (case ai_tool_calls lastMessage of
             None \<Rightarrow> Inr None
           | Some tool_calls \<Rightarrow>
               if tool_calls = [] then Inr None
               else case ho_interruptOn config of
                 None \<Rightarrow> Inr None
               | Some interruptOn \<Rightarrow>
                   (let resolvedConfigs = resolveConfigs interruptOn;
                        held = interruptToolCalls resolvedConfigs tool_calls;
                        autoApproved = autoApprovedToolCalls resolvedConfigs tool_calls
                    in if held = [] then Inr None
                       else
                         (let built = map (\<lambda>(toolCall, interruptConfig).
                                        createActionAndConfig stringify options toolCall interruptConfig)
                                      held;
                              hitlRequest = \<lparr>actionRequests = map fst built,
                                             reviewConfigs = map snd built\<rparr>
                          in case resume of
                               None \<Rightarrow> Inl (HITLInterrupt hitlRequest)
                             | Some hitlResponse \<Rightarrow>
                                 (case decisions hitlResponse of
                                    None \<Rightarrow> Inl InvalidHITLResponse
                                  | Some ds \<Rightarrow>
                                      if length ds \<noteq> length held then
                                        Inl (DecisionCountMismatch (length ds) (length held))
                                      else
                                        (let hasRejectedToolCalls =
                                               list_ex (\<lambda>d. d_type d = ''reject'') ds
                                         in case process_decisions hasRejectedToolCalls
                                                   (zip ds held) autoApproved [] of
                                              Inl e \<Rightarrow> Inl e
                                            | Inr (revisedToolCalls, artificialToolMessages) \<Rightarrow>
                                                Inr (Some
                                                  \<lparr>hr_messages =
                                                     AIMessage (lastMessage
                                                       \<lparr>ai_tool_calls := Some revisedToolCalls\<rparr>)
                                                     # map ToolMessage artificialToolMessages,
                                                   hr_jumpTo =
                                                     (if hasRejectedToolCalls
                                                      then Some ''model'' else None)\<rparr>)))))))"

text \<open>
  Two notions used in the statements about the hook. A tool call \<open>matches\<close> the
  \<open>interruptOn\<close> mapping when its name has an entry that is \<open>true\<close> or a
  configuration. The rejected calls are the held calls paired with a decision of type
  "reject".
\<close>

definition matches :: "(string \<times> interrupt_on) list \<Rightarrow> tool_call \<Rightarrow> bool" where
  "matches interruptOn toolCall =
     list_ex (\<lambda>entry. fst entry = tc_name toolCall \<and> snd entry \<noteq> OnBool False) interruptOn"

definition rejected_calls ::
  "decision list \<Rightarrow> (tool_call \<times> resolved_config) list
     \<Rightarrow> (decision \<times> tool_call \<times> resolved_config) list" where
  "rejected_calls ds held = filter (\<lambda>z. d_type (fst z) = ''reject'') (zip ds held)"

text \<open>
  The review scenario of the specification: the tool \<open>dangerous\<close> is held for review,
  the model calls it once, and the human rejects the call with the message "nope".
  Other conversations also call the tool \<open>safe\<close> or a tool named \<open>toString\<close>, neither
  of which has an entry in \<open>interruptOn\<close>.
\<close>

definition dangerous_call :: tool_call where
  "dangerous_call =
     \<lparr>tc_type = Some ''tool_call'', tc_name = ''dangerous'',
      tc_args = JObj [(''x'', JNum 1)], tc_id = Some ''t9''\<rparr>"

definition safe_call :: tool_call where
  "safe_call =
     \<lparr>tc_type = Some ''tool_call'', tc_name = ''safe'', tc_args = JObj [], tc_id = Some ''t8''\<rparr>"

definition toString_call :: tool_call where
  "toString_call =
     \<lparr>tc_type = Some ''tool_call'', tc_name = ''toString'', tc_args = JObj [],
      tc_id = Some ''t7''\<rparr>"

definition dangerous_config :: "string list \<Rightarrow> interrupt_on_config" where
  "dangerous_config allowed =
     \<lparr>ioc_allowedDecisions = allowed,
      ioc_description = Some (DescriptionText ''Please review''),
      ioc_argsSchema = None\<rparr>"

definition review_interruptOn :: "string list \<Rightarrow> (string \<times> interrupt_on) list" where
  "review_interruptOn allowed = [(''dangerous'', OnConfig (dangerous_config allowed))]"

definition review_options :: "string list \<Rightarrow> hitl_options" where
  "review_options allowed =
     \<lparr>ho_interruptOn = Some (review_interruptOn allowed), ho_descriptionPrefix = None\<rparr>"

definition review_messages :: "tool_call list \<Rightarrow> message list" where
  "review_messages calls =
     [HumanMessage (CString ''go''),
      AIMessage \<lparr>ai_content = CString [], ai_tool_calls = Some calls\<rparr>]"

definition reject_nope :: decision where
  "reject_nope =
     \<lparr>d_type = ''reject'', d_editedAction = None, d_message = Some (JStr ''nope'')\<rparr>"

definition approve_decision :: decision where
  "approve_decision = \<lparr>d_type = ''approve'', d_editedAction = None, d_message = None\<rparr>"

definition edit_decision :: decision where
  "edit_decision =
     \<lparr>d_type = ''edit'',
      d_editedAction = Some \<lparr>ea_name = Some (JStr ''careful''),
                              ea_args = Some (JObj [(''x'', JNum 2)])\<rparr>,
      d_message = None\<rparr>"

section \<open>The LLM tool selector\<close>

text \<open>
  An entry of \<^verbatim>\<open>request.tools\<close> is an object. The code tells a structured tool from
  a provider-specific tool dict by the tests \<^verbatim>\<open>"name" in tool\<close>,
  \<^verbatim>\<open>typeof tool.name === "string"\<close> and \<^verbatim>\<open>"description" in tool\<close>: \<open>mt_name\<close> is the
  name when it is present and a string, \<open>mt_has_description\<close> the third test, and
  \<open>mt_label\<close> stands for the rest of the object.
\<close>

record model_tool =
  mt_name :: "string option"
  mt_has_description :: bool
  mt_label :: string

definition is_base_tool :: "model_tool \<Rightarrow> bool" where
  "is_base_tool tool = (mt_name tool \<noteq> None \<and> mt_has_description tool)"

text \<open>\<^verbatim>\<open>names.includes(tool.name)\<close> for a tool whose name is a string.\<close>

definition name_in :: "string list \<Rightarrow> model_tool \<Rightarrow> bool" where
  "name_in names tool = (case mt_name tool of None \<Rightarrow> False | Some n \<Rightarrow> n \<in> set names)"

record model_request =
  mr_messages :: "message list"
  mr_systemMessage :: string
  mr_tools :: "model_tool list option"

text \<open>The options: \<open>maxTools\<close> is a number, modelled by an integer.\<close>

record selector_options =
  so_systemPrompt :: "string option"
  so_maxTools :: "int option"
  so_alwaysInclude :: "string list option"

text \<open>\<^verbatim>\<open>Array.prototype.join\<close>.\<close>

fun join :: "string \<Rightarrow> string list \<Rightarrow> string" where
  "join sep [] = []"
| "join sep [x] = x"
| "join sep (x # y # ys) = x @ sep @ join sep (y # ys)"

text \<open>
  The body of the loop over \<^verbatim>\<open>response.tools\<close> in \<^verbatim>\<open>processSelectionResponse\<close>, on
  the pair of \<open>selectedToolNames\<close> and \<open>invalidToolSelections\<close>.
\<close>

definition select_step ::
  "string list \<Rightarrow> int option \<Rightarrow> string list \<times> string list \<Rightarrow> string
     \<Rightarrow> string list \<times> string list"
where
  "select_step validToolNames maxTools acc toolName =
     (let selectedToolNames = fst acc; invalidToolSelections = snd acc in
      if toolName \<notin> set validToolNames then
        (selectedToolNames, invalidToolSelections @ [toolName])
      else if toolName \<notin> set selectedToolNames \<and>
              (case maxTools of None \<Rightarrow> True
               | Some m \<Rightarrow> int (length selectedToolNames) < m) then
        (selectedToolNames @ [toolName], invalidToolSelections)
      else (selectedToolNames, invalidToolSelections))"

text \<open>\<^verbatim>\<open>processSelectionResponse\<close>.\<close>

definition processSelectionResponse ::
  "string list \<Rightarrow> model_tool list \<Rightarrow> string list \<Rightarrow> model_request \<Rightarrow> selector_options
     \<Rightarrow> exn + model_request"
where
  "processSelectionResponse response availableTools validToolNames request options =
     (let maxTools = so_maxTools options;
          alwaysInclude = (case so_alwaysInclude options of Some a \<Rightarrow> a | None \<Rightarrow> []);
          (selectedToolNames, invalidToolSelections) =
             foldl (select_step validToolNames maxTools) ([], []) response
      in if invalidToolSelections \<noteq> [] then
           Inl (Error (''Model selected invalid tools: '' @ join '', '' invalidToolSelections))
         else
           (let selectedTools = filter (name_in selectedToolNames) availableTools;
                requestTools = (case mr_tools request of Some ts \<Rightarrow> ts | None \<Rightarrow> []);
                alwaysIncludedTools = filter (name_in alwaysInclude) requestTools;
                providerTools = filter (\<lambda>tool. \<not> is_base_tool tool) requestTools
            in Inr (request\<lparr>mr_tools :=
                      Some ((selectedTools @ alwaysIncludedTools) @ providerTools)\<rparr>)))"

text \<open>
  \<^verbatim>\<open>prepareSelectionRequest\<close>. The system prompt and the model instance it also prepares
  only feed the call of the selection model, which is a parameter of the wrapper below.
  The always-included names come from the runtime context when it has them, from the
  options otherwise.
\<close>

record selection_request =
  sr_availableTools :: "model_tool list"
  sr_lastUserMessage :: content
  sr_validToolNames :: "string list"

fun last_human :: "message list \<Rightarrow> content option \<Rightarrow> content option" where
  "last_human [] found = found"
| "last_human (HumanMessage c # ms) found = last_human ms (Some c)"
| "last_human (_ # ms) found = last_human ms found"

definition prepareSelectionRequest ::
  "model_request \<Rightarrow> selector_options \<Rightarrow> selector_options option
     \<Rightarrow> exn + selection_request option"
where
  "prepareSelectionRequest request options context =
     (let alwaysInclude =
            (case Option.bind context so_alwaysInclude of
               Some a \<Rightarrow> a
             | None \<Rightarrow> (case so_alwaysInclude options of Some a \<Rightarrow> a | None \<Rightarrow> []))
      in case mr_tools request of
           None \<Rightarrow> Inr None
         | Some tools \<Rightarrow>
             if tools = [] then Inr None
             else
               (let baseTools = filter is_base_tool tools;
                    availableToolNames = List.map_filter mt_name baseTools;
                    missingTools = filter (\<lambda>name. name \<notin> set availableToolNames) alwaysInclude
                in if alwaysInclude \<noteq> [] \<and> missingTools \<noteq> [] then
                     Inl (Error (''Tools in alwaysInclude not found in request: ''
                                 @ join '', '' missingTools @ ''. Available tools: ''
                                 @ join '', '' (sort (remdups availableToolNames))))
                   else
                     (let availableTools = filter (\<lambda>tool. \<not> name_in alwaysInclude tool) baseTools
                      in if availableTools = [] then Inr None
                         else
                           (case last_human (mr_messages request) None of
                              None \<Rightarrow> Inl (Error ''No user message found in request messages'')
                            | Some lastUserMessage \<Rightarrow>
                                Inr (Some \<lparr>sr_availableTools = availableTools,
                                          sr_lastUserMessage = lastUserMessage,
                                          sr_validToolNames =
                                            List.map_filter mt_name availableTools\<rparr>)))))"

text \<open>
  \<^verbatim>\<open>wrapModelCall\<close> of the selector. \<open>select\<close> is the structured call of the selection
  model: it returns the listed tool names or throws.
\<close>

definition selector_wrapModelCall ::
  "selector_options \<Rightarrow> selector_options option \<Rightarrow> (selection_request \<Rightarrow> exn + string list)
     \<Rightarrow> model_request \<Rightarrow> (model_request \<Rightarrow> exn + 'res) \<Rightarrow> exn + 'res"
where
  "selector_wrapModelCall options context select request handler =
     (case prepareSelectionRequest request options context of
        Inl e \<Rightarrow> Inl e
      | Inr None \<Rightarrow> handler request
      | Inr (Some selectionRequest) \<Rightarrow>
          (case select selectionRequest of
             Inl e \<Rightarrow> Inl e
           | Inr response \<Rightarrow>
               (case processSelectionResponse response
                       (sr_availableTools selectionRequest)
                       (sr_validToolNames selectionRequest) request options of
                  Inl e \<Rightarrow> Inl e
                | Inr selected \<Rightarrow> handler selected)))"

text \<open>
  The names the loop selects, stated with library functions: the first occurrences of
  the listed names, in order, cut after \<open>maxTools\<close> of them.
\<close>

definition first_selected :: "int option \<Rightarrow> string list \<Rightarrow> string list" where
  "first_selected maxTools names =
     (case maxTools of
        None \<Rightarrow> rev (remdups (rev names))
      | Some m \<Rightarrow> take (nat m) (rev (remdups (rev names))))"

text \<open>
  The names the loop can still add when \<open>sel\<close> is already selected: the first
  occurrences of the names of \<open>xs\<close> that are not in \<open>sel\<close>.
\<close>

definition later_names :: "string list \<Rightarrow> string list \<Rightarrow> string list" where
  "later_names sel xs = filter (\<lambda>y. y \<notin> set sel) (rev (remdups (rev xs)))"

text \<open>
  The cap scenario of the specification: tools \<open>a\<close>, \<open>b\<close>, \<open>c\<close>, \<open>d\<close> and \<open>search\<close>, a
  provider-specific tool dict, \<open>maxTools = 3\<close> and \<open>alwaysInclude = ["search"]\<close>.
\<close>

definition named_tool :: "string \<Rightarrow> model_tool" where
  "named_tool name = \<lparr>mt_name = Some name, mt_has_description = True, mt_label = ''tool''\<rparr>"

definition provider_tool :: model_tool where
  "provider_tool = \<lparr>mt_name = None, mt_has_description = False, mt_label = ''web_search''\<rparr>"

definition selector_request :: model_request where
  "selector_request =
     \<lparr>mr_messages = [HumanMessage (CString ''find it'')],
      mr_systemMessage = ''You are helpful'',
      mr_tools = Some [named_tool ''a'', named_tool ''b'', named_tool ''c'', named_tool ''d'',
                       named_tool ''search'', provider_tool]\<rparr>"

definition cap_options :: selector_options where
  "cap_options =
     \<lparr>so_systemPrompt = None, so_maxTools = Some 3, so_alwaysInclude = Some [''search'']\<rparr>"

definition fixed_selection :: "string list \<Rightarrow> selection_request \<Rightarrow> exn + string list" where
  "fixed_selection names selectionRequest = Inr names"

definition pass_on :: "model_request \<Rightarrow> exn + model_request" where
  "pass_on request = Inr request"

section \<open>The client tool middleware\<close>

text \<open>
  The configured client tools, and the resume payload \<^verbatim>\<open>{toolMessages: [...]}\<close>. An
  element of \<open>toolMessages\<close> is \<^verbatim>\<open>null\<close>, a \<^verbatim>\<open>ToolMessage\<close> instance, or a plain
  object with optional fields; \<open>None\<close> for \<open>toolMessages\<close> stands for a value that is
  absent or not an array.
\<close>

record client_tool =
  ct_name :: string
  ct_description :: "string option"
  ct_schema :: "string option"

record client_tool_options =
  clientTools :: "client_tool list"

record client_tool_message_input =
  cm_tool_call_id :: "string option"
  cm_content :: "json option"
  cm_name :: "string option"
  cm_status :: "string option"
  cm_artifact :: "json option"

datatype client_message =
    MsgNull
  | MsgInstance tool_message
  | MsgInput client_tool_message_input

record client_tool_response =
  toolMessages :: "client_message list option"

text \<open>\<^verbatim>\<open>message?.tool_call_id\<close>.\<close>

fun message_tool_call_id :: "client_message \<Rightarrow> string option" where
  "message_tool_call_id MsgNull = None"
| "message_tool_call_id (MsgInstance m) = tm_tool_call_id m"
| "message_tool_call_id (MsgInput i) = cm_tool_call_id i"

text \<open>Truthiness of an optional string: present and not empty.\<close>

definition present :: "string option \<Rightarrow> bool" where
  "present i = (case i of None \<Rightarrow> False | Some s \<Rightarrow> s \<noteq> [])"

text \<open>
  \<^verbatim>\<open>toToolMessage\<close>: an instance is returned as it is; for a plain object the id is
  \<^verbatim>\<open>message.tool_call_id ?? toolCall.id\<close>, and a falsy id throws.
\<close>

definition toToolMessage ::
  "(json \<Rightarrow> string) \<Rightarrow> client_message \<Rightarrow> tool_call \<Rightarrow> exn + tool_message" where
  "toToolMessage stringify message toolCall =
     (case message of
        MsgInstance m \<Rightarrow> Inr m
      | MsgNull \<Rightarrow> Inl (Error ''Cannot read properties of null (reading 'tool_call_id')'')
      | MsgInput i \<Rightarrow>
          (let toolCallId = (case cm_tool_call_id i of Some x \<Rightarrow> Some x | None \<Rightarrow> tc_id toolCall)
           in if \<not> present toolCallId then
                Inl (Error (''Missing tool_call_id for client tool '' @ dq @ tc_name toolCall @ dq
                  @ ''. Provide tool_call_id in the response or ensure the tool call has an id.''))
              else
                Inr \<lparr>tm_content = CString
                        (case cm_content i of
                           None \<Rightarrow> []
                         | Some (JStr s) \<Rightarrow> s
                         | Some JNull \<Rightarrow> []
                         | Some j \<Rightarrow> stringify j),
                     tm_name = Some (case cm_name i of Some n \<Rightarrow> n | None \<Rightarrow> tc_name toolCall),
                     tm_tool_call_id = toolCallId,
                     tm_status = cm_status i,
                     tm_artifact = cm_artifact i\<rparr>))"

text \<open>
  \<^verbatim>\<open>wrapToolCall\<close> of the client tool middleware; \<open>resume\<close> is what
  \<^verbatim>\<open>interrupt(clientRequest)\<close> returns on resume, and without it the call throws the
  interrupt. The hook has the type the tool node expects of a wrapper.
\<close>

definition client_wrapToolCall ::
  "(json \<Rightarrow> string) \<Rightarrow> client_tool_options \<Rightarrow> client_tool_response option
     \<Rightarrow> wrap_tool_call_hook"
where
  "client_wrapToolCall stringify options resume request handler =
     (if clientTools options = [] then handler request
      else if \<not> list_ex (\<lambda>clientTool. ct_name clientTool = tc_name (rq_toolCall request))
                  (clientTools options) then handler request
      else case resume of
        None \<Rightarrow> (Inl (GraphInterrupt (ClientToolRequest [rq_toolCall request])), [])
      | Some response \<Rightarrow>
          (case toolMessages response of
             None \<Rightarrow>
               (Inl (Error ''Invalid ClientToolResponse: toolMessages must be an array with exactly one item''), [])
           | Some ms \<Rightarrow>
               if length ms \<noteq> 1 then
                 (Inl (Error ''Invalid ClientToolResponse: toolMessages must be an array with exactly one item''), [])
               else
                 (let message = ms ! 0 in
                  if present (message_tool_call_id message) \<and> present (tc_id (rq_toolCall request))
                     \<and> message_tool_call_id message \<noteq> tc_id (rq_toolCall request) then
                    (Inl (Error (''Invalid ClientToolResponse: tool_call_id '' @ dq
                       @ shown_id (message_tool_call_id message) @ dq @ '' does not match '' @ dq
                       @ shown_id (tc_id (rq_toolCall request)) @ dq @ ''.'')), [])
                  else
                    (case toToolMessage stringify message (rq_toolCall request) of
                       Inl e \<Rightarrow> (Inl e, [])
                     | Inr m \<Rightarrow> (Inr (RetToolMessage m), [])))))"

text \<open>
  The client tool scenario of the specification: the tool \<open>browser.open\<close> runs on the
  client, the model calls it with id "c1", and the client answers "ok".
\<close>

definition browser_options :: client_tool_options where
  "browser_options =
     \<lparr>clientTools = [\<lparr>ct_name = ''browser.open'', ct_description = None, ct_schema = None\<rparr>]\<rparr>"

definition browser_call :: tool_call where
  "browser_call =
     \<lparr>tc_type = Some ''tool_call'', tc_name = ''browser.open'',
      tc_args = JObj [(''url'', JStr ''x'')], tc_id = Some ''c1''\<rparr>"

definition browser_tool :: tool where
  "browser_tool =
     \<lparr>tool_name = ''browser.open'', tool_invoke = (\<lambda>call cfg. Inr (RetRaw (CString [])))\<rparr>"

definition client_messages :: "message list" where
  "client_messages =
     [AIMessage \<lparr>ai_content = CString [], ai_tool_calls = Some [browser_call]\<rparr>]"

definition client_input :: node_input where
  "client_input =
     InputObject
       \<lparr>in_messages = None,
        in_channels = [(''agent_channel'', \<lparr>ch_messages = Some client_messages\<rparr>)],
        in_toolCall = Some browser_call\<rparr>"

definition browser_request :: tool_call_request where
  "browser_request =
     tool_request client_input example_config client_messages browser_call browser_tool"

definition client_reply :: "string option \<Rightarrow> client_message" where
  "client_reply cid =
     MsgInput \<lparr>cm_tool_call_id = cid, cm_content = Some (JStr ''ok''), cm_name = None,
               cm_status = None, cm_artifact = None\<rparr>"

definition failing_handler :: tool_call_handler where
  "failing_handler request = (Inl (Error ''handler was called''), [])"

text \<open>The text of the mismatch error, and a tool node that runs the hook.\<close>

definition mismatch_text :: "string \<Rightarrow> string \<Rightarrow> string" where
  "mismatch_text mid cid =
     ''Invalid ClientToolResponse: tool_call_id '' @ dq @ mid @ dq
       @ '' does not match '' @ dq @ cid @ dq @ ''.''"

definition client_node :: "bool \<Rightarrow> client_tool_response option \<Rightarrow> tool_node" where
  "client_node handle resume =
     \<lparr>tn_tools = [browser_tool],
      tn_handleToolErrors = handle,
      tn_channel = Some ''agent_channel'',
      tn_variables = None,
      tn_toolName = Some ''browser.open'',
      tn_wrapToolCall = Some (client_wrapToolCall no_stringify browser_options resume)\<rparr>"

definition mismatched_response :: client_tool_response where
  "mismatched_response = \<lparr>toolMessages = Some [client_reply (Some ''zz'')]\<rparr>"

section \<open>The invoke handler\<close>

text \<open>
  \<^verbatim>\<open>invoke.handler.ts\<close>, \<^verbatim>\<open>XpertAgentInvokeHandler.execute\<close>: the callbacks attached
  to the event stream of the graph.

  Modelled from the spec: the declaration of \<^verbatim>\<open>XpertAgentExecutionStatusEnum\<close> is not
  among the sources; the spec lists the statuses of a run as RUNNING, SUCCESS, ERROR,
  INTERRUPTED and ABORTED.
\<close>

datatype execution_status = RUNNING | SUCCESS | ERROR | INTERRUPTED | ABORTED

text \<open>
  The \<^verbatim>\<open>configurable\<close> part of a checkpoint configuration, the state snapshot
  returned by \<^verbatim>\<open>graph.getState\<close>, the result of
  \<^verbatim>\<open>checkpointSaver.getCopilotCheckpoint\<close>, and the fields of the execution that the
  handler writes.
\<close>

record checkpoint_ref =
  checkpoint_ns :: "string option"
  checkpoint_id :: "string option"

record graph_state =
  gs_config :: "checkpoint_ref option"
  gs_parentConfig :: "checkpoint_ref option"
  gs_title :: "string option"

record copilot_checkpoint =
  cc_checkpoint :: "checkpoint_ref option"
  cc_pendingWrites :: "checkpoint_ref list option"

record execution =
  ex_id :: string
  ex_checkpointNs :: "string option"
  ex_checkpointId :: "string option"
  ex_title :: "string option"

text \<open>
  The services the callbacks await. Each call can throw: \<open>getState\<close> is the outcome of
  \<^verbatim>\<open>graph.getState\<close>, \<open>getCheckpointsByParent\<close> the outcome of the
  \<^verbatim>\<open>GetCopilotCheckpointsByParentQuery\<close>, and \<open>upsertFails\<close> the error of the
  \<^verbatim>\<open>XpertAgentExecutionUpsertCommand\<close>, if it has one.
\<close>

record services =
  getState :: "exn + graph_state"
  getCopilotCheckpoint :: "checkpoint_ref option \<Rightarrow> exn + copilot_checkpoint"
  getCheckpointsByParent :: "checkpoint_ref option \<Rightarrow> exn + checkpoint_ref list"
  upsertFails :: "exn option"

text \<open>\<^verbatim>\<open>a ?? b\<close> on optional values.\<close>

definition orElse :: "'a option \<Rightarrow> 'a option \<Rightarrow> 'a option" where
  "orElse a b = (case a of Some x \<Rightarrow> Some x | None \<Rightarrow> b)"

text \<open>\<^verbatim>\<open>recordLastState\<close> (lines 126--158); the execution is updated and returned.\<close>

definition recordLastState :: "services \<Rightarrow> execution \<Rightarrow> exn + (graph_state \<times> execution)" where
  "recordLastState env execution =
     (case getState env of
        Inl e \<Rightarrow> Inl e
      | Inr state \<Rightarrow>
          (case getCopilotCheckpoint env (orElse (gs_config state) (gs_parentConfig state)) of
             Inl e \<Rightarrow> Inl e
           | Inr found \<Rightarrow>
               (let execution1 = execution
                      \<lparr>ex_checkpointNs :=
                         orElse (Option.bind (gs_config state) checkpoint_ns)
                                (Option.bind (cc_checkpoint found) checkpoint_ns),
                       ex_checkpointId :=
                         orElse (Option.bind (gs_config state) checkpoint_id)
                                (Option.bind (cc_checkpoint found) checkpoint_id)\<rparr>;
                    execution2 =
                      (case cc_pendingWrites found of
                         Some (w # _) \<Rightarrow>
                           execution1\<lparr>ex_checkpointNs := checkpoint_ns w,
                                      ex_checkpointId := checkpoint_id w\<rparr>
                       | _ \<Rightarrow> execution1);
                    execution3 =
                      (case gs_title state of
                         Some t \<Rightarrow> (if t \<noteq> [] then execution2\<lparr>ex_title := Some t\<rparr> else execution2)
                       | None \<Rightarrow> execution2)
                in Inr (state, execution3))))"

text \<open>
  \<^verbatim>\<open>options.language || user.preferredLanguage || 'en-US'\<close> and
  \<^verbatim>\<open>team.agentConfig?.recursionLimit ?? AgentRecursionLimit\<close>; the constant is a
  parameter, its declaration is not among the sources.
\<close>

definition truthy_or :: "string option \<Rightarrow> string \<Rightarrow> string" where
  "truthy_or a b = (case a of Some s \<Rightarrow> (if s \<noteq> [] then s else b) | None \<Rightarrow> b)"

definition languageCode :: "string option \<Rightarrow> string option \<Rightarrow> string" where
  "languageCode options_language preferredLanguage =
     truthy_or options_language (truthy_or preferredLanguage ''en-US'')"

definition recursionLimit :: "nat option \<Rightarrow> nat \<Rightarrow> nat" where
  "recursionLimit configured AgentRecursionLimit =
     (case configured of Some l \<Rightarrow> l | None \<Rightarrow> AgentRecursionLimit)"

text \<open>
  The \<^verbatim>\<open>catchError\<close> callback (lines 229--249): it records the last state, then throws
  the translated error for a \<^verbatim>\<open>GraphRecursionError\<close> and rethrows anything else.
  \<open>translate\<close> is \<^verbatim>\<open>i18nService.t\<close> with the key, the language and the limit;
  \<open>mapTranslationLanguage\<close> is the function of that name, not among the sources.
\<close>

definition on_stream_error ::
  "services \<Rightarrow> (string \<Rightarrow> string \<Rightarrow> nat \<Rightarrow> string) \<Rightarrow> (string \<Rightarrow> string) \<Rightarrow> string \<Rightarrow> nat
     \<Rightarrow> execution \<Rightarrow> exn \<Rightarrow> exn \<times> execution"
where
  "on_stream_error env translate mapTranslationLanguage language limit execution err =
     (case recordLastState env execution of
        Inl e \<Rightarrow> (e, execution)
      | Inr (state, execution') \<Rightarrow>
          (case err of
             GraphRecursionError _ \<Rightarrow>
               (Error (translate ''xpert.Error.RecursionLimitReached''
                         (mapTranslationLanguage language) limit), execution')
           | _ \<Rightarrow> (err, execution')))"

text \<open>
  The content stream as far as its end is concerned: \<open>graph\<close> gives the error with
  which \<^verbatim>\<open>graph.streamEvents\<close> ends when run with a recursion limit, if it ends with
  one. The result is the error of the stream and the execution.
\<close>

definition contentStream ::
  "services \<Rightarrow> (string \<Rightarrow> string \<Rightarrow> nat \<Rightarrow> string) \<Rightarrow> (string \<Rightarrow> string)
     \<Rightarrow> (nat \<Rightarrow> exn option) \<Rightarrow> nat \<Rightarrow> nat option \<Rightarrow> string option \<Rightarrow> string option
     \<Rightarrow> execution \<Rightarrow> exn option \<times> execution"
where
  "contentStream env translate mapTranslationLanguage graph AgentRecursionLimit configured
       options_language preferredLanguage execution =
     (let language = languageCode options_language preferredLanguage;
          limit = recursionLimit configured AgentRecursionLimit
      in case graph limit of
           None \<Rightarrow> (None, execution)
         | Some err \<Rightarrow>
             (case on_stream_error env translate mapTranslationLanguage language limit execution err of
                (e, execution') \<Rightarrow> (Some e, execution')))"

text \<open>
  The \<^verbatim>\<open>unsubscribe\<close> callback (lines 283--317) on the state of the runner: the abort
  signal and the upsert commands executed so far. Everything after the abort is inside
  a \<^verbatim>\<open>try\<close> whose \<^verbatim>\<open>catch\<close> is empty.
\<close>

record execution_upsert =
  up_id :: string
  up_checkpointId :: "string option"
  up_status :: execution_status
  up_error :: string

record runner =
  aborted :: bool
  upserts :: "execution_upsert list"

definition on_unsubscribe :: "services \<Rightarrow> execution \<Rightarrow> runner \<Rightarrow> runner" where
  "on_unsubscribe env execution r =
     (let r1 = (if \<not> aborted r then r\<lparr>aborted := True\<rparr> else r)
      in case getState env of
           Inl _ \<Rightarrow> r1
         | Inr state \<Rightarrow>
             (case getCheckpointsByParent env (gs_parentConfig state) of
                Inl _ \<Rightarrow> r1
              | Inr checkpoints \<Rightarrow>
                  (case upsertFails env of
                     Some _ \<Rightarrow> r1
                   | None \<Rightarrow>
                       r1\<lparr>upserts := upserts r1 @
                            [\<lparr>up_id = ex_id execution,
                              up_checkpointId =
                                orElse (Option.bind (gs_config state) checkpoint_id)
                                  (case checkpoints of
                                     [] \<Rightarrow> None
                                   | c # _ \<Rightarrow> checkpoint_id c),
                              up_status = ERROR,
                              up_error = ''Aborted!''\<rparr>]\<rparr>)))"

text \<open>
  The recursion scenario of the specification: the graph ends with a recursion error,
  the state lookup finds the checkpoint "cp4", and the user's language is "zh-CN".
\<close>

definition demo_state :: graph_state where
  "demo_state =
     \<lparr>gs_config = Some \<lparr>checkpoint_ns = Some [], checkpoint_id = Some ''cp4''\<rparr>,
      gs_parentConfig = None,
      gs_title = None\<rparr>"

definition demo_services :: services where
  "demo_services =
     \<lparr>getState = Inr demo_state,
      getCopilotCheckpoint = (\<lambda>ref. Inr \<lparr>cc_checkpoint = None, cc_pendingWrites = None\<rparr>),
      getCheckpointsByParent = (\<lambda>ref. Inr []),
      upsertFails = None\<rparr>"

text \<open>
  The same lookup when the checkpoint found has a pending write: the checkpoint "cp3"
  and a write pending for the namespace "tools" under the id "cp5".
\<close>

definition pending_services :: services where
  "pending_services =
     demo_services
       \<lparr>getCopilotCheckpoint :=
          (\<lambda>ref. Inr \<lparr>cc_checkpoint = Some \<lparr>checkpoint_ns = Some [],
                                                checkpoint_id = Some ''cp3''\<rparr>,
                        cc_pendingWrites = Some [\<lparr>checkpoint_ns = Some ''tools'',
                                                  checkpoint_id = Some ''cp5''\<rparr>]\<rparr>)\<rparr>"

definition demo_execution :: execution where
  "demo_execution =
     \<lparr>ex_id = ''run1'', ex_checkpointNs = None, ex_checkpointId = None, ex_title = None\<rparr>"

definition demo_translate :: "string \<Rightarrow> string \<Rightarrow> nat \<Rightarrow> string" where
  "demo_translate key lang limit = lang @ '':'' @ key"

definition demo_language :: "string \<Rightarrow> string" where
  "demo_language code = (if code = ''zh-CN'' then ''zh-Hans'' else ''en'')"

definition looping_graph :: "nat \<Rightarrow> exn option" where
  "looping_graph limit = Some (GraphRecursionError ''Recursion limit reached'')"

section \<open>Middleware composition around the model call\<close>

text \<open>
  \<^verbatim>\<open>subgraph.handler.ts\<close>, \<^verbatim>\<open>callModel\<close>: the effective model-call handler is
  \<^verbatim>\<open>agentMiddlewares.reduceRight((next, middleware) =>
       !middleware?.wrapModelCall ? next : (request) => middleware.wrapModelCall(request, next),
     defaultModelHandler)\<close>.
  A middleware is a record whose \<open>wrapModelCall\<close> hook is optional; an entry of the
  middleware array may itself be absent (\<^verbatim>\<open>middleware?.\<close>), hence the list of options.
  The request and response types stay polymorphic.
\<close>

type_synonym ('req, 'res) model_handler = "'req \<Rightarrow> 'res"

record ('req, 'res) agent_middleware =
  mw_name :: string
  wrapModelCall :: "('req \<Rightarrow> ('req, 'res) model_handler \<Rightarrow> 'res) option"

text \<open>The reducer passed to \<^verbatim>\<open>reduceRight\<close>: accumulator first, element second.\<close>

definition wrap_step ::
  "('req, 'res) model_handler \<Rightarrow> ('req, 'res) agent_middleware option \<Rightarrow> ('req, 'res) model_handler"
where
  "wrap_step next middleware =
     (case middleware of
        None \<Rightarrow> next
      | Some m \<Rightarrow>
          (case wrapModelCall m of
             None \<Rightarrow> next
           | Some w \<Rightarrow> (\<lambda>request. w request next)))"

text \<open>
  \<^verbatim>\<open>xs.reduceRight(f, init)\<close> visits the elements from the last to the first, so it is
  \<open>foldr\<close> with the reducer's arguments swapped.
\<close>

definition wrappedModelHandler ::
  "('req, 'res) agent_middleware option list \<Rightarrow> ('req, 'res) model_handler \<Rightarrow> ('req, 'res) model_handler"
where
  "wrappedModelHandler agentMiddlewares defaultModelHandler =
     foldr (\<lambda>middleware next. wrap_step next middleware) agentMiddlewares defaultModelHandler"

text \<open>Two tracing middlewares and a core handler, used to observe the nesting order.\<close>

definition bracket_mw :: "string \<Rightarrow> (string, string) agent_middleware" where
  "bracket_mw tag =
     \<lparr> mw_name = tag,
       wrapModelCall = Some (\<lambda>request next. tag @ ''('' @ next request @ '')'') \<rparr>"

definition echo_core :: "(string, string) model_handler" where
  "echo_core request = request"

section \<open>Theorems\<close>

subsection \<open>The tool node\<close>

lemma run_not_ai:
  "not_ai (last_input_message node input) \<Longrightarrow>
   run race stringify node input config =
     (Inl (Error ''ToolNode only accepts AIMessages as input.''), [])"
  by (simp add: run_def)

text \<open>
  C10. For every invocation of \<open>run\<close>: if the last message of the input (of the input
  array, of the caller's agent channel, or of \<open>input.messages\<close>) is missing or is not
  an AI message, the invocation throws the error
  "ToolNode only accepts AIMessages as input." and no tool is invoked: no call is
  started, so there are no effects.
\<close>

theorem C10_run_only_accepts_ai_messages:
  assumes "last_input_message node input = None \<or>
           (\<exists>m. last_input_message node input = Some m \<and> \<not> isAIMessage m)"
  shows "run race stringify node input config =
           (Inl (Error ''ToolNode only accepts AIMessages as input.''), [])"
proof -
  from assms have "not_ai (last_input_message node input)"
  proof
    assume "last_input_message node input = None"
    then show ?thesis by (simp add: not_ai_def)
  next
    assume "\<exists>m. last_input_message node input = Some m \<and> \<not> isAIMessage m"
    then obtain m where "last_input_message node input = Some m" "\<not> isAIMessage m" by blast
    then show ?thesis by (cases m) (simp_all add: not_ai_def)
  qed
  then show ?thesis by (rule run_not_ai)
qed

theorem C10_run_only_accepts_ai_messages_witness:
  "last_input_message example_node
     (InputArray [AIMessage \<lparr>ai_content = CString [],
                             ai_tool_calls = Some [example_call ''add'' ''t1'']\<rparr>,
                  HumanMessage (CString ''hi'')]) = Some (HumanMessage (CString ''hi'')) \<and>
   \<not> isAIMessage (HumanMessage (CString ''hi'')) \<and>
   last_input_message example_node
     (InputObject \<lparr>in_messages = Some [AIMessage \<lparr>ai_content = CString [],
                                                    ai_tool_calls = Some [example_call ''add'' ''t1'']\<rparr>],
                   in_channels = [],
                   in_toolCall = Some (example_call ''add'' ''t1'')\<rparr>) = None \<and>
   run 0 no_stringify example_node
     (InputArray [AIMessage \<lparr>ai_content = CString [],
                             ai_tool_calls = Some [example_call ''add'' ''t1'']\<rparr>,
                  HumanMessage (CString ''hi'')]) example_config
     = (Inl (Error ''ToolNode only accepts AIMessages as input.''), []) \<and>
   run 0 no_stringify example_node
     (InputObject \<lparr>in_messages = Some [AIMessage \<lparr>ai_content = CString [],
                                                    ai_tool_calls = Some [example_call ''add'' ''t1'']\<rparr>],
                   in_channels = [],
                   in_toolCall = Some (example_call ''add'' ''t1'')\<rparr>) example_config
     = (Inl (Error ''ToolNode only accepts AIMessages as input.''), [])"
proof -
  let ?array = "InputArray [AIMessage \<lparr>ai_content = CString [],
                             ai_tool_calls = Some [example_call ''add'' ''t1'']\<rparr>,
                  HumanMessage (CString ''hi'')]"
  let ?state = "InputObject \<lparr>in_messages = Some [AIMessage \<lparr>ai_content = CString [],
                                                    ai_tool_calls = Some [example_call ''add'' ''t1'']\<rparr>],
                   in_channels = [],
                   in_toolCall = Some (example_call ''add'' ''t1'')\<rparr>"
  have a: "last_input_message example_node ?array = Some (HumanMessage (CString ''hi''))"
    by (simp add: last_input_message_def input_messages_def)
  have b: "\<not> isAIMessage (HumanMessage (CString ''hi''))" by simp
  have c: "last_input_message example_node ?state = None"
    by (simp add: last_input_message_def input_messages_def example_node_def)
  from a b have h1: "last_input_message example_node ?array = None \<or>
           (\<exists>m. last_input_message example_node ?array = Some m \<and> \<not> isAIMessage m)" by blast
  from c have h2: "last_input_message example_node ?state = None \<or>
           (\<exists>m. last_input_message example_node ?state = Some m \<and> \<not> isAIMessage m)" by blast
  from C10_run_only_accepts_ai_messages [OF h1, of 0 no_stringify example_config]
       C10_run_only_accepts_ai_messages [OF h2, of 0 no_stringify example_config] a b c
  show ?thesis by blast
qed

lemma invoke_wrapped_tool_throws:
  assumes "tn_wrapToolCall node = None"
      and "tool_invoke tool (call\<lparr>tc_type := Some ''tool_call''\<rparr>)
             (config\<lparr>rc_toolName := tn_toolName node, rc_tool_call_id := tc_id call\<rparr>) = Inl e"
  shows "invoke_wrapped stringify node input config messages call tool =
           (Inl e, [ToolInvoked (tool_name tool) (call\<lparr>tc_type := Some ''tool_call''\<rparr>)
                      (config\<lparr>rc_toolName := tn_toolName node, rc_tool_call_id := tc_id call\<rparr>)])"
  using assms by (simp add: invoke_wrapped_def tool_request_def defaultHandler_def Let_def)

lemma run_call_throw:
  assumes "find (\<lambda>t. tool_name t = tc_name call) (tn_tools node) = Some tool"
      and "invoke_wrapped stringify node input config messages call tool = (Inl e, log)"
  shows "run_call stringify node input config messages call = handle_tool_error node call e log"
  using assms by (simp add: run_call_def)

text \<open>
  When a run over an AI message rejects, it rejects with the error of one of its calls
  that threw, whichever the race.
\<close>

lemma run_rejects_with_thrown:
  assumes "\<not> not_ai (last_input_message node input)"
      and "fst (run race stringify node input config) = Inl e"
  shows "e \<in> set (thrown (map (\<lambda>c. fst (run_call stringify node input config
                                         (case input_messages node input of
                                            Some ms \<Rightarrow> ms | None \<Rightarrow> []) c))
                           (node_tool_calls node input)))"
proof -
  let ?rs = "map (\<lambda>c. fst (run_call stringify node input config
                            (case input_messages node input of Some ms \<Rightarrow> ms | None \<Rightarrow> []) c))
               (node_tool_calls node input)"
  from assms have "first_rejection race ?rs = Some e"
    by (auto simp: run_def Let_def comp_def split: option.splits if_splits node_input.splits)
  then obtain x xs where t: "thrown ?rs = x # xs"
    and e: "e = (x # xs) ! (race mod length (x # xs))"
    by (auto simp: first_rejection_def split: list.splits)
  have "race mod length (x # xs) < length (x # xs)" by simp
  then have "(x # xs) ! (race mod length (x # xs)) \<in> set (x # xs)" by (rule nth_mem)
  with t e show ?thesis by simp
qed

text \<open>
  C3, as the code has it. For a tool call whose wrapped invocation throws \<open>e\<close>: if
  \<open>handleToolErrors\<close> is false the exception is rethrown; if it is a graph interrupt
  it is rethrown even when \<open>handleToolErrors\<close> is true; otherwise the node dispatches
  an \<open>on_tool_error\<close> event with the call and the error text, and returns a command
  whose update writes one tool message under \<open>messages\<close> and under the caller's agent
  channel. That message has the call's name, a content that begins with "Error: "
  followed by the exception's message, and no status: the status field is left unset.
\<close>

theorem C3_tool_error_rethrown_or_fed_back:
  assumes "find (\<lambda>t. tool_name t = tc_name call) (tn_tools node) = Some tool"
      and "invoke_wrapped stringify node input config messages call tool = (Inl e, log)"
  shows "(\<not> tn_handleToolErrors node \<longrightarrow>
            run_call stringify node input config messages call = (Inl e, log)) \<and>
         (isGraphInterrupt e \<longrightarrow>
            run_call stringify node input config messages call = (Inl e, log)) \<and>
         (tn_handleToolErrors node \<and> \<not> isGraphInterrupt e \<longrightarrow>
            run_call stringify node input config messages call =
              (Inr (OutCommand
                 \<lparr>cmd_update = Some (UpdObject
                    (obj_set (channel_key node)
                       (UObjMessages (UMessages [ToolMessage (error_tool_message call e)]))
                       [(''messages'', UMessages [ToolMessage (error_tool_message call e)])])),
                  cmd_goto = []\<rparr>),
               log @ [CustomEvent ON_TOOL_ERROR call (getErrorMessage e)]) \<and>
            tm_content (error_tool_message call e) =
              CString (''Error: '' @ exn_message e @ nl @ '' Please fix your mistakes.'') \<and>
            tm_name (error_tool_message call e) = Some (tc_name call) \<and>
            tm_status (error_tool_message call e) = None)"
  using run_call_throw [OF assms]
  by (simp add: handle_tool_error_def error_tool_message_def Let_def)

theorem C3_tool_error_rethrown_or_fed_back_witness:
  "find (\<lambda>t. tool_name t = tc_name (example_call ''boom'' ''t1'')) (tn_tools example_node)
     = Some boom_tool \<and>
   invoke_wrapped no_stringify example_node (InputArray []) example_config []
       (example_call ''boom'' ''t1'') boom_tool
     = (Inl (Error ''kaput''),
        [ToolInvoked ''boom'' ((example_call ''boom'' ''t1'')\<lparr>tc_type := Some ''tool_call''\<rparr>)
           \<lparr>rc_toolName = Some ''toolset'', rc_tool_call_id = Some ''t1''\<rparr>]) \<and>
   run_call no_stringify example_node (InputArray []) example_config []
       (example_call ''boom'' ''t1'')
     = (Inr (OutCommand
          \<lparr>cmd_update = Some (UpdObject
             [(''messages'', UMessages [ToolMessage boom_message]),
              (''agent_channel'', UObjMessages (UMessages [ToolMessage boom_message]))]),
           cmd_goto = []\<rparr>),
        [ToolInvoked ''boom'' ((example_call ''boom'' ''t1'')\<lparr>tc_type := Some ''tool_call''\<rparr>)
           \<lparr>rc_toolName = Some ''toolset'', rc_tool_call_id = Some ''t1''\<rparr>,
         CustomEvent ON_TOOL_ERROR (example_call ''boom'' ''t1'') ''kaput''])"
proof -
  have f: "find (\<lambda>t. tool_name t = tc_name (example_call ''boom'' ''t1'')) (tn_tools example_node)
             = Some boom_tool"
    by (simp add: example_node_def example_call_def add_tool_def boom_tool_def)
  have t: "invoke_wrapped no_stringify example_node (InputArray []) example_config []
             (example_call ''boom'' ''t1'') boom_tool
           = (Inl (Error ''kaput''),
              [ToolInvoked ''boom'' ((example_call ''boom'' ''t1'')\<lparr>tc_type := Some ''tool_call''\<rparr>)
                 \<lparr>rc_toolName = Some ''toolset'', rc_tool_call_id = Some ''t1''\<rparr>])"
    by (simp add: invoke_wrapped_def tool_request_def defaultHandler_def Let_def example_node_def
          example_call_def example_config_def boom_tool_def)
  from C3_tool_error_rethrown_or_fed_back [OF f t] f t show ?thesis
    by (simp add: example_node_def channel_key_def error_tool_message_def boom_message_def
          example_call_def getErrorMessage_def)
qed

text \<open>
  The specification asks for a tool message with status "error". On a node with
  \<open>handleToolErrors\<close> set whose tool throws an ordinary error, the message that is fed
  back carries no status.
\<close>

theorem C3_status_error_counterexample:
  "fst (run_call no_stringify example_node (InputArray []) example_config []
          (example_call ''boom'' ''t1''))
     = Inr (OutCommand
          \<lparr>cmd_update = Some (UpdObject
             [(''messages'', UMessages [ToolMessage boom_message]),
              (''agent_channel'', UObjMessages (UMessages [ToolMessage boom_message]))]),
           cmd_goto = []\<rparr>) \<and>
   tm_status boom_message \<noteq> Some ''error''"
  by (simp add: run_call_def invoke_wrapped_def tool_request_def defaultHandler_def handle_tool_error_def
        error_tool_message_def Let_def example_node_def example_call_def example_config_def
        boom_tool_def add_tool_def channel_key_def boom_message_def)

subsection \<open>The human-in-the-loop hook\<close>

lemma processDecision_Configured:
  "processDecision d tc (Configured cfg) =
     (if d_type d = ''approve'' \<and> ''approve'' \<in> set (ioc_allowedDecisions cfg) then
        Inr (Some tc, None)
      else if d_type d = ''edit'' \<and> ''edit'' \<in> set (ioc_allowedDecisions cfg) then
        edit_branch d tc
      else if d_type d = ''reject'' \<and> ''reject'' \<in> set (ioc_allowedDecisions cfg) then
        reject_branch d tc
      else Inl (UnexpectedDecision d (tc_name tc) (Some (ioc_allowedDecisions cfg))))"
  by (simp add: processDecision_def type_allowed_def array_includes_def Let_def)

lemma processDecision_Inherited:
  "processDecision d tc Inherited =
     (if d_type d = ''approve'' \<or> d_type d = ''edit'' \<or> d_type d = ''reject'' then
        Inl (TypeError ''Cannot read properties of undefined (reading 'includes')'')
      else Inl (UnexpectedDecision d (tc_name tc) None))"
  by (simp add: processDecision_def type_allowed_def array_includes_def Let_def)

lemma processDecision_rejecting:
  assumes "processDecision d tc cfg = Inr (r, m)"
  shows "r \<noteq> None \<and>
         (d_type d = ''reject'' \<longrightarrow> r = Some tc \<and> m = Some (rejection_message d tc)) \<and>
         (d_type d \<noteq> ''reject'' \<longrightarrow> m = None)"
proof (cases cfg)
  case (Configured c)
  with assms show ?thesis
    by (auto simp: processDecision_Configured edit_branch_def reject_branch_def
           split: if_splits option.splits json.splits)
next
  case Inherited
  with assms show ?thesis by (simp add: processDecision_Inherited split: if_splits)
qed

lemma process_decisions_rejected:
  assumes "process_decisions True zs revised0 artificial0 = Inr (revised, artificial)"
  shows "revised = revised0 @
           map (\<lambda>z. fst (snd z)) (filter (\<lambda>z. d_type (fst z) = ''reject'') zs) \<and>
         artificial = artificial0 @
           map (\<lambda>z. rejection_message (fst z) (fst (snd z)))
             (filter (\<lambda>z. d_type (fst z) = ''reject'') zs)"
  using assms
proof (induction zs arbitrary: revised0 artificial0)
  case Nil
  then show ?case by simp
next
  case (Cons z zs)
  obtain d tc cfg where z: "z = (d, tc, cfg)" by (cases z) auto
  from Cons.prems z obtain r m where pd: "processDecision d tc cfg = Inr (r, m)"
    by (auto split: sum.splits)
  note facts = processDecision_rejecting [OF pd]
  show ?case
  proof (cases "d_type d = ''reject''")
    case True
    with facts have rm: "r = Some tc" "m = Some (rejection_message d tc)" by auto
    from Cons.prems z pd rm True
    have "process_decisions True zs (revised0 @ [tc]) (artificial0 @ [rejection_message d tc])
            = Inr (revised, artificial)" by simp
    from Cons.IH [OF this] z True show ?thesis by simp
  next
    case False
    with facts have rm: "m = None" "r \<noteq> None" by auto
    from Cons.prems z pd rm False
    have "process_decisions True zs revised0 artificial0 = Inr (revised, artificial)"
      by (auto split: option.splits)
    from Cons.IH [OF this] z False show ?thesis by simp
  qed
qed

lemma held_calls:
  "map fst (interruptToolCalls rc calls)
     = filter (\<lambda>c. lookup_config rc (tc_name c) \<noteq> None) calls"
  by (induction calls)
     (auto simp: interruptToolCalls_def List.map_filter_simps split: option.splits)

lemma held_nonempty_calls: "interruptToolCalls rc calls \<noteq> [] \<Longrightarrow> calls \<noteq> []"
  by (auto simp: interruptToolCalls_def List.map_filter_simps)

lemma hook_resumed:
  assumes "interopParse (merge_options options context) = Inr config"
      and "last_ai_message messages = Some lastMessage"
      and "ai_tool_calls lastMessage = Some calls"
      and "ho_interruptOn config = Some interruptOn"
      and "interruptToolCalls (resolveConfigs interruptOn) calls \<noteq> []"
      and "decisions response = Some ds"
      and "length ds = length (interruptToolCalls (resolveConfigs interruptOn) calls)"
  shows "afterModel_hook stringify options context messages (Some response) =
           (case process_decisions (list_ex (\<lambda>d. d_type d = ''reject'') ds)
                   (zip ds (interruptToolCalls (resolveConfigs interruptOn) calls))
                   (autoApprovedToolCalls (resolveConfigs interruptOn) calls) [] of
              Inl e \<Rightarrow> Inl e
            | Inr (revisedToolCalls, artificialToolMessages) \<Rightarrow>
                Inr (Some \<lparr>hr_messages =
                             AIMessage (lastMessage\<lparr>ai_tool_calls := Some revisedToolCalls\<rparr>)
                             # map ToolMessage artificialToolMessages,
                           hr_jumpTo = (if list_ex (\<lambda>d. d_type d = ''reject'') ds
                                        then Some ''model'' else None)\<rparr>))"
proof -
  from assms(2) have "messages \<noteq> []" by (auto simp: last_ai_message_def)
  moreover from assms(5) have "calls \<noteq> []" by (rule held_nonempty_calls)
  ultimately show ?thesis using assms
    by (simp add: afterModel_hook_def Let_def)
qed

lemma hook_returns_cases:
  assumes "afterModel_hook stringify options context messages (Some response) = Inr (Some result)"
  shows "\<exists>config lastMessage calls interruptOn ds.
           interopParse (merge_options options context) = Inr config \<and>
           last_ai_message messages = Some lastMessage \<and>
           ai_tool_calls lastMessage = Some calls \<and>
           ho_interruptOn config = Some interruptOn \<and>
           interruptToolCalls (resolveConfigs interruptOn) calls \<noteq> [] \<and>
           decisions response = Some ds \<and>
           length ds = length (interruptToolCalls (resolveConfigs interruptOn) calls)"
  using assms
  by (auto simp: afterModel_hook_def Let_def split: if_splits option.splits sum.splits)

lemma obj_set_map_fst:
  "map fst (obj_set k v kvs) = (if k \<in> set (map fst kvs) then map fst kvs else map fst kvs @ [k])"
  by (induction kvs) force+

lemma obj_set_keys: "fst ` set (obj_set k v kvs) = insert k (fst ` set kvs)"
proof -
  have "set (map fst (obj_set k v kvs)) = insert k (set (map fst kvs))"
    unfolding obj_set_map_fst by auto
  then show ?thesis by simp
qed

lemma resolve_entry_keys:
  "fst ` set (resolve_entry acc entry) =
     fst ` set acc \<union> (if snd entry \<noteq> OnBool False then {fst entry} else {})"
  by (cases "snd entry") (auto simp: resolve_entry_def obj_set_keys)

lemma foldl_resolve_keys:
  "fst ` set (foldl resolve_entry acc io) =
     fst ` set acc \<union> {fst entry |entry. entry \<in> set io \<and> snd entry \<noteq> OnBool False}"
proof (induction io arbitrary: acc)
  case Nil
  then show ?case by simp
next
  case (Cons entry io)
  show ?case
    unfolding foldl_Cons Cons.IH resolve_entry_keys by (cases entry) force
qed

lemma resolved_iff_matches:
  "map_of (resolveConfigs interruptOn) (tc_name c) \<noteq> None \<longleftrightarrow> matches interruptOn c"
proof -
  have "map_of (resolveConfigs interruptOn) (tc_name c) \<noteq> None
          \<longleftrightarrow> tc_name c \<in> fst ` set (resolveConfigs interruptOn)"
    by (simp add: map_of_eq_None_iff)
  also have "\<dots> \<longleftrightarrow> matches interruptOn c"
    unfolding resolveConfigs_def foldl_resolve_keys matches_def list_ex_iff by force
  finally show ?thesis .
qed

lemma lookup_iff_held:
  "lookup_config (resolveConfigs interruptOn) (tc_name c) \<noteq> None
     \<longleftrightarrow> matches interruptOn c \<or> tc_name c \<in> set object_prototype_keys"
  using resolved_iff_matches [of interruptOn c]
  by (auto simp: lookup_config_def split: option.splits)

text \<open>
  The calls that the hook holds for review are the calls that match \<open>interruptOn\<close>
  together with the calls named after a property of \<^verbatim>\<open>Object.prototype\<close>.
\<close>

lemma held_calls_characterised:
  "map fst (interruptToolCalls (resolveConfigs interruptOn) calls)
     = filter (\<lambda>c. matches interruptOn c \<or> tc_name c \<in> set object_prototype_keys) calls"
proof -
  have m: "(\<lambda>c. lookup_config (resolveConfigs interruptOn) (tc_name c) \<noteq> None)
             = (\<lambda>c. matches interruptOn c \<or> tc_name c \<in> set object_prototype_keys)"
    by (rule ext) (simp only: lookup_iff_held)
  show ?thesis unfolding held_calls m ..
qed

lemma processDecision_errors:
  "processDecision d tc cfg \<noteq> Inl InvalidHITLResponse \<and>
   processDecision d tc cfg \<noteq> Inl (DecisionCountMismatch a b) \<and>
   processDecision d tc cfg \<noteq> Inl (HITLInterrupt rq)"
proof (cases cfg)
  case (Configured c)
  then show ?thesis
    by (auto simp: processDecision_Configured edit_branch_def reject_branch_def
           split: if_splits option.splits json.splits)
next
  case Inherited
  then show ?thesis by (simp add: processDecision_Inherited)
qed

lemma process_decisions_errors:
  "process_decisions h zs r0 a0 \<noteq> Inl InvalidHITLResponse \<and>
   process_decisions h zs r0 a0 \<noteq> Inl (DecisionCountMismatch a b) \<and>
   process_decisions h zs r0 a0 \<noteq> Inl (HITLInterrupt rq)"
proof (induction zs arbitrary: r0 a0)
  case Nil
  then show ?case by simp
next
  case (Cons z zs)
  obtain d tc cfg where z: "z = (d, tc, cfg)" by (cases z) auto
  show ?case
  proof (cases "processDecision d tc cfg")
    case (Inl e)
    with processDecision_errors [of d tc cfg a b rq] z show ?thesis by auto
  next
    case (Inr p)
    obtain r m where "p = (r, m)" by (cases p) auto
    with Inr z Cons.IH show ?thesis by simp
  qed
qed

text \<open>
  What the hook returns after a rejection, for every input: whenever it returns from a
  resume in which at least one decision is of type "reject", it returns
  \<open>jumpTo = "model"\<close>, and its messages are the last AI message followed by one
  synthetic tool message for each rejected call. The rewritten tool calls of the AI
  message are the calls that were not held for review, followed by the rejected calls:
  approved and edited calls are dropped, calls that were never reviewed are kept.
\<close>

lemma hook_after_rejection:
  assumes ret: "afterModel_hook stringify options context messages (Some response) = Inr (Some result)"
      and parsed: "interopParse (merge_options options context) = Inr config"
      and ds: "decisions response = Some ds"
      and rej: "\<exists>d \<in> set ds. d_type d = ''reject''"
      and last: "last_ai_message messages = Some lastMessage"
      and calls: "ai_tool_calls lastMessage = Some calls"
      and on: "ho_interruptOn config = Some interruptOn"
  shows "hr_jumpTo result = Some ''model'' \<and>
         hr_messages result =
           AIMessage (lastMessage\<lparr>ai_tool_calls := Some
             (autoApprovedToolCalls (resolveConfigs interruptOn) calls @
              map (\<lambda>z. fst (snd z))
                (rejected_calls ds (interruptToolCalls (resolveConfigs interruptOn) calls)))\<rparr>)
           # map (\<lambda>z. ToolMessage (rejection_message (fst z) (fst (snd z))))
               (rejected_calls ds (interruptToolCalls (resolveConfigs interruptOn) calls))"
proof -
  let ?held = "interruptToolCalls (resolveConfigs interruptOn) calls"
  let ?auto = "autoApprovedToolCalls (resolveConfigs interruptOn) calls"
  from hook_returns_cases [OF ret] parsed last calls on ds
  have held: "?held \<noteq> []" and len: "length ds = length ?held" by auto
  from rej have ex: "list_ex (\<lambda>d. d_type d = ''reject'') ds" by (simp add: list_ex_iff)
  from ret hook_resumed [OF parsed last calls on held ds len, of stringify] ex
  obtain revised artificial where
    pd: "process_decisions True (zip ds ?held) ?auto [] = Inr (revised, artificial)" and
    res: "result = \<lparr>hr_messages = AIMessage (lastMessage\<lparr>ai_tool_calls := Some revised\<rparr>)
                                    # map ToolMessage artificial,
                    hr_jumpTo = Some ''model''\<rparr>"
    by (auto split: sum.splits)
  from process_decisions_rejected [OF pd]
  have rv: "revised = ?auto @ map (\<lambda>z. fst (snd z)) (rejected_calls ds ?held)"
   and ar: "artificial = map (\<lambda>z. rejection_message (fst z) (fst (snd z))) (rejected_calls ds ?held)"
    by (simp_all add: rejected_calls_def)
  from res rv ar show ?thesis by (simp add: comp_def)
qed

lemmas hitl_defs =
  afterModel_hook_def merge_options_def interopParse_def valid_interrupt_on_def
  ALLOWED_DECISIONS_def last_ai_message_def resolveConfigs_def
  resolve_entry_def interruptToolCalls_def autoApprovedToolCalls_def lookup_config_def
  object_prototype_keys_def
  createActionAndConfig_def processDecision_def type_allowed_def array_includes_def
  edit_branch_def reject_branch_def rejection_message_def rejection_content_def
  List.map_filter_simps Let_def
  review_options_def review_interruptOn_def dangerous_config_def review_messages_def
  dangerous_call_def safe_call_def toString_call_def
  reject_nope_def approve_decision_def edit_decision_def

text \<open>
  C1. The specification has the hook, after a rejection, rewrite the tool calls of the
  last AI message to the rejected calls only. The hook starts the rewritten list from
  the calls that were not held for review
  (\<^verbatim>\<open>revisedToolCalls = [...autoApprovedToolCalls]\<close>), so these stay. For an AI message
  that calls \<open>safe\<close> (no entry in \<open>interruptOn\<close>) and \<open>dangerous\<close> (held for review,
  rejection allowed), and the one decision "reject" with the message "nope", the only
  rejected call is the call of \<open>dangerous\<close>; the hook returns the tool message for it
  with status "error" and content "nope" and \<open>jumpTo = "model"\<close>, but the AI message it
  returns still carries both calls.
\<close>

theorem C1_unreviewed_call_kept_beside_rejected:
  "afterModel_hook stringify (review_options [''approve'', ''reject'']) None
       (review_messages [safe_call, dangerous_call]) (Some \<lparr>decisions = Some [reject_nope]\<rparr>)
     = Inr (Some \<lparr>hr_messages =
                    [AIMessage \<lparr>ai_content = CString [],
                                ai_tool_calls = Some [safe_call, dangerous_call]\<rparr>,
                     ToolMessage \<lparr>tm_content = CString ''nope'', tm_name = Some ''dangerous'',
                                  tm_tool_call_id = Some ''t9'', tm_status = Some ''error'',
                                  tm_artifact = None\<rparr>],
                  hr_jumpTo = Some ''model''\<rparr>) \<and>
   map (\<lambda>z. fst (snd z))
     (rejected_calls [reject_nope]
        (interruptToolCalls (resolveConfigs (review_interruptOn [''approve'', ''reject'']))
           [safe_call, dangerous_call]))
     = [dangerous_call] \<and>
   [safe_call, dangerous_call] \<noteq> [dangerous_call]"
  by (simp add: hitl_defs rejected_calls_def)

text \<open>
  The scenario of the specification, in which the rejected call is the only call of the
  AI message.
\<close>

lemma hitl_reject_scenario:
  "afterModel_hook stringify (review_options [''approve'', ''reject'']) None
       (review_messages [dangerous_call]) (Some \<lparr>decisions = Some [reject_nope]\<rparr>)
     = Inr (Some \<lparr>hr_messages =
                    [AIMessage \<lparr>ai_content = CString [], ai_tool_calls = Some [dangerous_call]\<rparr>,
                     ToolMessage \<lparr>tm_content = CString ''nope'', tm_name = Some ''dangerous'',
                                  tm_tool_call_id = Some ''t9'', tm_status = Some ''error'',
                                  tm_artifact = None\<rparr>],
                  hr_jumpTo = Some ''model''\<rparr>)"
  by (simp add: hitl_defs)

text \<open>
  A decision of a type that the tool's configuration does not allow, and a configuration
  that the schema refuses, make the hook throw.
\<close>

lemma hitl_reject_not_allowed:
  "afterModel_hook stringify (review_options [''approve'']) None
       (review_messages [dangerous_call]) (Some \<lparr>decisions = Some [reject_nope]\<rparr>)
     = Inl (UnexpectedDecision reject_nope ''dangerous'' (Some [''approve'']))"
  by (simp add: hitl_defs)

lemma hitl_invalid_configuration:
  "afterModel_hook stringify (review_options [''bogus'']) None messages resume = Inl ZodError"
  by (simp add: hitl_defs)

lemma hook_interrupts:
  assumes "interopParse (merge_options options context) = Inr config"
      and "last_ai_message messages = Some lastMessage"
      and "ai_tool_calls lastMessage = Some calls"
      and "ho_interruptOn config = Some interruptOn"
      and "interruptToolCalls (resolveConfigs interruptOn) calls \<noteq> []"
  shows "afterModel_hook stringify options context messages None =
           Inl (HITLInterrupt
             \<lparr>actionRequests = map (\<lambda>(toolCall, interruptConfig).
                  fst (createActionAndConfig stringify options toolCall interruptConfig))
                  (interruptToolCalls (resolveConfigs interruptOn) calls),
              reviewConfigs = map (\<lambda>(toolCall, interruptConfig).
                  snd (createActionAndConfig stringify options toolCall interruptConfig))
                  (interruptToolCalls (resolveConfigs interruptOn) calls)\<rparr>)"
proof -
  from assms(2) have "messages \<noteq> []" by (auto simp: last_ai_message_def)
  moreover from assms(5) have "calls \<noteq> []" by (rule held_nonempty_calls)
  ultimately show ?thesis using assms
    by (simp add: afterModel_hook_def Let_def comp_def case_prod_unfold)
qed

lemma hook_without_held_call:
  assumes "interopParse (merge_options options context) = Inr config"
      and "last_ai_message messages = Some lastMessage"
      and "ai_tool_calls lastMessage = Some calls"
      and "ho_interruptOn config = Some interruptOn"
      and "filter (\<lambda>c. matches interruptOn c \<or> tc_name c \<in> set object_prototype_keys) calls = []"
  shows "afterModel_hook stringify options context messages resume = Inr None"
proof -
  from assms(5) have "map fst (interruptToolCalls (resolveConfigs interruptOn) calls) = []"
    by (simp only: held_calls_characterised)
  then have "interruptToolCalls (resolveConfigs interruptOn) calls = []" by simp
  with assms(1-4) show ?thesis
    by (simp add: afterModel_hook_def Let_def)
qed

text \<open>
  The interrupt and the count of the decisions, for every input. If the hook holds
  \<open>k \<ge> 1\<close> tool calls of the last AI message for review, it raises one interrupt whose
  request carries an action request and a review configuration for each of them, in
  order; on resume it throws when the decisions are not an array, and when their number
  differs from \<open>k\<close>; a list of exactly \<open>k\<close> decisions passes both checks. The calls held
  are the calls that match \<open>interruptOn\<close> and the calls named after a property of
  \<^verbatim>\<open>Object.prototype\<close>.
\<close>

lemma hook_holds_and_counts:
  fixes interruptOn calls
  defines "held \<equiv> filter (\<lambda>c. matches interruptOn c \<or> tc_name c \<in> set object_prototype_keys) calls"
  assumes parsed: "interopParse (merge_options options context) = Inr config"
      and last: "last_ai_message messages = Some lastMessage"
      and calls: "ai_tool_calls lastMessage = Some calls"
      and on: "ho_interruptOn config = Some interruptOn"
      and k: "held \<noteq> []"
  shows "(\<exists>request.
            afterModel_hook stringify options context messages None = Inl (HITLInterrupt request) \<and>
            map ar_name (actionRequests request) = map tc_name held \<and>
            map ar_args (actionRequests request) = map tc_args held \<and>
            map rv_actionName (reviewConfigs request) = map tc_name held) \<and>
         (decisions response = None \<longrightarrow>
            afterModel_hook stringify options context messages (Some response)
              = Inl InvalidHITLResponse) \<and>
         (decisions response = Some ds \<and> length ds \<noteq> length held \<longrightarrow>
            afterModel_hook stringify options context messages (Some response)
              = Inl (DecisionCountMismatch (length ds) (length held))) \<and>
         (decisions response = Some ds \<and> length ds = length held \<longrightarrow>
            afterModel_hook stringify options context messages (Some response)
              \<noteq> Inl InvalidHITLResponse \<and>
            afterModel_hook stringify options context messages (Some response)
              \<noteq> Inl (DecisionCountMismatch a b))"
proof -
  let ?held = "interruptToolCalls (resolveConfigs interruptOn) calls"
  have hm: "map fst ?held = held" unfolding held_def by (rule held_calls_characterised)
  from k hm have held: "?held \<noteq> []" by auto
  have len: "length ?held = length held"
    using arg_cong [OF hm, of length] by simp
  from last have ne: "messages \<noteq> []" by (auto simp: last_ai_message_def)
  from held have cne: "calls \<noteq> []" by (rule held_nonempty_calls)
  have 1: "\<exists>request.
            afterModel_hook stringify options context messages None = Inl (HITLInterrupt request) \<and>
            map ar_name (actionRequests request) = map tc_name held \<and>
            map ar_args (actionRequests request) = map tc_args held \<and>
            map rv_actionName (reviewConfigs request) = map tc_name held"
    unfolding hook_interrupts [OF parsed last calls on held] hm [symmetric]
    by (simp add: createActionAndConfig_def Let_def comp_def case_prod_unfold)
  have 2: "decisions response = None \<longrightarrow>
            afterModel_hook stringify options context messages (Some response)
              = Inl InvalidHITLResponse"
    using ne cne parsed last calls on held by (simp add: afterModel_hook_def Let_def)
  have 3: "decisions response = Some ds \<and> length ds \<noteq> length held \<longrightarrow>
            afterModel_hook stringify options context messages (Some response)
              = Inl (DecisionCountMismatch (length ds) (length held))"
    using ne cne parsed last calls on held len by (simp add: afterModel_hook_def Let_def)
  have 4: "decisions response = Some ds \<and> length ds = length held \<longrightarrow>
            afterModel_hook stringify options context messages (Some response)
              \<noteq> Inl InvalidHITLResponse \<and>
            afterModel_hook stringify options context messages (Some response)
              \<noteq> Inl (DecisionCountMismatch a b)"
  proof (intro impI, elim conjE)
    assume d: "decisions response = Some ds"
       and l: "length ds = length held"
    from l len have l': "length ds = length ?held" by simp
    show "afterModel_hook stringify options context messages (Some response)
              \<noteq> Inl InvalidHITLResponse \<and>
            afterModel_hook stringify options context messages (Some response)
              \<noteq> Inl (DecisionCountMismatch a b)"
      unfolding hook_resumed [OF parsed last calls on held d l']
      using process_decisions_errors
              [of "list_ex (\<lambda>d. d_type d = ''reject'') ds" "zip ds ?held"
                  "autoApprovedToolCalls (resolveConfigs interruptOn) calls" "[]" a b]
      by (auto split: sum.splits)
  qed
  from 1 2 3 4 show ?thesis by blast
qed

text \<open>
  C6. The specification counts the tool calls that \<open>interruptOn\<close> matches: for \<open>k\<close>
  matched calls, one interrupt with \<open>k\<close> action requests, and exactly \<open>k\<close> decisions on
  resume. The hook tests
  \<^verbatim>\<open>toolCall.name in resolvedConfigs\<close> on a plain object, which also holds for a name
  that objects inherit from \<^verbatim>\<open>Object.prototype\<close>. For an AI message that calls a tool
  named \<open>toString\<close> (no entry in \<open>interruptOn\<close>) and \<open>dangerous\<close> (held for review),
  \<open>interruptOn\<close> matches one call, but the interrupt carries two action requests (the
  review configuration for \<open>toString\<close> has no allowed decisions), a resume with one
  decision is refused as a count mismatch, and a resume with two decisions passes the
  count and then fails with a \<^verbatim>\<open>TypeError\<close>.
\<close>

theorem C6_inherited_name_is_held:
  "filter (matches (review_interruptOn [''approve'', ''reject''])) [toString_call, dangerous_call]
     = [dangerous_call] \<and>
   afterModel_hook stringify (review_options [''approve'', ''reject'']) None
       (review_messages [toString_call, dangerous_call]) None
     = Inl (HITLInterrupt
         \<lparr>actionRequests =
            [\<lparr>ar_name = ''toString'', ar_args = JObj [],
              ar_description = Some (''Tool execution requires approval'' @ nl @ nl
                                     @ ''Tool: toString'' @ nl @ ''Args: ''
                                     @ stringify (JObj []))\<rparr>,
             \<lparr>ar_name = ''dangerous'', ar_args = JObj [(''x'', JNum 1)],
              ar_description = Some ''Please review''\<rparr>],
          reviewConfigs =
            [\<lparr>rv_actionName = ''toString'', rv_allowedDecisions = None, rv_argsSchema = None\<rparr>,
             \<lparr>rv_actionName = ''dangerous'',
              rv_allowedDecisions = Some [''approve'', ''reject''],
              rv_argsSchema = None\<rparr>]\<rparr>) \<and>
   afterModel_hook stringify (review_options [''approve'', ''reject'']) None
       (review_messages [toString_call, dangerous_call])
       (Some \<lparr>decisions = Some [approve_decision]\<rparr>)
     = Inl (DecisionCountMismatch 1 2) \<and>
   afterModel_hook stringify (review_options [''approve'', ''reject'']) None
       (review_messages [toString_call, dangerous_call])
       (Some \<lparr>decisions = Some [approve_decision, approve_decision]\<rparr>)
     = Inl (TypeError ''Cannot read properties of undefined (reading 'includes')'')"
  by (simp add: hitl_defs matches_def)

text \<open>
  The same conversation without the call of \<open>toString\<close>: one call is held, and one
  decision is what the hook asks for.
\<close>

lemma hitl_one_held_call:
  "afterModel_hook stringify (review_options [''approve'', ''reject'']) None
       (review_messages [safe_call, dangerous_call]) None
     = Inl (HITLInterrupt
         \<lparr>actionRequests = [\<lparr>ar_name = ''dangerous'', ar_args = JObj [(''x'', JNum 1)],
                              ar_description = Some ''Please review''\<rparr>],
          reviewConfigs = [\<lparr>rv_actionName = ''dangerous'',
                             rv_allowedDecisions = Some [''approve'', ''reject''],
                             rv_argsSchema = None\<rparr>]\<rparr>) \<and>
   afterModel_hook stringify (review_options [''approve'', ''reject'']) None
       (review_messages [safe_call, dangerous_call])
       (Some \<lparr>decisions = Some [reject_nope, approve_decision]\<rparr>)
     = Inl (DecisionCountMismatch 2 1) \<and>
   afterModel_hook stringify (review_options [''approve'', ''reject'']) None
       (review_messages [safe_call, dangerous_call]) (Some \<lparr>decisions = Some []\<rparr>)
     = Inl (DecisionCountMismatch 0 1)"
  by (simp add: hitl_defs)

subsection \<open>Tool-call correspondence\<close>

lemma thrown_Nil_rights: "thrown rs = [] \<Longrightarrow> rs = map Inr (rights rs)"
  by (induction rs rule: thrown.induct) simp_all

lemma obj_set_subset: "set (obj_set k v kvs) \<subseteq> insert (k, v) (set kvs)"
  by (induction kvs) (auto split: if_splits)

lemma kv_messages_mem:
  "(k, v) \<in> set kvs \<Longrightarrow> set (uvalue_messages v) \<subseteq> set (kv_messages kvs)"
  by (auto simp: kv_messages_def)

lemma obj_set_member: "(k, v) \<in> set (obj_set k v kvs)"
  by (induction kvs) auto

lemma kv_messages_obj_set_subset:
  "set (kv_messages (obj_set k v kvs)) \<subseteq> set (uvalue_messages v) \<union> set (kv_messages kvs)"
  using obj_set_subset [of k v kvs] by (fastforce simp: kv_messages_def)

lemma kv_messages_obj_set_value:
  "set (uvalue_messages v) \<subseteq> set (kv_messages (obj_set k v kvs))"
  by (rule kv_messages_mem) (rule obj_set_member)

lemma kv_messages_obj_set_empty:
  assumes "uvalue_messages v = []" and "kv_messages kvs = []"
  shows "kv_messages (obj_set k v kvs) = []"
  using kv_messages_obj_set_subset [of k v kvs] assms by simp

lemma assign_variable_no_messages:
  "kv_messages acc = [] \<Longrightarrow> kv_messages (assign_variable m acc assigner) = []"
  by (auto simp: assign_variable_def intro!: kv_messages_obj_set_empty split: option.splits)

lemma foldl_assign_no_messages:
  "kv_messages acc = [] \<Longrightarrow> kv_messages (foldl (assign_variable m) acc vars) = []"
  by (induction vars arbitrary: acc) (simp_all add: assign_variable_no_messages)

lemma kv_messages_twice:
  "set (kv_messages (obj_set k (UObjMessages (UMessages ms)) [(''messages'', UMessages ms)]))
     = set ms"
  by (simp add: kv_messages_def)

lemma state_update_messages:
  "set (kv_messages (state_update node outputs)) = set (map ToolMessage outputs)"
  unfolding state_update_def by (rule kv_messages_twice)

text \<open>A tool message handed back by the wrapped invocation.\<close>

lemma normalize_tool_message:
  "\<exists>out content'.
     normalize_output stringify node tool call (RetToolMessage m) = Inr out \<and>
     set (output_messages out) = {ToolMessage (m\<lparr>tm_content := content'\<rparr>)}"
proof -
  define m' where "m' = (case tm_content m of
                       CComplex j \<Rightarrow> (if truthy j then m\<lparr>tm_content := CString (stringify j)\<rparr> else m)
                     | CString _ \<Rightarrow> m)"
  have shape: "\<exists>content'. m' = m\<lparr>tm_content := content'\<rparr>"
  proof (cases "tm_content m")
    case (CString s)
    then have "m' = m\<lparr>tm_content := tm_content m\<rparr>" by (simp add: m'_def)
    then show ?thesis by blast
  next
    case (CComplex j)
    show ?thesis
    proof (cases "truthy j")
      case True
      with CComplex have "m' = m\<lparr>tm_content := CString (stringify j)\<rparr>" by (simp add: m'_def)
      then show ?thesis by blast
    next
      case False
      with CComplex have "m' = m\<lparr>tm_content := tm_content m\<rparr>" by (simp add: m'_def)
      then show ?thesis by blast
    qed
  qed
  then obtain content' where c: "m' = m\<lparr>tm_content := content'\<rparr>" by blast
  show ?thesis
  proof (cases "tn_variables node")
    case None
    then have "normalize_output stringify node tool call (RetToolMessage m) = Inr (OutMessage m')"
      by (simp add: normalize_output_def m'_def Let_def)
    with c show ?thesis by auto
  next
    case (Some vars)
    let ?kvs = "obj_set ''messages'' (UMessages [ToolMessage m'])
                  (obj_set (channel_key node) (UObjMessages (UMessages [ToolMessage m']))
                     (foldl (assign_variable m') [] vars))"
    from Some
    have n: "normalize_output stringify node tool call (RetToolMessage m)
               = Inr (OutCommand \<lparr>cmd_update = Some (UpdObject ?kvs), cmd_goto = []\<rparr>)"
      by (simp add: normalize_output_def m'_def Let_def)
    have e: "kv_messages (foldl (assign_variable m') [] vars) = []"
      by (rule foldl_assign_no_messages) (simp add: kv_messages_def)
    have "set (kv_messages ?kvs) \<subseteq> {ToolMessage m'}"
      using kv_messages_obj_set_subset [of "''messages''" "UMessages [ToolMessage m']"
              "obj_set (channel_key node) (UObjMessages (UMessages [ToolMessage m']))
                 (foldl (assign_variable m') [] vars)"]
            kv_messages_obj_set_subset [of "channel_key node"
              "UObjMessages (UMessages [ToolMessage m'])" "foldl (assign_variable m') [] vars"]
            e
      by auto
    moreover have "{ToolMessage m'} \<subseteq> set (kv_messages ?kvs)"
      using kv_messages_obj_set_value [of "UMessages [ToolMessage m']" "''messages''"
              "obj_set (channel_key node) (UObjMessages (UMessages [ToolMessage m']))
                 (foldl (assign_variable m') [] vars)"]
      by simp
    ultimately have "set (kv_messages ?kvs) = {ToolMessage m'}" by blast
    with n c show ?thesis by (auto simp: command_messages_def)
  qed
qed

text \<open>A command handed back by the wrapped invocation.\<close>

lemma normalize_command:
  assumes "cmd_update cmd = Some u"
  shows "\<exists>out. normalize_output stringify node tool call (RetCommand cmd) = Inr out \<and>
           set (output_messages out) \<subseteq> set (update_messages u)"
proof (cases u)
  case (UpdPairs ps)
  have "kv_messages (map (\<lambda>p. if fst p = Some ''messages''
                             then (tn_channel node, UObjMessages (snd p)) else p) ps)
          = kv_messages ps"
    by (induction ps) (auto simp: kv_messages_def)
  with assms UpdPairs show ?thesis
    by (simp add: normalize_output_def command_messages_def)
next
  case (UpdObject kvs)
  let ?v = "UObjMessages (case map_of kvs ''messages'' of None \<Rightarrow> UUndefined | Some v \<Rightarrow> v)"
  have "set (uvalue_messages ?v) \<subseteq> set (kv_messages kvs)"
  proof (cases "map_of kvs ''messages''")
    case None
    then show ?thesis by simp
  next
    case (Some v)
    then have "(''messages'', v) \<in> set kvs" by (rule map_of_SomeD)
    from kv_messages_mem [OF this] Some show ?thesis by simp
  qed
  with kv_messages_obj_set_subset [of "channel_key node" ?v kvs]
  have "set (kv_messages (obj_set (channel_key node) ?v kvs)) \<subseteq> set (kv_messages kvs)" by blast
  with assms UpdObject show ?thesis
    by (simp add: normalize_output_def command_messages_def)
qed

text \<open>The error path.\<close>

lemma handle_tool_error_messages:
  assumes "tn_handleToolErrors node" and "\<not> isGraphInterrupt e"
  shows "\<exists>out. fst (handle_tool_error node call e log) = Inr out \<and>
           set (output_messages out) = {ToolMessage (error_tool_message call e)}"
  using assms kv_messages_twice [of "channel_key node" "[ToolMessage (error_tool_message call e)]"]
  by (simp add: handle_tool_error_def Let_def command_messages_def)

lemma run_call_found:
  assumes "find (\<lambda>t. tool_name t = tc_name call) (tn_tools node) = Some tool"
      and "invoke_wrapped stringify node input config messages call tool = (Inr output, log)"
      and "normalize_output stringify node tool call output = Inr out"
  shows "run_call stringify node input config messages call = (Inr out, log)"
  using assms by (simp add: run_call_def)

lemma run_call_normalize_fails:
  assumes "find (\<lambda>t. tool_name t = tc_name call) (tn_tools node) = Some tool"
      and "invoke_wrapped stringify node input config messages call tool = (Inr output, log)"
      and "normalize_output stringify node tool call output = Inl e"
  shows "run_call stringify node input config messages call = handle_tool_error node call e log"
  using assms by (simp add: run_call_def)

lemma run_call_not_found:
  assumes "find (\<lambda>t. tool_name t = tc_name call) (tn_tools node) = None"
  shows "run_call stringify node input config messages call
           = handle_tool_error node call
               (Error (''Tool '' @ dq @ tc_name call @ dq @ '' not found.'')) []"
  using assms by (simp add: run_call_def)

text \<open>The result of a run is made of the outputs of its calls.\<close>

lemma combined_outputs_messages:
  "(\<Union>c \<in> set (map (\<lambda>output. case output of
                       OutCommand c \<Rightarrow> CombCommand c
                     | OutMessage m \<Rightarrow>
                         (case input of
                            InputArray _ \<Rightarrow> CombMessages [m]
                          | InputObject _ \<Rightarrow> CombUpdate (state_update node [m]))) outs).
      set (combined_messages c))
   = (\<Union>out \<in> set outs. set (output_messages out))"
proof -
  have "set (combined_messages (case out of
                       OutCommand c \<Rightarrow> CombCommand c
                     | OutMessage m \<Rightarrow>
                         (case input of
                            InputArray _ \<Rightarrow> CombMessages [m]
                          | InputObject _ \<Rightarrow> CombUpdate (state_update node [m]))))
          = set (output_messages out)" for out
    using state_update_messages [of node]
    by (cases out; cases input) simp_all
  then show ?thesis by simp
qed

lemma plain_outputs_messages:
  assumes "\<not> list_ex isCommand outs"
  shows "set (map ToolMessage (concat (map the_message outs)))
           = (\<Union>out \<in> set outs. set (output_messages out))"
  using assms
proof (induction outs)
  case Nil
  then show ?case by simp
next
  case (Cons out outs)
  then show ?case by (cases out) auto
qed

lemma run_result_messages:
  assumes "fst (run race stringify node input config) = Inr result"
  shows "\<exists>outs.
           map (\<lambda>c. fst (run_call stringify node input config
                           (case input_messages node input of Some ms \<Rightarrow> ms | None \<Rightarrow> []) c))
             (node_tool_calls node input) = map Inr outs \<and>
           set (result_messages result) = (\<Union>out \<in> set outs. set (output_messages out))"
proof -
  let ?messages = "case input_messages node input of Some ms \<Rightarrow> ms | None \<Rightarrow> []"
  let ?results = "map (run_call stringify node input config ?messages) (node_tool_calls node input)"
  let ?outs = "rights (map fst ?results)"
  from assms have ai: "\<not> not_ai (last_input_message node input)"
    by (auto simp: run_def split: if_splits)
  from assms ai have none: "first_rejection race (map fst ?results) = None"
    by (auto simp: run_def Let_def split: option.splits)
  then have "thrown (map fst ?results) = []"
    by (auto simp: first_rejection_def split: list.splits)
  from thrown_Nil_rights [OF this]
  have outs: "map (\<lambda>c. fst (run_call stringify node input config ?messages c))
                (node_tool_calls node input) = map Inr ?outs"
    by (simp add: comp_def)
  have "set (result_messages result) = (\<Union>out \<in> set ?outs. set (output_messages out))"
  proof (cases "list_ex isCommand ?outs")
    case True
    with assms ai none
    have "result = ResCombined
            (map (\<lambda>output. case output of
                       OutCommand c \<Rightarrow> CombCommand c
                     | OutMessage m \<Rightarrow>
                         (case input of
                            InputArray _ \<Rightarrow> CombMessages [m]
                          | InputObject _ \<Rightarrow> CombUpdate (state_update node [m]))) ?outs)"
      by (simp add: run_def Let_def)
    then show ?thesis
      using combined_outputs_messages [where input = input and node = node and outs = ?outs]
      by simp
  next
    case False
    note plain = plain_outputs_messages [OF False]
    show ?thesis
    proof (cases input)
      case (InputArray ms)
      with assms ai none False
      have "result = ResMessages (concat (map the_message ?outs))"
        by (simp add: run_def Let_def)
      with plain show ?thesis by simp
    next
      case (InputObject st)
      with assms ai none False
      have "result = ResUpdate (state_update node (concat (map the_message ?outs)))"
        by (simp add: run_def Let_def)
      with plain state_update_messages [of node "concat (map the_message ?outs)"]
      show ?thesis by simp
    qed
  qed
  with outs show ?thesis by blast
qed

lemma edit_keeps_id:
  assumes "d_type d = ''edit''" and "processDecision d tc cfg = Inr (Some c', m)"
  shows "tc_id c' = tc_id tc \<and> m = None \<and>
         (\<exists>ea. d_editedAction d = Some ea \<and> ea_name ea = Some (JStr (tc_name c')) \<and>
               ea_args ea = Some (tc_args c'))"
proof (cases cfg)
  case (Configured c)
  with assms show ?thesis
    by (auto simp: processDecision_Configured edit_branch_def
           split: if_splits option.splits json.splits)
next
  case Inherited
  with assms show ?thesis by (simp add: processDecision_Inherited)
qed

lemma sends_carry_calls:
  assumes "send_tool_calls agentChannel state calls = Inr sends"
  shows "map sent_to sends = map tc_name calls \<and>
         map (\<lambda>s. node_tool_calls node (InputObject (sent_state s))) sends = map (\<lambda>c. [c]) calls"
  using assms
  by (auto simp: send_tool_calls_def node_tool_calls_def input_toolCall_def comp_def
         split: if_splits)

lemma navigator_sends_calls:
  assumes "navigator_tool_sends getChannelState agentChannel state = Some (Inr sends)"
  shows "\<exists>subState ms ai calls.
           getChannelState state agentChannel = Some subState \<and>
           ch_messages subState = Some ms \<and> ms \<noteq> [] \<and> last ms = AIMessage ai \<and>
           ai_tool_calls ai = Some calls \<and>
           map sent_to sends = map tc_name calls \<and>
           map (\<lambda>s. node_tool_calls node (InputObject (sent_state s))) sends
             = map (\<lambda>c. [c]) calls"
proof -
  from assms obtain subState where s: "getChannelState state agentChannel = Some subState"
    by (cases "getChannelState state agentChannel")
       (auto simp: navigator_tool_sends_def Let_def)
  from assms s obtain ms where m: "ch_messages subState = Some ms" and ne: "ms \<noteq> []"
    by (cases "ch_messages subState")
       (auto simp: navigator_tool_sends_def Let_def split: if_splits)
  from assms s m ne obtain ai where l: "last ms = AIMessage ai"
    by (cases "last ms") (auto simp: navigator_tool_sends_def Let_def)
  from assms s m ne l obtain calls where
    c: "ai_tool_calls ai = Some calls" and
    t: "send_tool_calls agentChannel state calls = Inr sends"
    by (cases "ai_tool_calls ai")
       (auto simp: navigator_tool_sends_def Let_def split: if_splits)
  from sends_carry_calls [OF t, of node] s m ne l c show ?thesis by blast
qed

lemma defaultHandler_raw:
  assumes "tool_invoke tool ((rq_toolCall request)\<lparr>tc_type := Some ''tool_call''\<rparr>)
             ((case rq_runtime request of Some r \<Rightarrow> r | None \<Rightarrow> config)
                \<lparr>rc_toolName := tn_toolName node, rc_tool_call_id := tc_id (rq_toolCall request)\<rparr>)
           = Inr (RetRaw raw)"
  shows "fst (defaultHandler stringify node tool config request)
           = Inr (RetToolMessage
               \<lparr>tm_content = CString (stringified stringify raw),
                tm_name = Some (tool_name tool),
                tm_tool_call_id = tc_id (rq_toolCall request),
                tm_status = None,
                tm_artifact = None\<rparr>)"
  using assms by (simp add: defaultHandler_def Let_def)

lemma defaultHandler_own_message:
  assumes "tool_invoke tool ((rq_toolCall request)\<lparr>tc_type := Some ''tool_call''\<rparr>)
             ((case rq_runtime request of Some r \<Rightarrow> r | None \<Rightarrow> config)
                \<lparr>rc_toolName := tn_toolName node, rc_tool_call_id := tc_id (rq_toolCall request)\<rparr>)
           = Inr (RetToolMessage m)"
  shows "fst (defaultHandler stringify node tool config request) = Inr (RetToolMessage m)"
  using assms by (simp add: defaultHandler_def Let_def)

lemma run_call_error_messages:
  assumes h: "tn_handleToolErrors node" and i: "\<not> isGraphInterrupt e"
      and c: "find (\<lambda>t. tool_name t = tc_name call) (tn_tools node) = None \<and>
                e = Error (''Tool '' @ dq @ tc_name call @ dq @ '' not found.'') \<or>
              find (\<lambda>t. tool_name t = tc_name call) (tn_tools node) = Some tool \<and>
                invoke_wrapped stringify node input config messages call tool = (Inl e, log) \<or>
              find (\<lambda>t. tool_name t = tc_name call) (tn_tools node) = Some tool \<and>
                invoke_wrapped stringify node input config messages call tool
                  = (Inr (RetCommand cmd), log) \<and>
                cmd_update cmd = None \<and>
                e = Error ''Cannot read properties of undefined (reading 'messages')''"
  shows "\<exists>out. fst (run_call stringify node input config messages call) = Inr out \<and>
           set (output_messages out) = {ToolMessage (error_tool_message call e)}"
proof -
  from c have "\<exists>log'. run_call stringify node input config messages call
                 = handle_tool_error node call e log'"
  proof (elim disjE conjE)
    assume "find (\<lambda>t. tool_name t = tc_name call) (tn_tools node) = None"
       and "e = Error (''Tool '' @ dq @ tc_name call @ dq @ '' not found.'')"
    with run_call_not_found show ?thesis by blast
  next
    assume "find (\<lambda>t. tool_name t = tc_name call) (tn_tools node) = Some tool"
       and "invoke_wrapped stringify node input config messages call tool = (Inl e, log)"
    from run_call_throw [OF this] show ?thesis by blast
  next
    assume f: "find (\<lambda>t. tool_name t = tc_name call) (tn_tools node) = Some tool"
       and w: "invoke_wrapped stringify node input config messages call tool
                 = (Inr (RetCommand cmd), log)"
       and u: "cmd_update cmd = None"
       and e: "e = Error ''Cannot read properties of undefined (reading 'messages')''"
    from u e have "normalize_output stringify node tool call (RetCommand cmd) = Inl e"
      by (simp add: normalize_output_def)
    from run_call_normalize_fails [OF f w this] show ?thesis by blast
  qed
  then obtain log' where "run_call stringify node input config messages call
                            = handle_tool_error node call e log'" ..
  with handle_tool_error_messages [OF h i, of call log'] show ?thesis by simp
qed

text \<open>
  C2, as the code has it. The calls that a run executes are \<open>input.toolCall\<close> when the
  input state carries one, and the calls of the last AI message otherwise; when the
  agent navigator sends tool calls, it sends each call of the last AI message of the
  agent's channel to the node named after its tool, as the \<open>toolCall\<close> of the state. The
  messages in the result of a run are exactly the messages in the outputs of the calls
  it executes. For one call: raw output of the wrapped invocation becomes a tool message with
  the call's id; the error path (an unknown tool, a throwing invocation, a command
  without update) feeds back one tool message whose id is the call's id, or the empty
  string for a call without id; a tool message handed back by the wrapped invocation is
  passed on with only its content rewritten, so it keeps the \<open>tool_call_id\<close> it came
  with; the messages of a command are passed on as they are. Without a
  \<open>wrapToolCall\<close> hook the wrapped invocation is the default handler on the call; the
  default handler wraps raw output of the tool into a tool message with the id of the
  request's call and hands a tool message of the tool's own making back unchanged. In the
  human-in-the-loop hook an "edit" decision yields a call with the edited name and
  arguments and the original id, and a rejection message has the id of the rejected call.
\<close>

theorem C2_tool_call_id_correspondence:
  "(in_toolCall st = Some c \<longrightarrow> node_tool_calls node (InputObject st) = [c]) \<and>
   (input_toolCall input = None \<and> last_input_message node input = Some (AIMessage ai) \<and>
    ai_tool_calls ai = Some calls \<longrightarrow>
      node_tool_calls node input = calls) \<and>
   (navigator_tool_sends getChannelState agentChannel state = Some (Inr sends) \<longrightarrow>
      (\<exists>subState ms ai calls.
         getChannelState state agentChannel = Some subState \<and>
         ch_messages subState = Some ms \<and> ms \<noteq> [] \<and> last ms = AIMessage ai \<and>
         ai_tool_calls ai = Some calls \<and>
         map sent_to sends = map tc_name calls \<and>
         map (\<lambda>s. node_tool_calls node (InputObject (sent_state s))) sends
           = map (\<lambda>c. [c]) calls)) \<and>
   (fst (run race stringify node input config) = Inr result \<longrightarrow>
      (\<exists>outs.
         map (\<lambda>c. fst (run_call stringify node input config
                         (case input_messages node input of Some ms \<Rightarrow> ms | None \<Rightarrow> []) c))
           (node_tool_calls node input) = map Inr outs \<and>
         set (result_messages result) = (\<Union>out \<in> set outs. set (output_messages out)))) \<and>
   (find (\<lambda>t. tool_name t = tc_name call) (tn_tools node) = Some tool \<and>
    invoke_wrapped stringify node input config messages call tool = (Inr (RetRaw raw), log) \<longrightarrow>
      run_call stringify node input config messages call =
        (Inr (OutMessage
           \<lparr>tm_content = CString (stringified stringify raw),
            tm_name = Some (tool_name tool),
            tm_tool_call_id = tc_id call,
            tm_status = None,
            tm_artifact = None\<rparr>), log)) \<and>
   (find (\<lambda>t. tool_name t = tc_name call) (tn_tools node) = Some tool \<and>
    invoke_wrapped stringify node input config messages call tool
      = (Inr (RetToolMessage m), log) \<longrightarrow>
      (\<exists>out content'.
         run_call stringify node input config messages call = (Inr out, log) \<and>
         set (output_messages out) = {ToolMessage (m\<lparr>tm_content := content'\<rparr>)})) \<and>
   (find (\<lambda>t. tool_name t = tc_name call) (tn_tools node) = Some tool \<and>
    invoke_wrapped stringify node input config messages call tool
      = (Inr (RetCommand cmd), log) \<and>
    cmd_update cmd = Some u \<longrightarrow>
      (\<exists>out.
         run_call stringify node input config messages call = (Inr out, log) \<and>
         set (output_messages out) \<subseteq> set (update_messages u))) \<and>
   (tn_handleToolErrors node \<and> \<not> isGraphInterrupt e \<and>
    (find (\<lambda>t. tool_name t = tc_name call) (tn_tools node) = None \<and>
       e = Error (''Tool '' @ dq @ tc_name call @ dq @ '' not found.'') \<or>
     find (\<lambda>t. tool_name t = tc_name call) (tn_tools node) = Some tool \<and>
       invoke_wrapped stringify node input config messages call tool = (Inl e, log) \<or>
     find (\<lambda>t. tool_name t = tc_name call) (tn_tools node) = Some tool \<and>
       invoke_wrapped stringify node input config messages call tool
         = (Inr (RetCommand cmd), log) \<and>
       cmd_update cmd = None \<and>
       e = Error ''Cannot read properties of undefined (reading 'messages')'') \<longrightarrow>
      (\<exists>out.
         fst (run_call stringify node input config messages call) = Inr out \<and>
         set (output_messages out) = {ToolMessage (error_tool_message call e)}) \<and>
      tm_tool_call_id (error_tool_message call e)
        = Some (case tc_id call of None \<Rightarrow> [] | Some i \<Rightarrow> i)) \<and>
   (tn_wrapToolCall node = None \<longrightarrow>
      invoke_wrapped stringify node input config messages call tool
        = defaultHandler stringify node tool config
            (tool_request input config messages call tool)) \<and>
   rq_toolCall (tool_request input config messages call tool) = call \<and>
   (tool_invoke tool ((rq_toolCall request)\<lparr>tc_type := Some ''tool_call''\<rparr>)
      ((case rq_runtime request of Some r \<Rightarrow> r | None \<Rightarrow> config)
         \<lparr>rc_toolName := tn_toolName node, rc_tool_call_id := tc_id (rq_toolCall request)\<rparr>)
      = Inr (RetRaw raw) \<longrightarrow>
      fst (defaultHandler stringify node tool config request)
        = Inr (RetToolMessage
            \<lparr>tm_content = CString (stringified stringify raw),
             tm_name = Some (tool_name tool),
             tm_tool_call_id = tc_id (rq_toolCall request),
             tm_status = None,
             tm_artifact = None\<rparr>)) \<and>
   (tool_invoke tool ((rq_toolCall request)\<lparr>tc_type := Some ''tool_call''\<rparr>)
      ((case rq_runtime request of Some r \<Rightarrow> r | None \<Rightarrow> config)
         \<lparr>rc_toolName := tn_toolName node, rc_tool_call_id := tc_id (rq_toolCall request)\<rparr>)
      = Inr (RetToolMessage m) \<longrightarrow>
      fst (defaultHandler stringify node tool config request) = Inr (RetToolMessage m)) \<and>
   (d_type d = ''edit'' \<and> processDecision d toolCall cfg = Inr (Some revised, tm) \<longrightarrow>
      tc_id revised = tc_id toolCall \<and>
      (\<exists>ea. d_editedAction d = Some ea \<and> ea_name ea = Some (JStr (tc_name revised)) \<and>
            ea_args ea = Some (tc_args revised))) \<and>
   (d_type d = ''reject'' \<and> processDecision d toolCall cfg = Inr (kept, Some rm) \<longrightarrow>
      tm_tool_call_id rm = tc_id toolCall)"
proof -
  have c1: "in_toolCall st = Some c \<longrightarrow> node_tool_calls node (InputObject st) = [c]"
    by (simp add: node_tool_calls_def input_toolCall_def)
  have c2: "input_toolCall input = None \<and> last_input_message node input = Some (AIMessage ai) \<and>
    ai_tool_calls ai = Some calls \<longrightarrow> node_tool_calls node input = calls"
    by (simp add: node_tool_calls_def)
  have c3: "navigator_tool_sends getChannelState agentChannel state = Some (Inr sends) \<longrightarrow>
      (\<exists>subState ms ai calls.
         getChannelState state agentChannel = Some subState \<and>
         ch_messages subState = Some ms \<and> ms \<noteq> [] \<and> last ms = AIMessage ai \<and>
         ai_tool_calls ai = Some calls \<and>
         map sent_to sends = map tc_name calls \<and>
         map (\<lambda>s. node_tool_calls node (InputObject (sent_state s))) sends
           = map (\<lambda>c. [c]) calls)"
    by (rule impI) (rule navigator_sends_calls)
  have c4: "fst (run race stringify node input config) = Inr result \<longrightarrow>
      (\<exists>outs.
         map (\<lambda>c. fst (run_call stringify node input config
                         (case input_messages node input of Some ms \<Rightarrow> ms | None \<Rightarrow> []) c))
           (node_tool_calls node input) = map Inr outs \<and>
         set (result_messages result) = (\<Union>out \<in> set outs. set (output_messages out)))"
    by (rule impI) (rule run_result_messages)
  have c5: "find (\<lambda>t. tool_name t = tc_name call) (tn_tools node) = Some tool \<and>
    invoke_wrapped stringify node input config messages call tool = (Inr (RetRaw raw), log) \<longrightarrow>
      run_call stringify node input config messages call =
        (Inr (OutMessage
           \<lparr>tm_content = CString (stringified stringify raw),
            tm_name = Some (tool_name tool),
            tm_tool_call_id = tc_id call,
            tm_status = None,
            tm_artifact = None\<rparr>), log)"
    by (simp add: run_call_def normalize_output_def)
  have c6: "find (\<lambda>t. tool_name t = tc_name call) (tn_tools node) = Some tool \<and>
    invoke_wrapped stringify node input config messages call tool
      = (Inr (RetToolMessage m), log) \<longrightarrow>
      (\<exists>out content'.
         run_call stringify node input config messages call = (Inr out, log) \<and>
         set (output_messages out) = {ToolMessage (m\<lparr>tm_content := content'\<rparr>)})"
  proof (intro impI, elim conjE)
    assume f: "find (\<lambda>t. tool_name t = tc_name call) (tn_tools node) = Some tool"
       and w: "invoke_wrapped stringify node input config messages call tool
                 = (Inr (RetToolMessage m), log)"
    from normalize_tool_message [of stringify node tool call m]
    obtain out content' where
      n: "normalize_output stringify node tool call (RetToolMessage m) = Inr out" and
      s: "set (output_messages out) = {ToolMessage (m\<lparr>tm_content := content'\<rparr>)}" by blast
    from run_call_found [OF f w n] s
    show "\<exists>out content'.
         run_call stringify node input config messages call = (Inr out, log) \<and>
         set (output_messages out) = {ToolMessage (m\<lparr>tm_content := content'\<rparr>)}" by blast
  qed
  have c7: "find (\<lambda>t. tool_name t = tc_name call) (tn_tools node) = Some tool \<and>
    invoke_wrapped stringify node input config messages call tool
      = (Inr (RetCommand cmd), log) \<and>
    cmd_update cmd = Some u \<longrightarrow>
      (\<exists>out.
         run_call stringify node input config messages call = (Inr out, log) \<and>
         set (output_messages out) \<subseteq> set (update_messages u))"
  proof (intro impI, elim conjE)
    assume f: "find (\<lambda>t. tool_name t = tc_name call) (tn_tools node) = Some tool"
       and w: "invoke_wrapped stringify node input config messages call tool
                 = (Inr (RetCommand cmd), log)"
       and u: "cmd_update cmd = Some u"
    from normalize_command [OF u, of stringify node tool call]
    obtain out where
      n: "normalize_output stringify node tool call (RetCommand cmd) = Inr out" and
      s: "set (output_messages out) \<subseteq> set (update_messages u)" by blast
    from run_call_found [OF f w n] s
    show "\<exists>out.
         run_call stringify node input config messages call = (Inr out, log) \<and>
         set (output_messages out) \<subseteq> set (update_messages u)" by blast
  qed
  have c8: "tn_handleToolErrors node \<and> \<not> isGraphInterrupt e \<and>
    (find (\<lambda>t. tool_name t = tc_name call) (tn_tools node) = None \<and>
       e = Error (''Tool '' @ dq @ tc_name call @ dq @ '' not found.'') \<or>
     find (\<lambda>t. tool_name t = tc_name call) (tn_tools node) = Some tool \<and>
       invoke_wrapped stringify node input config messages call tool = (Inl e, log) \<or>
     find (\<lambda>t. tool_name t = tc_name call) (tn_tools node) = Some tool \<and>
       invoke_wrapped stringify node input config messages call tool
         = (Inr (RetCommand cmd), log) \<and>
       cmd_update cmd = None \<and>
       e = Error ''Cannot read properties of undefined (reading 'messages')'') \<longrightarrow>
      (\<exists>out.
         fst (run_call stringify node input config messages call) = Inr out \<and>
         set (output_messages out) = {ToolMessage (error_tool_message call e)}) \<and>
      tm_tool_call_id (error_tool_message call e)
        = Some (case tc_id call of None \<Rightarrow> [] | Some i \<Rightarrow> i)"
    using run_call_error_messages [of node e call tool stringify input config messages log cmd]
    by (simp add: error_tool_message_def)
  have c9: "tn_wrapToolCall node = None \<longrightarrow>
      invoke_wrapped stringify node input config messages call tool
        = defaultHandler stringify node tool config
            (tool_request input config messages call tool)"
    by (simp add: invoke_wrapped_def Let_def)
  have c10: "rq_toolCall (tool_request input config messages call tool) = call"
    by (simp add: tool_request_def)
  have c11: "tool_invoke tool ((rq_toolCall request)\<lparr>tc_type := Some ''tool_call''\<rparr>)
      ((case rq_runtime request of Some r \<Rightarrow> r | None \<Rightarrow> config)
         \<lparr>rc_toolName := tn_toolName node, rc_tool_call_id := tc_id (rq_toolCall request)\<rparr>)
      = Inr (RetRaw raw) \<longrightarrow>
      fst (defaultHandler stringify node tool config request)
        = Inr (RetToolMessage
            \<lparr>tm_content = CString (stringified stringify raw),
             tm_name = Some (tool_name tool),
             tm_tool_call_id = tc_id (rq_toolCall request),
             tm_status = None,
             tm_artifact = None\<rparr>)"
    by (rule impI) (rule defaultHandler_raw)
  have c12: "tool_invoke tool ((rq_toolCall request)\<lparr>tc_type := Some ''tool_call''\<rparr>)
      ((case rq_runtime request of Some r \<Rightarrow> r | None \<Rightarrow> config)
         \<lparr>rc_toolName := tn_toolName node, rc_tool_call_id := tc_id (rq_toolCall request)\<rparr>)
      = Inr (RetToolMessage m) \<longrightarrow>
      fst (defaultHandler stringify node tool config request) = Inr (RetToolMessage m)"
    by (rule impI) (rule defaultHandler_own_message)
  have c13: "d_type d = ''edit'' \<and> processDecision d toolCall cfg = Inr (Some revised, tm) \<longrightarrow>
      tc_id revised = tc_id toolCall \<and>
      (\<exists>ea. d_editedAction d = Some ea \<and> ea_name ea = Some (JStr (tc_name revised)) \<and>
            ea_args ea = Some (tc_args revised))"
    using edit_keeps_id [of d toolCall cfg revised tm] by blast
  have c14: "d_type d = ''reject'' \<and> processDecision d toolCall cfg = Inr (kept, Some rm) \<longrightarrow>
      tm_tool_call_id rm = tc_id toolCall"
    using processDecision_rejecting [of d toolCall cfg kept "Some rm"]
    by (auto simp: rejection_message_def)
  show ?thesis
    by (intro conjI) (rule c1 c2 c3 c4 c5 c6 c7 c8 c9 c10 c11 c12 c13 c14)+
qed

lemmas agent_defs =
  agent_node_def agent_input_def agent_state_def agent_messages_def agent_ai_def
  add_call_def stamp_call_def example_call_def example_config_def
  add_tool_def stamp_tool_def boom_tool_def handoff_tool_def handoff_update_def
  stamp_message_def add_answer_def fed_back_def answer_variable_def raw_wrapper_def

lemmas node_defs =
  run_def run_call_def invoke_wrapped_def tool_request_def defaultHandler_def
  normalize_output_def handle_tool_error_def error_tool_message_def assign_variable_def
  node_tool_calls_def input_toolCall_def last_input_message_def input_messages_def
  not_ai_def first_rejection_def channel_key_def stringified_def getErrorMessage_def Let_def

theorem C2_tool_call_id_correspondence_witness:
  "node_tool_calls (agent_node None) (agent_input add_call) = [add_call] \<and>
   input_toolCall (InputObject agent_state) = None \<and>
   last_input_message (agent_node None) (InputObject agent_state) = Some (AIMessage agent_ai) \<and>
   node_tool_calls (agent_node None) (InputObject agent_state) = [add_call, stamp_call] \<and>
   navigator_tool_sends read_channel ''agent_channel'' agent_state
     = Some (Inr [Send ''add'' (agent_state\<lparr>in_toolCall := Some add_call\<rparr>),
                  Send ''stamp'' (agent_state\<lparr>in_toolCall := Some stamp_call\<rparr>)]) \<and>
   map (\<lambda>s. node_tool_calls (agent_node None) (InputObject (sent_state s)))
     [Send ''add'' (agent_state\<lparr>in_toolCall := Some add_call\<rparr>),
      Send ''stamp'' (agent_state\<lparr>in_toolCall := Some stamp_call\<rparr>)]
     = [[add_call], [stamp_call]] \<and>
   fst (run 0 no_stringify (agent_node None) (agent_input add_call) example_config)
     = Inr (ResCombined [CombCommand (fed_back ''5'' add_answer)]) \<and>
   set (result_messages (ResCombined [CombCommand (fed_back ''5'' add_answer)]))
     = {ToolMessage add_answer} \<and>
   tm_tool_call_id add_answer = tc_id add_call \<and>
   find (\<lambda>t. tool_name t = tc_name add_call) (tn_tools (agent_node (Some raw_wrapper)))
     = Some add_tool \<and>
   invoke_wrapped no_stringify (agent_node (Some raw_wrapper)) (agent_input add_call)
       example_config agent_messages add_call add_tool
     = (Inr (RetRaw (CString ''cached'')), []) \<and>
   run_call no_stringify (agent_node (Some raw_wrapper)) (agent_input add_call)
       example_config agent_messages add_call
     = (Inr (OutMessage \<lparr>tm_content = CString ''cached'', tm_name = Some ''add'',
                          tm_tool_call_id = Some ''t1'', tm_status = None,
                          tm_artifact = None\<rparr>), []) \<and>
   find (\<lambda>t. tool_name t = tc_name stamp_call) (tn_tools (agent_node None)) = Some stamp_tool \<and>
   invoke_wrapped no_stringify (agent_node None) (agent_input stamp_call)
       example_config agent_messages stamp_call stamp_tool
     = (Inr (RetToolMessage stamp_message),
        [ToolInvoked ''stamp'' (stamp_call\<lparr>tc_type := Some ''tool_call''\<rparr>)
           \<lparr>rc_toolName = Some ''toolset'', rc_tool_call_id = Some ''t2''\<rparr>]) \<and>
   fst (run_call no_stringify (agent_node None) (agent_input stamp_call)
          example_config agent_messages stamp_call)
     = Inr (OutCommand (fed_back ''stamped'' stamp_message)) \<and>
   find (\<lambda>t. tool_name t = tc_name (example_call ''handoff'' ''t3'')) (tn_tools (agent_node None))
     = Some handoff_tool \<and>
   invoke_wrapped no_stringify (agent_node None) (agent_input stamp_call)
       example_config agent_messages (example_call ''handoff'' ''t3'') handoff_tool
     = (Inr (RetCommand \<lparr>cmd_update = Some handoff_update, cmd_goto = [''next'']\<rparr>),
        [ToolInvoked ''handoff'' ((example_call ''handoff'' ''t3'')\<lparr>tc_type := Some ''tool_call''\<rparr>)
           \<lparr>rc_toolName = Some ''toolset'', rc_tool_call_id = Some ''t3''\<rparr>]) \<and>
   update_messages handoff_update = [ToolMessage stamp_message] \<and>
   tn_handleToolErrors (agent_node None) \<and>
   \<not> isGraphInterrupt (Error ''kaput'') \<and>
   find (\<lambda>t. tool_name t = tc_name (example_call ''boom'' ''t4'')) (tn_tools (agent_node None))
     = Some boom_tool \<and>
   invoke_wrapped no_stringify (agent_node None) (agent_input stamp_call)
       example_config agent_messages (example_call ''boom'' ''t4'') boom_tool
     = (Inl (Error ''kaput''),
        [ToolInvoked ''boom'' ((example_call ''boom'' ''t4'')\<lparr>tc_type := Some ''tool_call''\<rparr>)
           \<lparr>rc_toolName = Some ''toolset'', rc_tool_call_id = Some ''t4''\<rparr>]) \<and>
   tm_tool_call_id (error_tool_message (example_call ''boom'' ''t4'') (Error ''kaput''))
     = Some ''t4'' \<and>
   tn_wrapToolCall (agent_node None) = None \<and>
   fst (defaultHandler no_stringify (agent_node None) add_tool example_config
          (tool_request (agent_input add_call) example_config agent_messages add_call add_tool))
     = Inr (RetToolMessage add_answer) \<and>
   fst (defaultHandler no_stringify (agent_node None) stamp_tool example_config
          (tool_request (agent_input stamp_call) example_config agent_messages stamp_call
             stamp_tool))
     = Inr (RetToolMessage stamp_message) \<and>
   d_type edit_decision = ''edit'' \<and>
   processDecision edit_decision dangerous_call (Configured (dangerous_config [''edit'']))
     = Inr (Some \<lparr>tc_type = Some ''tool_call'', tc_name = ''careful'',
                   tc_args = JObj [(''x'', JNum 2)], tc_id = Some ''t9''\<rparr>, None) \<and>
   d_type reject_nope = ''reject'' \<and>
   processDecision reject_nope dangerous_call (Configured (dangerous_config [''reject'']))
     = Inr (Some dangerous_call,
            Some \<lparr>tm_content = CString ''nope'', tm_name = Some ''dangerous'',
                   tm_tool_call_id = Some ''t9'', tm_status = Some ''error'',
                   tm_artifact = None\<rparr>)"
proof -
  note c1 = C2_tool_call_id_correspondence [THEN conjunct1, rule_format]
  note c2 = C2_tool_call_id_correspondence [THEN conjunct2, THEN conjunct1, rule_format]
  note c3 = C2_tool_call_id_correspondence
              [THEN conjunct2, THEN conjunct2, THEN conjunct1, rule_format]
  note c5 = C2_tool_call_id_correspondence
              [THEN conjunct2, THEN conjunct2, THEN conjunct2, THEN conjunct2, THEN conjunct1,
               rule_format]
  note c8 = C2_tool_call_id_correspondence
              [THEN conjunct2, THEN conjunct2, THEN conjunct2, THEN conjunct2, THEN conjunct2,
               THEN conjunct2, THEN conjunct2, THEN conjunct1, rule_format]
  note c11 = C2_tool_call_id_correspondence
              [THEN conjunct2, THEN conjunct2, THEN conjunct2, THEN conjunct2, THEN conjunct2,
               THEN conjunct2, THEN conjunct2, THEN conjunct2, THEN conjunct2, THEN conjunct2,
               THEN conjunct1, rule_format]
  note c12 = C2_tool_call_id_correspondence
              [THEN conjunct2, THEN conjunct2, THEN conjunct2, THEN conjunct2, THEN conjunct2,
               THEN conjunct2, THEN conjunct2, THEN conjunct2, THEN conjunct2, THEN conjunct2,
               THEN conjunct2, THEN conjunct1, rule_format]
  have w1: "node_tool_calls (agent_node None) (agent_input add_call) = [add_call]"
    unfolding agent_input_def by (rule c1) simp
  have h2: "input_toolCall (InputObject agent_state) = None"
           "last_input_message (agent_node None) (InputObject agent_state)
              = Some (AIMessage agent_ai)"
           "ai_tool_calls agent_ai = Some [add_call, stamp_call]"
    by (simp_all add: agent_defs node_defs)
  have w2: "node_tool_calls (agent_node None) (InputObject agent_state) = [add_call, stamp_call]"
    by (rule c2 [OF conjI [OF h2(1) conjI [OF h2(2) h2(3)]]])
  have h3: "navigator_tool_sends read_channel ''agent_channel'' agent_state
     = Some (Inr [Send ''add'' (agent_state\<lparr>in_toolCall := Some add_call\<rparr>),
                  Send ''stamp'' (agent_state\<lparr>in_toolCall := Some stamp_call\<rparr>)])"
    by (simp add: navigator_tool_sends_def read_channel_def send_tool_calls_def Let_def
          agent_state_def agent_messages_def agent_ai_def
          add_call_def stamp_call_def example_call_def)
  from c3 [OF h3, of "agent_node None"]
  have w3: "map (\<lambda>s. node_tool_calls (agent_node None) (InputObject (sent_state s)))
     [Send ''add'' (agent_state\<lparr>in_toolCall := Some add_call\<rparr>),
      Send ''stamp'' (agent_state\<lparr>in_toolCall := Some stamp_call\<rparr>)]
     = [[add_call], [stamp_call]]"
    by (auto simp: read_channel_def agent_state_def agent_messages_def agent_ai_def)
  have h4: "fst (run 0 no_stringify (agent_node None) (agent_input add_call) example_config)
     = Inr (ResCombined [CombCommand (fed_back ''5'' add_answer)])"
    by (simp add: agent_defs node_defs)
  have w4: "set (result_messages (ResCombined [CombCommand (fed_back ''5'' add_answer)]))
     = {ToolMessage add_answer}"
    by (simp add: fed_back_def command_messages_def kv_messages_def)
  have w4': "tm_tool_call_id add_answer = tc_id add_call"
    by (simp add: agent_defs)
  have f5: "find (\<lambda>t. tool_name t = tc_name add_call) (tn_tools (agent_node (Some raw_wrapper)))
     = Some add_tool"
    by (simp add: agent_defs)
  have i5: "invoke_wrapped no_stringify (agent_node (Some raw_wrapper)) (agent_input add_call)
       example_config agent_messages add_call add_tool
     = (Inr (RetRaw (CString ''cached'')), [])"
    by (simp add: invoke_wrapped_def agent_node_def raw_wrapper_def Let_def)
  from c5 [OF conjI [OF f5 i5]]
  have w5: "run_call no_stringify (agent_node (Some raw_wrapper)) (agent_input add_call)
       example_config agent_messages add_call
     = (Inr (OutMessage \<lparr>tm_content = CString ''cached'', tm_name = Some ''add'',
                          tm_tool_call_id = Some ''t1'', tm_status = None,
                          tm_artifact = None\<rparr>), [])"
    by (simp add: stringified_def add_tool_def add_call_def example_call_def)
  have f6: "find (\<lambda>t. tool_name t = tc_name stamp_call) (tn_tools (agent_node None))
              = Some stamp_tool"
    by (simp add: agent_defs)
  have i6: "invoke_wrapped no_stringify (agent_node None) (agent_input stamp_call)
       example_config agent_messages stamp_call stamp_tool
     = (Inr (RetToolMessage stamp_message),
        [ToolInvoked ''stamp'' (stamp_call\<lparr>tc_type := Some ''tool_call''\<rparr>)
           \<lparr>rc_toolName = Some ''toolset'', rc_tool_call_id = Some ''t2''\<rparr>])"
    by (simp add: agent_defs node_defs)
  have w6: "fst (run_call no_stringify (agent_node None) (agent_input stamp_call)
          example_config agent_messages stamp_call)
     = Inr (OutCommand (fed_back ''stamped'' stamp_message))"
    by (simp add: agent_defs node_defs)
  have f7: "find (\<lambda>t. tool_name t = tc_name (example_call ''handoff'' ''t3''))
              (tn_tools (agent_node None)) = Some handoff_tool"
    by (simp add: agent_defs)
  have i7: "invoke_wrapped no_stringify (agent_node None) (agent_input stamp_call)
       example_config agent_messages (example_call ''handoff'' ''t3'') handoff_tool
     = (Inr (RetCommand \<lparr>cmd_update = Some handoff_update, cmd_goto = [''next'']\<rparr>),
        [ToolInvoked ''handoff'' ((example_call ''handoff'' ''t3'')\<lparr>tc_type := Some ''tool_call''\<rparr>)
           \<lparr>rc_toolName = Some ''toolset'', rc_tool_call_id = Some ''t3''\<rparr>])"
    by (simp add: agent_defs node_defs)
  have w7: "update_messages handoff_update = [ToolMessage stamp_message]"
    by (simp add: handoff_update_def kv_messages_def)
  have h8: "tn_handleToolErrors (agent_node None)" "\<not> isGraphInterrupt (Error ''kaput'')"
    by (simp_all add: agent_node_def)
  have f8: "find (\<lambda>t. tool_name t = tc_name (example_call ''boom'' ''t4''))
              (tn_tools (agent_node None)) = Some boom_tool"
    by (simp add: agent_defs)
  have i8: "invoke_wrapped no_stringify (agent_node None) (agent_input stamp_call)
       example_config agent_messages (example_call ''boom'' ''t4'') boom_tool
     = (Inl (Error ''kaput''),
        [ToolInvoked ''boom'' ((example_call ''boom'' ''t4'')\<lparr>tc_type := Some ''tool_call''\<rparr>)
           \<lparr>rc_toolName = Some ''toolset'', rc_tool_call_id = Some ''t4''\<rparr>])"
    by (simp add: agent_defs node_defs)
  from c8 [where node = "agent_node None" and e = "Error ''kaput''"
             and call = "example_call ''boom'' ''t4''" and tool = boom_tool
             and stringify = no_stringify and input = "agent_input stamp_call"
             and config = example_config and messages = agent_messages
             and log = "[ToolInvoked ''boom''
                           ((example_call ''boom'' ''t4'')\<lparr>tc_type := Some ''tool_call''\<rparr>)
                           \<lparr>rc_toolName = Some ''toolset'', rc_tool_call_id = Some ''t4''\<rparr>]"]
       h8 f8 i8
  have w8: "tm_tool_call_id (error_tool_message (example_call ''boom'' ''t4'') (Error ''kaput''))
     = Some ''t4''"
    by (simp add: example_call_def)
  have h9: "tn_wrapToolCall (agent_node None) = None" by (simp add: agent_node_def)
  have h11: "tool_invoke add_tool
               ((rq_toolCall (tool_request (agent_input add_call) example_config agent_messages
                    add_call add_tool))\<lparr>tc_type := Some ''tool_call''\<rparr>)
               ((case rq_runtime (tool_request (agent_input add_call) example_config
                                    agent_messages add_call add_tool) of
                   Some r \<Rightarrow> r | None \<Rightarrow> example_config)
                  \<lparr>rc_toolName := tn_toolName (agent_node None),
                    rc_tool_call_id := tc_id (rq_toolCall (tool_request (agent_input add_call)
                       example_config agent_messages add_call add_tool))\<rparr>)
             = Inr (RetRaw (CString ''5''))"
    by (simp add: add_tool_def)
  from c11 [OF h11, of no_stringify]
  have w11: "fst (defaultHandler no_stringify (agent_node None) add_tool example_config
          (tool_request (agent_input add_call) example_config agent_messages add_call add_tool))
     = Inr (RetToolMessage add_answer)"
    by (simp add: tool_request_def stringified_def add_tool_def add_call_def example_call_def
          add_answer_def)
  have h12: "tool_invoke stamp_tool
               ((rq_toolCall (tool_request (agent_input stamp_call) example_config agent_messages
                    stamp_call stamp_tool))\<lparr>tc_type := Some ''tool_call''\<rparr>)
               ((case rq_runtime (tool_request (agent_input stamp_call) example_config
                                    agent_messages stamp_call stamp_tool) of
                   Some r \<Rightarrow> r | None \<Rightarrow> example_config)
                  \<lparr>rc_toolName := tn_toolName (agent_node None),
                    rc_tool_call_id := tc_id (rq_toolCall (tool_request (agent_input stamp_call)
                       example_config agent_messages stamp_call stamp_tool))\<rparr>)
             = Inr (RetToolMessage stamp_message)"
    by (simp add: stamp_tool_def)
  from c12 [OF h12, of no_stringify]
  have w12: "fst (defaultHandler no_stringify (agent_node None) stamp_tool example_config
          (tool_request (agent_input stamp_call) example_config agent_messages stamp_call
             stamp_tool))
     = Inr (RetToolMessage stamp_message)" .
  have h13: "d_type edit_decision = ''edit''" "d_type reject_nope = ''reject''"
    by (simp_all add: edit_decision_def reject_nope_def)
  have w13: "processDecision edit_decision dangerous_call (Configured (dangerous_config [''edit'']))
     = Inr (Some \<lparr>tc_type = Some ''tool_call'', tc_name = ''careful'',
                   tc_args = JObj [(''x'', JNum 2)], tc_id = Some ''t9''\<rparr>, None)"
    by (simp add: processDecision_Configured edit_branch_def edit_decision_def dangerous_call_def
          dangerous_config_def)
  have w14: "processDecision reject_nope dangerous_call (Configured (dangerous_config [''reject'']))
     = Inr (Some dangerous_call,
            Some \<lparr>tm_content = CString ''nope'', tm_name = Some ''dangerous'',
                   tm_tool_call_id = Some ''t9'', tm_status = Some ''error'',
                   tm_artifact = None\<rparr>)"
    by (simp add: processDecision_Configured reject_branch_def rejection_message_def
          rejection_content_def reject_nope_def dangerous_call_def dangerous_config_def)
  show ?thesis
    by (intro conjI)
       (rule w1 h2 w2 h3 w3 h4 w4 w4' f5 i5 w5 f6 i6 w6 f7 i7 w7 h8 f8 i8 w8 h9 w11 w12 h13 w13 w14)+
qed

text \<open>
  The specification has every tool message carry the id of a call of the AI message.
  The tool \<open>stamp\<close> answers the call "t2" of the AI message with a tool message of its
  own whose \<open>tool_call_id\<close> is "other"; the node feeds that message back as it is, so
  the result of the run carries a tool message whose id is none of the ids of the AI
  message's calls.
\<close>

theorem C2_tool_message_keeps_own_id_counterexample:
  "node_tool_calls (agent_node None) (agent_input stamp_call) = [stamp_call] \<and>
   map tc_id (case ai_tool_calls agent_ai of Some cs \<Rightarrow> cs | None \<Rightarrow> []) = [Some ''t1'', Some ''t2''] \<and>
   fst (run 0 no_stringify (agent_node None) (agent_input stamp_call) example_config)
     = Inr (ResCombined [CombCommand (fed_back ''stamped'' stamp_message)]) \<and>
   result_messages (ResCombined [CombCommand (fed_back ''stamped'' stamp_message)])
     = [ToolMessage stamp_message, ToolMessage stamp_message] \<and>
   tm_tool_call_id stamp_message = Some ''other'' \<and>
   Some ''other'' \<notin> set [Some ''t1'', Some ''t2'']"
  by (simp add: agent_defs node_defs command_messages_def kv_messages_def)


subsection \<open>The LLM tool selector\<close>

lemma rev_remdups_rev_Cons:
  "rev (remdups (rev (x # xs))) = x # filter (\<lambda>y. y \<noteq> x) (rev (remdups (rev xs)))"
proof -
  have "remdups (ys @ [x]) = filter (\<lambda>y. y \<noteq> x) (remdups ys) @ [x]" for ys :: "'a list"
    by (induction ys) auto
  then show ?thesis by (simp add: rev_filter)
qed

lemma loop_invalid:
  "snd (foldl (select_step valid m) (sel, bad) xs) = bad @ filter (\<lambda>n. n \<notin> set valid) xs"
  by (induction xs arbitrary: sel bad) (auto simp: select_step_def Let_def)

lemma loop_full:
  assumes "set xs \<subseteq> set valid" and "m = Some k" and "\<not> int (length sel) < k"
  shows "fst (foldl (select_step valid m) (sel, bad) xs) = sel"
  using assms by (induction xs arbitrary: bad) (auto simp: select_step_def Let_def)

lemma later_names_Nil: "later_names sel [] = []"
  by (simp add: later_names_def)

lemma later_names_skip: "x \<in> set sel \<Longrightarrow> later_names sel (x # xs) = later_names sel xs"
  unfolding later_names_def rev_remdups_rev_Cons
  by (auto intro: filter_cong)

lemma later_names_take:
  "x \<notin> set sel \<Longrightarrow> later_names sel (x # xs) = x # later_names (sel @ [x]) xs"
  unfolding later_names_def rev_remdups_rev_Cons
  by (auto intro: filter_cong)

lemma loop_selected:
  assumes "set xs \<subseteq> set valid"
  shows "fst (foldl (select_step valid m) (sel, bad) xs) =
           (case m of
              None \<Rightarrow> sel @ later_names sel xs
            | Some k \<Rightarrow>
                (if int (length sel) < k then take (nat k) (sel @ later_names sel xs) else sel))"
  using assms
proof (induction xs arbitrary: sel bad)
  case Nil
  then show ?case by (auto simp: later_names_Nil split: option.splits)
next
  case (Cons x xs)
  from Cons.prems have v: "x \<in> set valid" and vs: "set xs \<subseteq> set valid" by auto
  show ?case
  proof (cases "x \<in> set sel")
    case True
    then have step: "foldl (select_step valid m) (sel, bad) (x # xs)
                       = foldl (select_step valid m) (sel, bad) xs"
      using v by (simp add: select_step_def Let_def)
    show ?thesis
      unfolding step later_names_skip [OF True] by (rule Cons.IH [OF vs])
  next
    case new: False
    show ?thesis
    proof (cases m)
      case None
      have step: "foldl (select_step valid m) (sel, bad) (x # xs)
                       = foldl (select_step valid m) (sel @ [x], bad) xs"
        using new v None by (simp add: select_step_def Let_def)
      from Cons.IH [OF vs, of "sel @ [x]" bad] None show ?thesis
        unfolding step later_names_take [OF new] by simp
    next
      case (Some k)
      show ?thesis
      proof (cases "int (length sel) < k")
        case False
        with Some loop_full [OF Cons.prems(1) Some False] show ?thesis by simp
      next
        case room: True
        have step: "foldl (select_step valid m) (sel, bad) (x # xs)
                     = foldl (select_step valid m) (sel @ [x], bad) xs"
          using new v Some room by (simp add: select_step_def Let_def)
        show ?thesis
        proof (cases "int (length (sel @ [x])) < k")
          case True
          with Some room Cons.IH [OF vs, of "sel @ [x]" bad] show ?thesis
            unfolding step later_names_take [OF new] by simp
        next
          case False
          then have "nat k = length sel + 1" using room by simp
          with False Some room Cons.IH [OF vs, of "sel @ [x]" bad] show ?thesis
            unfolding step later_names_take [OF new] by simp
        qed
      qed
    qed
  qed
qed

lemma loop_from_empty:
  assumes "set xs \<subseteq> set valid"
  shows "foldl (select_step valid m) ([], []) xs = (first_selected m xs, [])"
proof -
  have s: "snd (foldl (select_step valid m) ([], []) xs) = []"
    using assms by (simp only: loop_invalid) (auto simp: filter_empty_conv)
  have f: "fst (foldl (select_step valid m) ([], []) xs) = first_selected m xs"
    using loop_selected [OF assms, of m "[]" "[]"]
    by (auto simp: first_selected_def later_names_def split: option.splits)
  from s f show ?thesis by (simp add: prod_eq_iff)
qed


lemma first_selected_distinct: "distinct (first_selected m names)"
  by (auto simp: first_selected_def split: option.splits)

lemma first_selected_length: "length (first_selected (Some k) names) \<le> nat k"
  by (simp add: first_selected_def)

text \<open>
  C4. Given the tool names listed by the selection model: if a listed name is not among
  the selectable tool names, processing the response fails with an error that names the
  invalid selections; otherwise the request handed on has as tools the available tools
  whose names are among the first \<open>maxTools\<close> distinct listed names (all distinct listed
  names when there is no \<open>maxTools\<close>), followed by every tool of the original request
  whose name is in \<open>alwaysInclude\<close>, followed by the provider-specific tool dicts of the
  original request; and \<open>wrapModelCall\<close> hands exactly that request to the inner
  handler.
\<close>

theorem C4_selection_filters_tools:
  "(\<not> set response \<subseteq> set validToolNames \<longrightarrow>
      processSelectionResponse response availableTools validToolNames request options
        = Inl (Error (''Model selected invalid tools: ''
                       @ join '', '' (filter (\<lambda>n. n \<notin> set validToolNames) response)))) \<and>
   (set response \<subseteq> set validToolNames \<longrightarrow>
      processSelectionResponse response availableTools validToolNames request options
        = Inr (request\<lparr>mr_tools := Some
            (filter (name_in (first_selected (so_maxTools options) response)) availableTools
             @ filter (name_in (case so_alwaysInclude options of Some a \<Rightarrow> a | None \<Rightarrow> []))
                 (case mr_tools request of Some ts \<Rightarrow> ts | None \<Rightarrow> [])
             @ filter (\<lambda>tool. \<not> is_base_tool tool)
                 (case mr_tools request of Some ts \<Rightarrow> ts | None \<Rightarrow> []))\<rparr>)) \<and>
   first_selected None response = rev (remdups (rev response)) \<and>
   first_selected (Some k) response = take (nat k) (rev (remdups (rev response))) \<and>
   (prepareSelectionRequest request options ctx = Inr (Some selectionRequest) \<and>
    select selectionRequest = Inr response \<longrightarrow>
      selector_wrapModelCall options ctx select request handler
        = (case processSelectionResponse response (sr_availableTools selectionRequest)
                  (sr_validToolNames selectionRequest) request options of
             Inl e \<Rightarrow> Inl e
           | Inr selected \<Rightarrow> handler selected))"
proof -
  have bad: "\<not> set response \<subseteq> set validToolNames \<longrightarrow>
      processSelectionResponse response availableTools validToolNames request options
        = Inl (Error (''Model selected invalid tools: ''
                       @ join '', '' (filter (\<lambda>n. n \<notin> set validToolNames) response)))"
  proof
    assume n: "\<not> set response \<subseteq> set validToolNames"
    then have ne: "filter (\<lambda>n. n \<notin> set validToolNames) response \<noteq> []"
      by (auto simp: filter_empty_conv)
    have "snd (foldl (select_step validToolNames (so_maxTools options)) ([], []) response)
            = filter (\<lambda>n. n \<notin> set validToolNames) response"
      by (simp add: loop_invalid)
    with ne show "processSelectionResponse response availableTools validToolNames request options
        = Inl (Error (''Model selected invalid tools: ''
                       @ join '', '' (filter (\<lambda>n. n \<notin> set validToolNames) response)))"
      by (simp add: processSelectionResponse_def Let_def case_prod_unfold)
  qed
  have good: "set response \<subseteq> set validToolNames \<longrightarrow>
      processSelectionResponse response availableTools validToolNames request options
        = Inr (request\<lparr>mr_tools := Some
            (filter (name_in (first_selected (so_maxTools options) response)) availableTools
             @ filter (name_in (case so_alwaysInclude options of Some a \<Rightarrow> a | None \<Rightarrow> []))
                 (case mr_tools request of Some ts \<Rightarrow> ts | None \<Rightarrow> [])
             @ filter (\<lambda>tool. \<not> is_base_tool tool)
                 (case mr_tools request of Some ts \<Rightarrow> ts | None \<Rightarrow> []))\<rparr>)"
    by (simp add: processSelectionResponse_def Let_def loop_from_empty)
  have w: "prepareSelectionRequest request options ctx = Inr (Some selectionRequest) \<and>
    select selectionRequest = Inr response \<longrightarrow>
      selector_wrapModelCall options ctx select request handler
        = (case processSelectionResponse response (sr_availableTools selectionRequest)
                  (sr_validToolNames selectionRequest) request options of
             Inl e \<Rightarrow> Inl e
           | Inr selected \<Rightarrow> handler selected)"
    by (simp add: selector_wrapModelCall_def)
  from bad good w show ?thesis by (simp add: first_selected_def)
qed

theorem C4_selection_filters_tools_witness:
  "set [''a'', ''b'', ''c'', ''d''] \<subseteq> set [''a'', ''b'', ''c'', ''d''] \<and>
   prepareSelectionRequest selector_request cap_options None
     = Inr (Some \<lparr>sr_availableTools = [named_tool ''a'', named_tool ''b'', named_tool ''c'',
                                         named_tool ''d''],
                   sr_lastUserMessage = CString ''find it'',
                   sr_validToolNames = [''a'', ''b'', ''c'', ''d'']\<rparr>) \<and>
   selector_wrapModelCall cap_options None (fixed_selection [''a'', ''b'', ''c'', ''d''])
       selector_request pass_on
     = Inr (selector_request\<lparr>mr_tools :=
              Some [named_tool ''a'', named_tool ''b'', named_tool ''c'',
                    named_tool ''search'', provider_tool]\<rparr>) \<and>
   \<not> set [''a'', ''x''] \<subseteq> set [''a'', ''b'', ''c'', ''d''] \<and>
   processSelectionResponse [''a'', ''x'']
       [named_tool ''a'', named_tool ''b'', named_tool ''c'', named_tool ''d'']
       [''a'', ''b'', ''c'', ''d''] selector_request cap_options
     = Inl (Error ''Model selected invalid tools: x'')"
proof -
  let ?available = "[named_tool ''a'', named_tool ''b'', named_tool ''c'', named_tool ''d'']"
  let ?valid = "[''a'', ''b'', ''c'', ''d'']"
  let ?sel = "\<lparr>sr_availableTools = ?available,
               sr_lastUserMessage = CString ''find it'',
               sr_validToolNames = ?valid\<rparr>"
  have sub: "set [''a'', ''b'', ''c'', ''d''] \<subseteq> set ?valid" by simp
  have nsub: "\<not> set [''a'', ''x''] \<subseteq> set ?valid" by simp
  have prep: "prepareSelectionRequest selector_request cap_options None = Inr (Some ?sel)"
    by (simp add: prepareSelectionRequest_def selector_request_def cap_options_def Let_def
          is_base_tool_def name_in_def named_tool_def provider_tool_def List.map_filter_simps)
  have sel: "fixed_selection [''a'', ''b'', ''c'', ''d''] ?sel = Inr [''a'', ''b'', ''c'', ''d'']"
    by (simp add: fixed_selection_def)
  have fs: "first_selected (so_maxTools cap_options) [''a'', ''b'', ''c'', ''d''] = [''a'', ''b'', ''c'']"
    by (simp add: first_selected_def cap_options_def)
  note inst = C4_selection_filters_tools [where response = "[''a'', ''b'', ''c'', ''d'']" and validToolNames = ?valid
                    and availableTools = ?available and request = selector_request
                    and options = cap_options and ctx = None and selectionRequest = ?sel
                    and select = "fixed_selection [''a'', ''b'', ''c'', ''d'']"
                    and handler = pass_on and k = 3]
  note inst2 = C4_selection_filters_tools [where response = "[''a'', ''x'']" and validToolNames = ?valid
                    and availableTools = ?available and request = selector_request
                    and options = cap_options and ctx = None and selectionRequest = ?sel
                    and select = "fixed_selection [''a'', ''x'']"
                    and handler = pass_on and k = 3]
  have good: "selector_wrapModelCall cap_options None (fixed_selection [''a'', ''b'', ''c'', ''d''])
       selector_request pass_on
     = Inr (selector_request\<lparr>mr_tools :=
              Some [named_tool ''a'', named_tool ''b'', named_tool ''c'',
                    named_tool ''search'', provider_tool]\<rparr>)"
    using inst sub prep sel fs
    by (simp add: pass_on_def selector_request_def cap_options_def
          is_base_tool_def name_in_def named_tool_def provider_tool_def)
  have bad: "processSelectionResponse [''a'', ''x''] ?available ?valid selector_request cap_options
     = Inl (Error ''Model selected invalid tools: x'')"
    using inst2 nsub by simp
  from sub prep good nsub bad show ?thesis by blast
qed


subsection \<open>The client tool middleware\<close>

lemma client_hook_in_node:
  assumes "find (\<lambda>t. tool_name t = tc_name call) (tn_tools node) = Some tool"
      and "tn_wrapToolCall node = Some (client_wrapToolCall stringify options resume)"
      and "client_wrapToolCall stringify options resume
             (tool_request input config messages call tool) failing_handler = (Inl e, log)"
      and "list_ex (\<lambda>clientTool. ct_name clientTool = tc_name call) (clientTools options)"
  shows "run_call stringify node input config messages call = handle_tool_error node call e log"
proof -
  from assms(4) have ne: "clientTools options \<noteq> []" by auto
  have "client_wrapToolCall stringify options resume
          (tool_request input config messages call tool) (defaultHandler stringify node tool config)
        = client_wrapToolCall stringify options resume
          (tool_request input config messages call tool) failing_handler"
    using assms(4) ne by (simp add: client_wrapToolCall_def tool_request_def)
  with assms(2,3) have "invoke_wrapped stringify node input config messages call tool = (Inl e, log)"
    by (simp add: invoke_wrapped_def Let_def)
  from run_call_throw [OF assms(1) this] show ?thesis .
qed

text \<open>
  C5, as the code has it. When a tool named in the configured \<open>clientTools\<close> is
  called, \<open>wrapToolCall\<close> never invokes the inner handler; without a resume value it
  raises an interrupt whose payload is the list of that one tool call; on resume it
  throws unless \<open>toolMessages\<close> is an array of exactly one message; it throws when the
  message's \<open>tool_call_id\<close> and the call's id are both present and differ; for a plain
  message it throws "Missing tool_call_id" when neither the message nor the call
  supplies a non-empty id, and otherwise returns a tool message with the message's id,
  or the call's id when the message has none. An error thrown by the hook inside a tool
  node is rethrown, failing the run, only when the node's \<open>handleToolErrors\<close> is false;
  with \<open>handleToolErrors\<close> set, the node dispatches \<open>on_tool_error\<close> and feeds the
  error back as an "Error: ..." tool message.
\<close>

theorem C5_client_tool_interrupt_and_checks:
  assumes "list_ex (\<lambda>clientTool. ct_name clientTool = tc_name (rq_toolCall request))
             (clientTools options)"
  shows "client_wrapToolCall stringify options resume request handler
           = client_wrapToolCall stringify options resume request failing_handler \<and>
         client_wrapToolCall stringify options None request handler
           = (Inl (GraphInterrupt (ClientToolRequest [rq_toolCall request])), []) \<and>
         (find (\<lambda>t. tool_name t = tc_name call) (tn_tools node) = Some tool \<and>
          tn_wrapToolCall node = Some (client_wrapToolCall stringify options resume) \<and>
          request = tool_request input config messages call tool \<and>
          client_wrapToolCall stringify options resume request handler = (Inl (Error msg), []) \<longrightarrow>
            (\<not> tn_handleToolErrors node \<longrightarrow>
               run_call stringify node input config messages call = (Inl (Error msg), [])) \<and>
            (tn_handleToolErrors node \<longrightarrow>
               run_call stringify node input config messages call =
                 (Inr (OutCommand
                    \<lparr>cmd_update = Some (UpdObject
                       (obj_set (channel_key node)
                          (UObjMessages (UMessages [ToolMessage (error_tool_message call (Error msg))]))
                          [(''messages'',
                            UMessages [ToolMessage (error_tool_message call (Error msg))])])),
                     cmd_goto = []\<rparr>),
                  [CustomEvent ON_TOOL_ERROR call msg]))) \<and>
         ((toolMessages response = None \<or>
           (\<exists>ms. toolMessages response = Some ms \<and> length ms \<noteq> 1)) \<longrightarrow>
            client_wrapToolCall stringify options (Some response) request handler
              = (Inl (Error ''Invalid ClientToolResponse: toolMessages must be an array with exactly one item''),
                 [])) \<and>
         (toolMessages response = Some [message] \<and>
          message_tool_call_id message = Some mid \<and> mid \<noteq> [] \<and>
          tc_id (rq_toolCall request) = Some cid \<and> cid \<noteq> [] \<and> mid \<noteq> cid \<longrightarrow>
            client_wrapToolCall stringify options (Some response) request handler
              = (Inl (Error (mismatch_text mid cid)), [])) \<and>
         (toolMessages response = Some [MsgInput reply] \<and>
          \<not> present (cm_tool_call_id reply) \<and>
          (cm_tool_call_id reply = Some [] \<or> \<not> present (tc_id (rq_toolCall request))) \<longrightarrow>
            client_wrapToolCall stringify options (Some response) request handler
              = (Inl (Error (''Missing tool_call_id for client tool '' @ dq
                   @ tc_name (rq_toolCall request) @ dq
                   @ ''. Provide tool_call_id in the response or ensure the tool call has an id.'')),
                 [])) \<and>
         (toolMessages response = Some [MsgInput reply] \<and>
          cm_tool_call_id reply = Some mid \<and> mid \<noteq> [] \<and>
          (tc_id (rq_toolCall request) = Some mid \<or> \<not> present (tc_id (rq_toolCall request))) \<longrightarrow>
            (\<exists>m. client_wrapToolCall stringify options (Some response) request handler
                    = (Inr (RetToolMessage m), []) \<and>
                  tm_tool_call_id m = Some mid)) \<and>
         (toolMessages response = Some [MsgInput reply] \<and>
          cm_tool_call_id reply = None \<and>
          tc_id (rq_toolCall request) = Some cid \<and> cid \<noteq> [] \<longrightarrow>
            (\<exists>m. client_wrapToolCall stringify options (Some response) request handler
                    = (Inr (RetToolMessage m), []) \<and>
                  tm_tool_call_id m = Some cid))"
proof -
  from assms have ne: "clientTools options \<noteq> []" by auto
  have same: "client_wrapToolCall stringify options resume request handler
           = client_wrapToolCall stringify options resume request failing_handler" for resume
    using assms ne by (simp add: client_wrapToolCall_def)
  have node: "find (\<lambda>t. tool_name t = tc_name call) (tn_tools node) = Some tool \<and>
          tn_wrapToolCall node = Some (client_wrapToolCall stringify options resume) \<and>
          request = tool_request input config messages call tool \<and>
          client_wrapToolCall stringify options resume request handler = (Inl (Error msg), []) \<longrightarrow>
            (\<not> tn_handleToolErrors node \<longrightarrow>
               run_call stringify node input config messages call = (Inl (Error msg), [])) \<and>
            (tn_handleToolErrors node \<longrightarrow>
               run_call stringify node input config messages call =
                 (Inr (OutCommand
                    \<lparr>cmd_update = Some (UpdObject
                       (obj_set (channel_key node)
                          (UObjMessages (UMessages [ToolMessage (error_tool_message call (Error msg))]))
                          [(''messages'',
                            UMessages [ToolMessage (error_tool_message call (Error msg))])])),
                     cmd_goto = []\<rparr>),
                  [CustomEvent ON_TOOL_ERROR call msg]))"
  proof (intro impI, elim conjE)
    assume f: "find (\<lambda>t. tool_name t = tc_name call) (tn_tools node) = Some tool"
       and w: "tn_wrapToolCall node = Some (client_wrapToolCall stringify options resume)"
       and r: "request = tool_request input config messages call tool"
       and t: "client_wrapToolCall stringify options resume request handler = (Inl (Error msg), [])"
    from r have c: "rq_toolCall request = call" by (simp add: tool_request_def)
    from t same [of resume] r
    have t': "client_wrapToolCall stringify options resume
                (tool_request input config messages call tool) failing_handler = (Inl (Error msg), [])"
      by simp
    from assms c have l: "list_ex (\<lambda>clientTool. ct_name clientTool = tc_name call) (clientTools options)"
      by simp
    show "(\<not> tn_handleToolErrors node \<longrightarrow>
               run_call stringify node input config messages call = (Inl (Error msg), [])) \<and>
            (tn_handleToolErrors node \<longrightarrow>
               run_call stringify node input config messages call =
                 (Inr (OutCommand
                    \<lparr>cmd_update = Some (UpdObject
                       (obj_set (channel_key node)
                          (UObjMessages (UMessages [ToolMessage (error_tool_message call (Error msg))]))
                          [(''messages'',
                            UMessages [ToolMessage (error_tool_message call (Error msg))])])),
                     cmd_goto = []\<rparr>),
                  [CustomEvent ON_TOOL_ERROR call msg]))"
      unfolding client_hook_in_node [OF f w t' l]
      by (simp add: handle_tool_error_def Let_def getErrorMessage_def)
  qed
  show ?thesis
    using assms ne node same
    by (auto simp: client_wrapToolCall_def toToolMessage_def present_def shown_id_def Let_def
           mismatch_text_def
           split: option.splits)
qed


lemmas client_defs =
  client_wrapToolCall_def toToolMessage_def present_def shown_id_def mismatch_text_def
  browser_options_def browser_call_def browser_request_def browser_tool_def client_reply_def
  client_input_def client_messages_def tool_request_def client_node_def
  mismatched_response_def failing_handler_def Let_def

theorem C5_client_tool_interrupt_and_checks_witness:
  "list_ex (\<lambda>clientTool. ct_name clientTool = tc_name (rq_toolCall browser_request))
     (clientTools browser_options) \<and>
   client_wrapToolCall no_stringify browser_options None browser_request failing_handler
     = (Inl (GraphInterrupt (ClientToolRequest [browser_call])), []) \<and>
   client_wrapToolCall no_stringify browser_options
       (Some \<lparr>toolMessages = Some [client_reply (Some ''c1'')]\<rparr>) browser_request failing_handler
     = (Inr (RetToolMessage \<lparr>tm_content = CString ''ok'', tm_name = Some ''browser.open'',
                             tm_tool_call_id = Some ''c1'', tm_status = None,
                             tm_artifact = None\<rparr>), []) \<and>
   client_wrapToolCall no_stringify browser_options (Some mismatched_response)
       browser_request failing_handler
     = (Inl (Error (mismatch_text ''zz'' ''c1'')), []) \<and>
   client_wrapToolCall no_stringify browser_options (Some \<lparr>toolMessages = Some []\<rparr>)
       browser_request failing_handler
     = (Inl (Error ''Invalid ClientToolResponse: toolMessages must be an array with exactly one item''),
        []) \<and>
   run_call no_stringify (client_node False (Some mismatched_response)) client_input
       example_config client_messages browser_call
     = (Inl (Error (mismatch_text ''zz'' ''c1'')), [])"
proof -
  have h: "list_ex (\<lambda>clientTool. ct_name clientTool = tc_name (rq_toolCall browser_request))
             (clientTools browser_options)"
    by (simp add: client_defs)
  have f: "find (\<lambda>t. tool_name t = tc_name browser_call)
             (tn_tools (client_node False (Some mismatched_response))) = Some browser_tool"
    by (simp add: client_defs)
  have w: "tn_wrapToolCall (client_node False (Some mismatched_response))
             = Some (client_wrapToolCall no_stringify browser_options (Some mismatched_response))"
    by (simp add: client_node_def)
  have nh: "\<not> tn_handleToolErrors (client_node False (Some mismatched_response))"
    by (simp add: client_node_def)
  have r: "browser_request
             = tool_request client_input example_config client_messages browser_call browser_tool"
    by (simp add: browser_request_def)
  have c: "rq_toolCall browser_request = browser_call" by (simp add: client_defs)
  have ok: "client_wrapToolCall no_stringify browser_options
       (Some \<lparr>toolMessages = Some [client_reply (Some ''c1'')]\<rparr>) browser_request failing_handler
     = (Inr (RetToolMessage \<lparr>tm_content = CString ''ok'', tm_name = Some ''browser.open'',
                             tm_tool_call_id = Some ''c1'', tm_status = None,
                             tm_artifact = None\<rparr>), [])"
    by (simp add: client_defs)
  have mm: "toolMessages mismatched_response = Some [client_reply (Some ''zz'')]"
           "message_tool_call_id (client_reply (Some ''zz'')) = Some ''zz''"
           "tc_id (rq_toolCall browser_request) = Some ''c1''"
    by (simp_all add: client_defs)
  note inst = C5_client_tool_interrupt_and_checks [OF h, where stringify = no_stringify and handler = failing_handler]
  have mis: "client_wrapToolCall no_stringify browser_options (Some mismatched_response)
               browser_request failing_handler = (Inl (Error (mismatch_text ''zz'' ''c1'')), [])"
    using inst [where response = mismatched_response and message = "client_reply (Some ''zz'')"
                  and mid = "''zz''" and cid = "''c1''"] mm
    by simp
  have emp: "client_wrapToolCall no_stringify browser_options (Some \<lparr>toolMessages = Some []\<rparr>)
       browser_request failing_handler
     = (Inl (Error ''Invalid ClientToolResponse: toolMessages must be an array with exactly one item''),
        [])"
    using inst [where response = "\<lparr>toolMessages = Some []\<rparr>"] by simp
  have int: "client_wrapToolCall no_stringify browser_options None browser_request failing_handler
     = (Inl (GraphInterrupt (ClientToolRequest [browser_call])), [])"
    using inst c by simp
  have rc: "run_call no_stringify (client_node False (Some mismatched_response)) client_input
       example_config client_messages browser_call
     = (Inl (Error (mismatch_text ''zz'' ''c1'')), [])"
    using inst [where node = "client_node False (Some mismatched_response)" and call = browser_call
                  and tool = browser_tool and resume = "Some mismatched_response"
                  and input = client_input and config = example_config
                  and messages = client_messages and msg = "mismatch_text ''zz'' ''c1''"]
          f w r mis nh
    by simp
  from h int ok mis emp rc show ?thesis by blast
qed

text \<open>
  The specification lets a mismatched id fail the run. In a tool node with
  \<open>handleToolErrors\<close> set (the default of the node), resuming with the id "zz" for the
  call "c1" does not fail the run: it returns a command that feeds the error back.
\<close>

theorem C5_mismatch_does_not_fail_run_counterexample:
  "message_tool_call_id (client_reply (Some ''zz'')) = Some ''zz'' \<and>
   tc_id browser_call = Some ''c1'' \<and>
   run 0 no_stringify (client_node True (Some mismatched_response)) client_input example_config
     = (Inr (ResCombined [CombCommand
          \<lparr>cmd_update = Some (UpdObject
             [(''messages'',
               UMessages [ToolMessage (error_tool_message browser_call
                                         (Error (mismatch_text ''zz'' ''c1'')))]),
              (''agent_channel'',
               UObjMessages (UMessages [ToolMessage (error_tool_message browser_call
                                         (Error (mismatch_text ''zz'' ''c1'')))]))]),
           cmd_goto = []\<rparr>]),
        [[CustomEvent ON_TOOL_ERROR browser_call (mismatch_text ''zz'' ''c1'')]])"
  by (simp add: client_defs run_def not_ai_def last_input_message_def input_messages_def
        node_tool_calls_def input_toolCall_def first_rejection_def run_call_def
        invoke_wrapped_def handle_tool_error_def channel_key_def getErrorMessage_def)


subsection \<open>The invoke handler\<close>

text \<open>
  C7. The graph is run with the recursion limit \<open>team.agentConfig.recursionLimit\<close>,
  or the constant \<open>AgentRecursionLimit\<close> when none is configured. When the graph
  raises its recursion error, the run ends with an error. The handler first records the
  last state: it reads the state of the graph and the checkpoint of the state's
  configuration (of the parent configuration when the state has none), and writes into
  the execution the checkpoint namespace and id of the state's configuration, or those
  of the checkpoint found where the configuration has none, or those of the first
  pending write when there are pending writes, and the title of the state when it has
  one. Then it throws an error whose message is the translation of
  \<open>xpert.Error.RecursionLimitReached\<close>, with the limit as argument, for the mapped
  language code of the request: \<open>options.language\<close> when given, otherwise the user's
  preferred language, otherwise "en-US". If reading the state or the checkpoint throws,
  that error ends the run and the execution is left as it was.
\<close>

theorem C7_recursion_error_is_localized:
  assumes "graph (case configured of Some l \<Rightarrow> l | None \<Rightarrow> AgentRecursionLimit)
             = Some (GraphRecursionError m)"
  shows "(\<exists>e. fst (contentStream env translate mapTranslationLanguage graph AgentRecursionLimit
                    configured options_language preferredLanguage execution) = Some e) \<and>
         (getState env = Inr state \<and>
          getCopilotCheckpoint env
            (case gs_config state of Some c \<Rightarrow> Some c | None \<Rightarrow> gs_parentConfig state)
            = Inr found \<longrightarrow>
            contentStream env translate mapTranslationLanguage graph AgentRecursionLimit
                configured options_language preferredLanguage execution
              = (Some (Error (translate ''xpert.Error.RecursionLimitReached''
                   (mapTranslationLanguage
                      (case options_language of
                         Some l \<Rightarrow>
                           if l \<noteq> [] then l
                           else (case preferredLanguage of
                                   Some p \<Rightarrow> if p \<noteq> [] then p else ''en-US''
                                 | None \<Rightarrow> ''en-US'')
                       | None \<Rightarrow>
                           (case preferredLanguage of
                              Some p \<Rightarrow> if p \<noteq> [] then p else ''en-US''
                            | None \<Rightarrow> ''en-US'')))
                   (case configured of Some l \<Rightarrow> l | None \<Rightarrow> AgentRecursionLimit))),
                 execution
                   \<lparr>ex_checkpointNs :=
                      (case cc_pendingWrites found of
                         Some (w # ws) \<Rightarrow> checkpoint_ns w
                       | _ \<Rightarrow>
                          (case (case gs_config state of
                                   Some c \<Rightarrow> checkpoint_ns c | None \<Rightarrow> None) of
                             Some ns \<Rightarrow> Some ns
                           | None \<Rightarrow>
                               (case cc_checkpoint found of
                                  Some c \<Rightarrow> checkpoint_ns c | None \<Rightarrow> None))),
                    ex_checkpointId :=
                      (case cc_pendingWrites found of
                         Some (w # ws) \<Rightarrow> checkpoint_id w
                       | _ \<Rightarrow>
                          (case (case gs_config state of
                                   Some c \<Rightarrow> checkpoint_id c | None \<Rightarrow> None) of
                             Some i \<Rightarrow> Some i
                           | None \<Rightarrow>
                               (case cc_checkpoint found of
                                  Some c \<Rightarrow> checkpoint_id c | None \<Rightarrow> None))),
                    ex_title :=
                      (case gs_title state of
                         Some t \<Rightarrow> if t \<noteq> [] then Some t else ex_title execution
                       | None \<Rightarrow> ex_title execution)\<rparr>)) \<and>
         (getState env = Inl e' \<longrightarrow>
            contentStream env translate mapTranslationLanguage graph AgentRecursionLimit
                configured options_language preferredLanguage execution
              = (Some e', execution)) \<and>
         (getState env = Inr state \<and>
          getCopilotCheckpoint env
            (case gs_config state of Some c \<Rightarrow> Some c | None \<Rightarrow> gs_parentConfig state)
            = Inl e' \<longrightarrow>
            contentStream env translate mapTranslationLanguage graph AgentRecursionLimit
                configured options_language preferredLanguage execution
              = (Some e', execution))"
proof -
  have limit: "recursionLimit configured AgentRecursionLimit
                 = (case configured of Some l \<Rightarrow> l | None \<Rightarrow> AgentRecursionLimit)"
    by (simp add: recursionLimit_def)
  have language: "languageCode options_language preferredLanguage
      = (case options_language of
           Some l \<Rightarrow>
             if l \<noteq> [] then l
             else (case preferredLanguage of
                     Some p \<Rightarrow> if p \<noteq> [] then p else ''en-US''
                   | None \<Rightarrow> ''en-US'')
         | None \<Rightarrow>
             (case preferredLanguage of
                Some p \<Rightarrow> if p \<noteq> [] then p else ''en-US''
              | None \<Rightarrow> ''en-US''))"
    by (simp add: languageCode_def truthy_or_def split: option.splits)
  have stream: "contentStream env translate mapTranslationLanguage graph AgentRecursionLimit
                  configured options_language preferredLanguage execution
      = (case recordLastState env execution of
           Inl e \<Rightarrow> (Some e, execution)
         | Inr (state, execution') \<Rightarrow>
             (Some (Error (translate ''xpert.Error.RecursionLimitReached''
                (mapTranslationLanguage (languageCode options_language preferredLanguage))
                (recursionLimit configured AgentRecursionLimit))), execution'))"
    using assms
    by (simp add: contentStream_def on_stream_error_def Let_def limit split: sum.splits)
  have 1: "\<exists>e. fst (contentStream env translate mapTranslationLanguage graph AgentRecursionLimit
                    configured options_language preferredLanguage execution) = Some e"
    unfolding stream by (simp split: sum.splits prod.splits)
  have 2: "getState env = Inr state \<and>
          getCopilotCheckpoint env
            (case gs_config state of Some c \<Rightarrow> Some c | None \<Rightarrow> gs_parentConfig state)
            = Inr found \<longrightarrow>
            contentStream env translate mapTranslationLanguage graph AgentRecursionLimit
                configured options_language preferredLanguage execution
              = (Some (Error (translate ''xpert.Error.RecursionLimitReached''
                   (mapTranslationLanguage
                      (case options_language of
                         Some l \<Rightarrow>
                           if l \<noteq> [] then l
                           else (case preferredLanguage of
                                   Some p \<Rightarrow> if p \<noteq> [] then p else ''en-US''
                                 | None \<Rightarrow> ''en-US'')
                       | None \<Rightarrow>
                           (case preferredLanguage of
                              Some p \<Rightarrow> if p \<noteq> [] then p else ''en-US''
                            | None \<Rightarrow> ''en-US'')))
                   (case configured of Some l \<Rightarrow> l | None \<Rightarrow> AgentRecursionLimit))),
                 execution
                   \<lparr>ex_checkpointNs :=
                      (case cc_pendingWrites found of
                         Some (w # ws) \<Rightarrow> checkpoint_ns w
                       | _ \<Rightarrow>
                          (case (case gs_config state of
                                   Some c \<Rightarrow> checkpoint_ns c | None \<Rightarrow> None) of
                             Some ns \<Rightarrow> Some ns
                           | None \<Rightarrow>
                               (case cc_checkpoint found of
                                  Some c \<Rightarrow> checkpoint_ns c | None \<Rightarrow> None))),
                    ex_checkpointId :=
                      (case cc_pendingWrites found of
                         Some (w # ws) \<Rightarrow> checkpoint_id w
                       | _ \<Rightarrow>
                          (case (case gs_config state of
                                   Some c \<Rightarrow> checkpoint_id c | None \<Rightarrow> None) of
                             Some i \<Rightarrow> Some i
                           | None \<Rightarrow>
                               (case cc_checkpoint found of
                                  Some c \<Rightarrow> checkpoint_id c | None \<Rightarrow> None))),
                    ex_title :=
                      (case gs_title state of
                         Some t \<Rightarrow> if t \<noteq> [] then Some t else ex_title execution
                       | None \<Rightarrow> ex_title execution)\<rparr>)"
    unfolding stream language [symmetric] limit [symmetric]
    by (auto simp: recordLastState_def orElse_def Let_def
           split: option.splits list.splits)
  have 3: "getState env = Inl e' \<longrightarrow>
            contentStream env translate mapTranslationLanguage graph AgentRecursionLimit
                configured options_language preferredLanguage execution
              = (Some e', execution)"
    unfolding stream by (simp add: recordLastState_def)
  have 4: "getState env = Inr state \<and>
          getCopilotCheckpoint env
            (case gs_config state of Some c \<Rightarrow> Some c | None \<Rightarrow> gs_parentConfig state)
            = Inl e' \<longrightarrow>
            contentStream env translate mapTranslationLanguage graph AgentRecursionLimit
                configured options_language preferredLanguage execution
              = (Some e', execution)"
    unfolding stream by (simp add: recordLastState_def orElse_def)
  show ?thesis by (intro conjI) (rule 1 2 3 4)+
qed

theorem C7_recursion_error_is_localized_witness:
  "looping_graph (case Some 4 of Some l \<Rightarrow> l | None \<Rightarrow> 25)
     = Some (GraphRecursionError ''Recursion limit reached'') \<and>
   getState pending_services = Inr demo_state \<and>
   getCopilotCheckpoint pending_services (gs_config demo_state)
     = Inr \<lparr>cc_checkpoint = Some \<lparr>checkpoint_ns = Some [], checkpoint_id = Some ''cp3''\<rparr>,
            cc_pendingWrites = Some [\<lparr>checkpoint_ns = Some ''tools'',
                                      checkpoint_id = Some ''cp5''\<rparr>]\<rparr> \<and>
   contentStream pending_services demo_translate demo_language looping_graph 25 (Some 4)
       None (Some ''zh-CN'') demo_execution
     = (Some (Error ''zh-Hans:xpert.Error.RecursionLimitReached''),
        demo_execution\<lparr>ex_checkpointNs := Some ''tools'', ex_checkpointId := Some ''cp5''\<rparr>) \<and>
   contentStream demo_services demo_translate demo_language looping_graph 25 (Some 4)
       (Some []) None demo_execution
     = (Some (Error ''en:xpert.Error.RecursionLimitReached''),
        demo_execution\<lparr>ex_checkpointNs := Some [], ex_checkpointId := Some ''cp4''\<rparr>)"
proof -
  have g: "looping_graph (case Some 4 of Some l \<Rightarrow> l | None \<Rightarrow> 25)
             = Some (GraphRecursionError ''Recursion limit reached'')"
    by (simp add: looping_graph_def)
  have s: "getState pending_services = Inr demo_state"
          "getState demo_services = Inr demo_state"
    by (simp_all add: pending_services_def demo_services_def)
  have c: "getCopilotCheckpoint pending_services (gs_config demo_state)
     = Inr \<lparr>cc_checkpoint = Some \<lparr>checkpoint_ns = Some [], checkpoint_id = Some ''cp3''\<rparr>,
            cc_pendingWrites = Some [\<lparr>checkpoint_ns = Some ''tools'',
                                      checkpoint_id = Some ''cp5''\<rparr>]\<rparr>"
    by (simp add: pending_services_def)
  have c': "getCopilotCheckpoint demo_services
              (case gs_config demo_state of Some c \<Rightarrow> Some c | None \<Rightarrow> gs_parentConfig demo_state)
     = Inr \<lparr>cc_checkpoint = None, cc_pendingWrites = None\<rparr>"
    by (simp add: demo_services_def)
  have c'': "getCopilotCheckpoint pending_services
              (case gs_config demo_state of Some c \<Rightarrow> Some c | None \<Rightarrow> gs_parentConfig demo_state)
     = Inr \<lparr>cc_checkpoint = Some \<lparr>checkpoint_ns = Some [], checkpoint_id = Some ''cp3''\<rparr>,
            cc_pendingWrites = Some [\<lparr>checkpoint_ns = Some ''tools'',
                                      checkpoint_id = Some ''cp5''\<rparr>]\<rparr>"
    by (simp add: pending_services_def)
  note inst = C7_recursion_error_is_localized
                [where graph = looping_graph and configured = "Some 4"
                   and AgentRecursionLimit = 25 and m = "''Recursion limit reached''",
                 OF g, THEN conjunct2, THEN conjunct1, rule_format]
  have a: "contentStream pending_services demo_translate demo_language looping_graph 25 (Some 4)
       None (Some ''zh-CN'') demo_execution
     = (Some (Error ''zh-Hans:xpert.Error.RecursionLimitReached''),
        demo_execution\<lparr>ex_checkpointNs := Some ''tools'', ex_checkpointId := Some ''cp5''\<rparr>)"
    unfolding inst [OF conjI [OF s(1) c'']]
    by (simp add: demo_translate_def demo_language_def demo_state_def demo_execution_def)
  have b: "contentStream demo_services demo_translate demo_language looping_graph 25 (Some 4)
       (Some []) None demo_execution
     = (Some (Error ''en:xpert.Error.RecursionLimitReached''),
        demo_execution\<lparr>ex_checkpointNs := Some [], ex_checkpointId := Some ''cp4''\<rparr>)"
    unfolding inst [OF conjI [OF s(2) c']]
    by (simp add: demo_translate_def demo_language_def demo_state_def demo_execution_def)
  from g s(1) c a b show ?thesis by (intro conjI)
qed

text \<open>
  C8, as the code has it. When the stream is unsubscribed, the handler triggers the
  abort signal; then, if the state and the checkpoints can be read and the upsert
  succeeds, it records the execution with the checkpoint id, the status ERROR and the
  error text "Aborted!"; if one of these steps throws, the error is swallowed and
  nothing is recorded.
\<close>

theorem C8_unsubscribe_aborts_and_records_error:
  "aborted (on_unsubscribe env execution r) \<and>
   (getState env = Inr state \<and> getCheckpointsByParent env (gs_parentConfig state) = Inr checkpoints
      \<and> upsertFails env = None \<longrightarrow>
      upserts (on_unsubscribe env execution r) = upserts r @
        [\<lparr>up_id = ex_id execution,
          up_checkpointId = orElse (Option.bind (gs_config state) checkpoint_id)
                              (case checkpoints of [] \<Rightarrow> None | c # _ \<Rightarrow> checkpoint_id c),
          up_status = ERROR,
          up_error = ''Aborted!''\<rparr>]) \<and>
   ((\<exists>e. getState env = Inl e) \<or>
    (\<exists>state e. getState env = Inr state \<and> getCheckpointsByParent env (gs_parentConfig state) = Inl e) \<or>
    (\<exists>e. upsertFails env = Some e) \<longrightarrow>
      upserts (on_unsubscribe env execution r) = upserts r)"
  by (auto simp: on_unsubscribe_def Let_def split: sum.splits option.splits)

theorem C8_unsubscribe_aborts_and_records_error_witness:
  "getState demo_services = Inr demo_state \<and>
   getCheckpointsByParent demo_services (gs_parentConfig demo_state) = Inr [] \<and>
   upsertFails demo_services = None \<and>
   on_unsubscribe demo_services demo_execution \<lparr>aborted = False, upserts = []\<rparr>
     = \<lparr>aborted = True,
        upserts = [\<lparr>up_id = ''run1'', up_checkpointId = Some ''cp4'',
                    up_status = ERROR, up_error = ''Aborted!''\<rparr>]\<rparr>"
proof -
  have a: "getState demo_services = Inr demo_state"
          "getCheckpointsByParent demo_services (gs_parentConfig demo_state) = Inr []"
          "upsertFails demo_services = None"
    by (simp_all add: demo_services_def)
  from C8_unsubscribe_aborts_and_records_error
         [of demo_services demo_execution "\<lparr>aborted = False, upserts = []\<rparr>" demo_state "[]"] a
  show ?thesis
    by (simp add: demo_state_def demo_execution_def orElse_def)
qed

text \<open>
  The specification has the run recorded as ABORTED. The execution row that the
  unsubscribe callback writes has the status ERROR.
\<close>

theorem C8_status_aborted_counterexample:
  "map up_status
     (upserts (on_unsubscribe demo_services demo_execution \<lparr>aborted = False, upserts = []\<rparr>))
     = [ERROR] \<and>
   ERROR \<noteq> ABORTED"
  by (simp add: on_unsubscribe_def demo_services_def Let_def)

subsection \<open>Middleware composition\<close>

lemma wrappedModelHandler_Nil: "wrappedModelHandler [] core = core"
  by (simp add: wrappedModelHandler_def)

lemma wrappedModelHandler_Cons:
  "wrappedModelHandler (m # ms) core = wrap_step (wrappedModelHandler ms core) m"
  by (simp add: wrappedModelHandler_def)

lemma wrappedModelHandler_snoc:
  "wrappedModelHandler (ms @ [m]) core = wrappedModelHandler ms (wrap_step core m)"
  by (simp add: wrappedModelHandler_def)

text \<open>
  C9, as the code has it. The composition nests the middlewares in declaration order:
  the first-declared middleware with a \<open>wrapModelCall\<close> hook is the outermost wrapper
  (it receives the composition of all later ones as its \<open>next\<close>), the last-declared
  one is the innermost and is the only one that calls the core model-call handler
  directly, and a middleware without the hook is skipped.
\<close>

theorem C9_first_declared_is_outermost:
  "(wrapModelCall m = Some w \<longrightarrow>
      wrappedModelHandler (Some m # ms) core = (\<lambda>request. w request (wrappedModelHandler ms core)) \<and>
      wrappedModelHandler (ms @ [Some m]) core = wrappedModelHandler ms (\<lambda>request. w request core)) \<and>
   (wrapModelCall m = None \<longrightarrow>
      wrappedModelHandler (Some m # ms) core = wrappedModelHandler ms core \<and>
      wrappedModelHandler (ms @ [Some m]) core = wrappedModelHandler ms core) \<and>
   wrappedModelHandler (None # ms) core = wrappedModelHandler ms core \<and>
   wrappedModelHandler [] core = core"
  by (simp add: wrappedModelHandler_Cons wrappedModelHandler_snoc wrappedModelHandler_Nil wrap_step_def)

theorem C9_first_declared_is_outermost_witness:
  "wrapModelCall (bracket_mw ''A'') \<noteq> None \<and>
   wrappedModelHandler [Some (bracket_mw ''A''), Some (bracket_mw ''B'')] echo_core ''x''
     = ''A(B(x))''"
  using C9_first_declared_is_outermost
          [of "bracket_mw ''A''" "the (wrapModelCall (bracket_mw ''A''))"
              "[Some (bracket_mw ''B'')]" echo_core]
        C9_first_declared_is_outermost
          [of "bracket_mw ''B''" "the (wrapModelCall (bracket_mw ''B''))" "[]" echo_core]
  by (simp add: bracket_mw_def echo_core_def)

text \<open>
  The specification's reading (the last-declared middleware is the outermost wrapper, wrapping
  the composition of the earlier ones) fails for two middlewares: the handler built from
  \<open>[A, B]\<close> is not \<open>B\<close> wrapped around the handler built from \<open>[A]\<close>.
\<close>

theorem C9_last_declared_outermost_counterexample:
  "wrappedModelHandler [Some (bracket_mw ''A''), Some (bracket_mw ''B'')] echo_core ''x''
     = ''A(B(x))'' \<and>
   the (wrapModelCall (bracket_mw ''B'')) ''x''
       (wrappedModelHandler [Some (bracket_mw ''A'')] echo_core)
     = ''B(A(x))'' \<and>
   wrappedModelHandler [Some (bracket_mw ''A''), Some (bracket_mw ''B'')] echo_core ''x''
     \<noteq> the (wrapModelCall (bracket_mw ''B'')) ''x''
          (wrappedModelHandler [Some (bracket_mw ''A'')] echo_core)"
  by (simp add: wrappedModelHandler_def wrap_step_def bracket_mw_def echo_core_def)

end
